theory Spec2Isabelle
  imports Main "HOL-Library.Word"
begin

unbundle bit_operations_syntax

section \<open>Strings and source positions\<close>

text \<open>
  A JavaScript string is a sequence of UTF-16 code units; offsets into the source text
  count code units.  Positions are JavaScript numbers that the rules add and subtract, so
  they are integers here.
\<close>

type_synonym code_unit = nat
type_synonym jsstring = "code_unit list"

definition js_str :: "string \<Rightarrow> jsstring" where
  "js_str s = map of_char s"

text \<open>\<^verbatim>\<open>String.prototype.slice(start, end)\<close> for the non-negative or negative
  integer arguments the rules pass: negative arguments count from the end, both are
  clamped to the string.\<close>

definition js_slice :: "jsstring \<Rightarrow> int \<Rightarrow> int \<Rightarrow> jsstring" where
  "js_slice s a b =
     (let n = int (length s);
          from = (if a < 0 then max (n + a) 0 else min a n);
          to = (if b < 0 then max (n + b) 0 else min b n)
      in take (nat (to - from)) (drop (nat from) s))"

definition js_slice_from :: "jsstring \<Rightarrow> int \<Rightarrow> jsstring" where
  "js_slice_from s a = js_slice s a (int (length s))"

section \<open>Syntax nodes\<close>

text \<open>The members of \<^verbatim>\<open>ts.SyntaxKind\<close> that the rules name; any other kind is
  \<open>OtherKind\<close> with its number.\<close>

datatype syntax_kind =
    EndOfFileToken | StringLiteral | QuestionDotToken | LessThanToken | GreaterThanToken
  | LessThanEqualsToken | GreaterThanEqualsToken | EqualsEqualsToken
  | ExclamationEqualsToken | EqualsEqualsEqualsToken | ExclamationEqualsEqualsToken
  | ExclamationToken | AmpersandAmpersandToken | BarBarToken | QuestionQuestionToken
  | EqualsToken | BarBarEqualsToken | AmpersandAmpersandEqualsToken
  | QuestionQuestionEqualsToken | OpenBraceToken | CloseBraceToken
  | Identifier | NullKeyword | ThisKeyword | AsKeyword | DeclareKeyword | UndefinedKeyword
  | PropertyAccessExpression | ElementAccessExpression | CallExpression
  | TypeAssertionExpression | FunctionExpression | ArrowFunction | PrefixUnaryExpression
  | BinaryExpression | ConditionalExpression | TemplateExpression | AsExpression
  | NonNullExpression | TypeReference | Block | VariableStatement | IfStatement
  | DoStatement | WhileStatement | ForStatement | ReturnStatement | SwitchStatement
  | VariableDeclaration | VariableDeclarationList | CaseBlock | CaseClause | DefaultClause
  | SourceFile | OtherKind nat

text \<open>
  A node carries its identity (\<open>nid\<close>: two references are \<^verbatim>\<open>===\<close> exactly when
  their \<open>nid\<close>s agree), its full start \<open>pos\<close>, the start \<open>nstart\<close> that
  \<^verbatim>\<open>getStart(sourceFile)\<close> returns, its end \<open>nend\<close>, and the fields of its
  interface in the compiler's declaration order.  The rules reach a node's fields only
  behind a type guard, which is a match on the shape here.  Tokens and keywords are
  leaves.  The \<^verbatim>\<open>parent\<close> back-reference is the head of the ancestor list that the
  traversal hands to each callback.
\<close>

datatype node = Node (nid: nat) (pos: int) (nstart: int) (nend: int) (shape: node_shape)
and node_shape =
    Leaf syntax_kind
  | IdentifierN jsstring
    \<comment> \<open>escapedText\<close>
  | SourceFileN "node list"
    \<comment> \<open>statements followed by the end-of-file token\<close>
  | BinaryExpressionN node node node
    \<comment> \<open>left, operatorToken, right\<close>
  | ConditionalExpressionN node node node node node
    \<comment> \<open>condition, questionToken, whenTrue, colonToken, whenFalse\<close>
  | PrefixUnaryExpressionN syntax_kind node
    \<comment> \<open>operator, operand\<close>
  | NonNullExpressionN node
    \<comment> \<open>expression\<close>
  | AsExpressionN node node
    \<comment> \<open>expression, type\<close>
  | TypeAssertionN node node
    \<comment> \<open>type, expression\<close>
  | CallExpressionN node "node option" "node list" "node list"
    \<comment> \<open>expression, questionDotToken, typeArguments, arguments\<close>
  | PropertyAccessExpressionN node "node option" node
    \<comment> \<open>expression, questionDotToken, name\<close>
  | ElementAccessExpressionN node "node option" node
    \<comment> \<open>expression, questionDotToken, argumentExpression\<close>
  | IfStatementN node node "node option"
    \<comment> \<open>expression, thenStatement, elseStatement\<close>
  | DoStatementN node node
    \<comment> \<open>statement, expression\<close>
  | WhileStatementN node node
    \<comment> \<open>expression, statement\<close>
  | ForStatementN "node option" "node option" "node option" node
    \<comment> \<open>initializer, condition, incrementor, statement\<close>
  | SwitchStatementN node node
    \<comment> \<open>expression, caseBlock\<close>
  | CaseBlockN "node list"
    \<comment> \<open>clauses\<close>
  | CaseClauseN node "node list"
    \<comment> \<open>expression, statements\<close>
  | DefaultClauseN "node list"
    \<comment> \<open>statements\<close>
  | ArrowFunctionN "node list" node
    \<comment> \<open>modifiers, type parameters, parameters, return type and arrow; body\<close>
  | FunctionExpressionN "node list" node
    \<comment> \<open>modifiers, name, type parameters, parameters and return type; body\<close>
  | BlockN "node list"
    \<comment> \<open>statements\<close>
  | ReturnStatementN "node option"
    \<comment> \<open>expression\<close>
  | TemplateExpressionN node "node list"
    \<comment> \<open>head, templateSpans\<close>
  | TypeReferenceN node "node list"
    \<comment> \<open>typeName, typeArguments\<close>
  | VariableDeclarationN node "node option" "node option" "node option"
    \<comment> \<open>name, exclamationToken, type, initializer\<close>
  | VariableDeclarationListN bool "node list"
    \<comment> \<open>whether \<^verbatim>\<open>flags & NodeFlags.Const\<close> is set; declarations\<close>
  | VariableStatementN "node list" node
    \<comment> \<open>modifiers, declarationList\<close>
  | OtherN nat "node list"
    \<comment> \<open>a node of any other kind, with its kind number and its children\<close>

fun kind_of_shape :: "node_shape \<Rightarrow> syntax_kind" where
  "kind_of_shape (Leaf k) = k"
| "kind_of_shape (IdentifierN _) = Identifier"
| "kind_of_shape (SourceFileN _) = SourceFile"
| "kind_of_shape (BinaryExpressionN _ _ _) = BinaryExpression"
| "kind_of_shape (ConditionalExpressionN _ _ _ _ _) = ConditionalExpression"
| "kind_of_shape (PrefixUnaryExpressionN _ _) = PrefixUnaryExpression"
| "kind_of_shape (NonNullExpressionN _) = NonNullExpression"
| "kind_of_shape (AsExpressionN _ _) = AsExpression"
| "kind_of_shape (TypeAssertionN _ _) = TypeAssertionExpression"
| "kind_of_shape (CallExpressionN _ _ _ _) = CallExpression"
| "kind_of_shape (PropertyAccessExpressionN _ _ _) = PropertyAccessExpression"
| "kind_of_shape (ElementAccessExpressionN _ _ _) = ElementAccessExpression"
| "kind_of_shape (IfStatementN _ _ _) = IfStatement"
| "kind_of_shape (DoStatementN _ _) = DoStatement"
| "kind_of_shape (WhileStatementN _ _) = WhileStatement"
| "kind_of_shape (ForStatementN _ _ _ _) = ForStatement"
| "kind_of_shape (SwitchStatementN _ _) = SwitchStatement"
| "kind_of_shape (CaseBlockN _) = CaseBlock"
| "kind_of_shape (CaseClauseN _ _) = CaseClause"
| "kind_of_shape (DefaultClauseN _) = DefaultClause"
| "kind_of_shape (ArrowFunctionN _ _) = ArrowFunction"
| "kind_of_shape (FunctionExpressionN _ _) = FunctionExpression"
| "kind_of_shape (BlockN _) = Block"
| "kind_of_shape (ReturnStatementN _) = ReturnStatement"
| "kind_of_shape (TemplateExpressionN _ _) = TemplateExpression"
| "kind_of_shape (TypeReferenceN _ _) = TypeReference"
| "kind_of_shape (VariableDeclarationN _ _ _ _) = VariableDeclaration"
| "kind_of_shape (VariableDeclarationListN _ _) = VariableDeclarationList"
| "kind_of_shape (VariableStatementN _ _) = VariableStatement"
| "kind_of_shape (OtherN k _) = OtherKind k"

definition kind :: "node \<Rightarrow> syntax_kind" where
  "kind n = kind_of_shape (shape n)"

definition same_node :: "node \<Rightarrow> node \<Rightarrow> bool" where
  "same_node a b = (nid a = nid b)"

text \<open>The children that \<^verbatim>\<open>forEachChild\<close> visits, in order.\<close>

fun forEachChild_of_shape :: "node_shape \<Rightarrow> node list" where
  "forEachChild_of_shape (Leaf k) = []"
| "forEachChild_of_shape (IdentifierN _) = []"
| "forEachChild_of_shape (SourceFileN ss) = ss"
| "forEachChild_of_shape (BinaryExpressionN l op r) = [l, op, r]"
| "forEachChild_of_shape (ConditionalExpressionN c q t co f) = [c, q, t, co, f]"
| "forEachChild_of_shape (PrefixUnaryExpressionN _ e) = [e]"
| "forEachChild_of_shape (NonNullExpressionN e) = [e]"
| "forEachChild_of_shape (AsExpressionN e t) = [e, t]"
| "forEachChild_of_shape (TypeAssertionN t e) = [t, e]"
| "forEachChild_of_shape (CallExpressionN e q tas as) = e # (case q of None \<Rightarrow> [] | Some t \<Rightarrow> [t]) @ tas @ as"
| "forEachChild_of_shape (PropertyAccessExpressionN e q nm) = e # (case q of None \<Rightarrow> [] | Some t \<Rightarrow> [t]) @ [nm]"
| "forEachChild_of_shape (ElementAccessExpressionN e q a) = e # (case q of None \<Rightarrow> [] | Some t \<Rightarrow> [t]) @ [a]"
| "forEachChild_of_shape (IfStatementN e t el) = [e, t] @ (case el of None \<Rightarrow> [] | Some s \<Rightarrow> [s])"
| "forEachChild_of_shape (DoStatementN s e) = [s, e]"
| "forEachChild_of_shape (WhileStatementN e s) = [e, s]"
| "forEachChild_of_shape (ForStatementN i c inc s) =
     (case i of None \<Rightarrow> [] | Some x \<Rightarrow> [x]) @ (case c of None \<Rightarrow> [] | Some x \<Rightarrow> [x])
     @ (case inc of None \<Rightarrow> [] | Some x \<Rightarrow> [x]) @ [s]"
| "forEachChild_of_shape (SwitchStatementN e cb) = [e, cb]"
| "forEachChild_of_shape (CaseBlockN cls) = cls"
| "forEachChild_of_shape (CaseClauseN e ss) = e # ss"
| "forEachChild_of_shape (DefaultClauseN ss) = ss"
| "forEachChild_of_shape (ArrowFunctionN xs b) = xs @ [b]"
| "forEachChild_of_shape (FunctionExpressionN xs b) = xs @ [b]"
| "forEachChild_of_shape (BlockN ss) = ss"
| "forEachChild_of_shape (ReturnStatementN e) = (case e of None \<Rightarrow> [] | Some x \<Rightarrow> [x])"
| "forEachChild_of_shape (TemplateExpressionN h sp) = h # sp"
| "forEachChild_of_shape (TypeReferenceN nm tas) = nm # tas"
| "forEachChild_of_shape (VariableDeclarationN nm ex ty ini) =
     nm # (case ex of None \<Rightarrow> [] | Some x \<Rightarrow> [x]) @ (case ty of None \<Rightarrow> [] | Some x \<Rightarrow> [x])
     @ (case ini of None \<Rightarrow> [] | Some x \<Rightarrow> [x])"
| "forEachChild_of_shape (VariableDeclarationListN _ ds) = ds"
| "forEachChild_of_shape (VariableStatementN ms dl) = ms @ [dl]"
| "forEachChild_of_shape (OtherN _ cs) = cs"

definition forEachChild :: "node \<Rightarrow> node list" where
  "forEachChild n = forEachChild_of_shape (shape n)"

text \<open>
  What the host's source file provides: the text, the file name, the token-inclusive
  child list \<^verbatim>\<open>getChildren(sourceFile)\<close> of a node, its first and last token, the
  leading comment ranges at a position, and the column of a position.
\<close>

datatype comment_kind = SingleLineCommentTrivia | MultiLineCommentTrivia

record comment_range =
  ckind :: comment_kind
  cpos :: int
  cend :: int

record source_file =
  sf_text :: jsstring
  fileName :: jsstring
  getChildren :: "node \<Rightarrow> node list"
  getFirstToken :: "node \<Rightarrow> node option"
  getLastToken :: "node \<Rightarrow> node option"
  getLeadingCommentRanges :: "int \<Rightarrow> comment_range list option"
  characterOfPosition :: "int \<Rightarrow> nat"

definition getText :: "source_file \<Rightarrow> node \<Rightarrow> jsstring" where
  "getText sf n = js_slice (sf_text sf) (nstart n) (nend n)"

definition getWidth :: "node \<Rightarrow> int" where
  "getWidth n = nend n - nstart n"

section \<open>The reporting channel\<close>

text \<open>
  \<^verbatim>\<open>report(message, start, end)\<close> registers a diagnostic; \<^verbatim>\<open>withFix\<close> attaches a
  named fix whose edits are computed by a callback.  A callback that throws is recorded
  as the error it throws.
\<close>

datatype error = NullThrows jsstring | TypeError

record text_change =
  newText :: jsstring
  span_start :: int
  span_length :: int

record code_fix =
  description :: jsstring
  textChanges :: "error + text_change list"

record diagnostic =
  message :: jsstring
  dstart :: int
  dend :: int
  dfixes :: "code_fix list"

definition report :: "jsstring \<Rightarrow> int \<Rightarrow> int \<Rightarrow> diagnostic" where
  "report m s e = \<lparr>message = m, dstart = s, dend = e, dfixes = []\<rparr>"

definition withFix :: "diagnostic \<Rightarrow> jsstring \<Rightarrow> error + text_change list \<Rightarrow> diagnostic" where
  "withFix d desc tc = d\<lparr>dfixes := dfixes d @ [\<lparr>description = desc, textChanges = tc\<rparr>]\<rparr>"

text \<open>\<^verbatim>\<open>NullThrowsReasons.MissingToken\<close> and \<^verbatim>\<open>nullThrows\<close>.\<close>

definition MissingToken :: "string \<Rightarrow> string \<Rightarrow> jsstring" where
  "MissingToken token thing =
     js_str (''Expected to find a '' @ token @ '' for the '' @ thing @ ''.'')"

definition nullThrows :: "'a option \<Rightarrow> jsstring \<Rightarrow> error + 'a" where
  "nullThrows v msg =
     (case v of None \<Rightarrow> Inl (NullThrows (js_str ''Non-null Assertion Failed: '' @ msg))
      | Some x \<Rightarrow> Inr x)"

section \<open>Token lookup\<close>

text \<open>\<^verbatim>\<open>Array.prototype.indexOf\<close> on a list of nodes: the first index holding the very
  node, or \<open>-1\<close>.\<close>

fun indexOf_from :: "node list \<Rightarrow> node \<Rightarrow> int \<Rightarrow> int" where
  "indexOf_from [] n i = -1"
| "indexOf_from (c # cs) n i = (if same_node c n then i else indexOf_from cs n (i + 1))"

definition indexOf :: "node list \<Rightarrow> node \<Rightarrow> int" where
  "indexOf cs n = indexOf_from cs n 0"

text \<open>The condition argument may be absent (\<^verbatim>\<open>!condition\<close>).\<close>

definition holds :: "(node \<Rightarrow> bool) option \<Rightarrow> node \<Rightarrow> bool" where
  "holds condition n = (case condition of None \<Rightarrow> True | Some c \<Rightarrow> c n)"

function getTokenBefore_loop :: "(node \<Rightarrow> bool) option \<Rightarrow> node \<Rightarrow> int \<Rightarrow> node option" where
  "getTokenBefore_loop condition n i =
     (if i \<ge> 0
      then (if holds condition n then Some n else getTokenBefore_loop condition n (i - 1))
      else None)"
  by pat_completeness auto
termination
  by (relation "measure (\<lambda>(c, n, i). nat (i + 1))") auto

text \<open>\<open>children\<close> is \<^verbatim>\<open>node.parent.getChildren(sourceFile)\<close>.\<close>

definition getTokenBefore :: "node list \<Rightarrow> node \<Rightarrow> (node \<Rightarrow> bool) option \<Rightarrow> node option" where
  "getTokenBefore children n condition =
     getTokenBefore_loop condition n (indexOf children n - 1)"

function getTokenAfter_loop :: "(node \<Rightarrow> bool) option \<Rightarrow> node \<Rightarrow> int \<Rightarrow> int \<Rightarrow> node option" where
  "getTokenAfter_loop condition n count i =
     (if i < count
      then (if holds condition n then Some n else getTokenAfter_loop condition n count (i + 1))
      else None)"
  by pat_completeness auto
termination
  by (relation "measure (\<lambda>(c, n, count, i). nat (count - i))") auto

definition getTokenAfter :: "node list \<Rightarrow> node \<Rightarrow> (node \<Rightarrow> bool) option \<Rightarrow> node option" where
  "getTokenAfter children n condition =
     getTokenAfter_loop condition n (int (length children)) (indexOf children n + 1)"

declare getTokenAfter_loop.simps [simp del] getTokenBefore_loop.simps [simp del]

text \<open>
  What the specification says the two lookups return: the first sibling after (before) the
  node in the parent's child list that satisfies the condition.
\<close>

definition spec_tokenAfter :: "node list \<Rightarrow> node \<Rightarrow> (node \<Rightarrow> bool) option \<Rightarrow> node option" where
  "spec_tokenAfter children n condition =
     find (holds condition) (drop (nat (indexOf children n + 1)) children)"

definition spec_tokenBefore :: "node list \<Rightarrow> node \<Rightarrow> (node \<Rightarrow> bool) option \<Rightarrow> node option" where
  "spec_tokenBefore children n condition =
     find (holds condition) (rev (take (nat (indexOf children n)) children))"

section \<open>Types and the type checker\<close>

text \<open>The members of \<^verbatim>\<open>ts.TypeFlags\<close> that the rules name, as the compiler numbers
  them.\<close>

type_synonym type_flags = "32 word"

abbreviation (input) TypeFlags_Any :: type_flags where "TypeFlags_Any \<equiv> 1"
abbreviation (input) TypeFlags_Unknown :: type_flags where "TypeFlags_Unknown \<equiv> 2"
abbreviation (input) TypeFlags_String :: type_flags where "TypeFlags_String \<equiv> 4"
abbreviation (input) TypeFlags_Number :: type_flags where "TypeFlags_Number \<equiv> 8"
abbreviation (input) TypeFlags_BigInt :: type_flags where "TypeFlags_BigInt \<equiv> 64"
abbreviation (input) TypeFlags_StringLiteral :: type_flags where "TypeFlags_StringLiteral \<equiv> 128"
abbreviation (input) TypeFlags_NumberLiteral :: type_flags where "TypeFlags_NumberLiteral \<equiv> 256"
abbreviation (input) TypeFlags_BooleanLiteral :: type_flags where "TypeFlags_BooleanLiteral \<equiv> 512"
abbreviation (input) TypeFlags_BigIntLiteral :: type_flags where "TypeFlags_BigIntLiteral \<equiv> 2048"
abbreviation (input) TypeFlags_UniqueESSymbol :: type_flags where "TypeFlags_UniqueESSymbol \<equiv> 8192"
abbreviation (input) TypeFlags_ESSymbolLike :: type_flags where "TypeFlags_ESSymbolLike \<equiv> 12288"
abbreviation (input) TypeFlags_Void :: type_flags where "TypeFlags_Void \<equiv> 16384"
abbreviation (input) TypeFlags_Undefined :: type_flags where "TypeFlags_Undefined \<equiv> 32768"
abbreviation (input) TypeFlags_Null :: type_flags where "TypeFlags_Null \<equiv> 65536"
abbreviation (input) TypeFlags_Never :: type_flags where "TypeFlags_Never \<equiv> 131072"
abbreviation (input) TypeFlags_TypeParameter :: type_flags where "TypeFlags_TypeParameter \<equiv> 262144"
abbreviation (input) TypeFlags_Object :: type_flags where "TypeFlags_Object \<equiv> 524288"
abbreviation (input) TypeFlags_Union :: type_flags where "TypeFlags_Union \<equiv> 1048576"
abbreviation (input) TypeFlags_Intersection :: type_flags where "TypeFlags_Intersection \<equiv> 2097152"
abbreviation (input) TypeFlags_TypeVariable :: type_flags where "TypeFlags_TypeVariable \<equiv> 8650752"
abbreviation (input) TypeFlags_Literal :: type_flags where "TypeFlags_Literal \<equiv> 2944"
abbreviation (input) TypeFlags_PossiblyFalsy :: type_flags where "TypeFlags_PossiblyFalsy \<equiv> 117724"

text \<open>
  The value of a literal type.  A number enters the rules only through its truthiness and
  its decimal string, so it is kept as that pair; a bigint value is an object
  (\<^verbatim>\<open>PseudoBigInt\<close>) with a sign and a base-10 string.
\<close>

datatype js_value =
    StringValue jsstring
  | NumberValue (isZeroOrNaN: bool) (numberToString: jsstring)
  | PseudoBigIntValue (negative: bool) (base10Value: jsstring)

text \<open>
  A type is an opaque handle: \<open>tid\<close> is its identity (two handles are \<^verbatim>\<open>===\<close>
  exactly when their \<open>tid\<close>s agree).  It carries its flag bitset, the constituents of a
  union or intersection, the value of a literal, the escaped name of its symbol, the
  return types of its call signatures and the name of an intrinsic type.
\<close>

datatype ts_type = TsType (tid: nat) (flags: type_flags) (types: "ts_type list")
  (tvalue: "js_value option") (symbolName: "jsstring option") (callReturnTypes: "ts_type list")
  (intrinsicName: "jsstring option")

definition same_type :: "ts_type \<Rightarrow> ts_type \<Rightarrow> bool" where
  "same_type a b = (tid a = tid b)"

text \<open>The helpers of the \<^verbatim>\<open>ts-api-utils\<close> library: \<^verbatim>\<open>isTypeFlagSet\<close> tests the
  type's own flags; the part lists are the constituents of a union (intersection), or the
  type alone.\<close>

definition tsutils_isTypeFlagSet :: "ts_type \<Rightarrow> type_flags \<Rightarrow> bool" where
  "tsutils_isTypeFlagSet t flag = (flags t AND flag \<noteq> 0)"

definition unionTypeParts :: "ts_type \<Rightarrow> ts_type list" where
  "unionTypeParts t = (if tsutils_isTypeFlagSet t TypeFlags_Union then types t else [t])"

definition intersectionTypeParts :: "ts_type \<Rightarrow> ts_type list" where
  "intersectionTypeParts t =
     (if tsutils_isTypeFlagSet t TypeFlags_Intersection then types t else [t])"

text \<open>The queries of the type checker that the rules ask.\<close>

record checker =
  getTypeAtLocation :: "node \<Rightarrow> ts_type"
  getTypeFromTypeNode :: "node \<Rightarrow> ts_type"
  getBaseConstraintOfType :: "ts_type \<Rightarrow> ts_type option"
  typeToString :: "ts_type \<Rightarrow> jsstring"
  isIdentifierStart :: "code_unit \<Rightarrow> bool"
  isIdentifierPart :: "code_unit \<Rightarrow> bool"

definition getConstrainedTypeAtLocation :: "checker \<Rightarrow> node \<Rightarrow> ts_type" where
  "getConstrainedTypeAtLocation chk n =
     (let nodeType = getTypeAtLocation chk n
      in case getBaseConstraintOfType chk nodeType of Some c \<Rightarrow> c | None \<Rightarrow> nodeType)"

fun requiresQuoting_rest :: "checker \<Rightarrow> jsstring \<Rightarrow> bool" where
  "requiresQuoting_rest chk [] = False"
| "requiresQuoting_rest chk (c # cs) =
     (if \<not> isIdentifierPart chk c then True else requiresQuoting_rest chk cs)"

definition requiresQuoting :: "checker \<Rightarrow> jsstring \<Rightarrow> bool" where
  "requiresQuoting chk name =
     (case name of [] \<Rightarrow> True
      | c # cs \<Rightarrow> if \<not> isIdentifierStart chk c then True else requiresQuoting_rest chk cs)"

section \<open>Rule: switch exhaustiveness\<close>

text \<open>\<^verbatim>\<open>replaceAll\<close> of a one-unit pattern, \<^verbatim>\<open>join\<close> and \<^verbatim>\<open>' '.repeat\<close>.\<close>

definition replaceAll :: "code_unit \<Rightarrow> jsstring \<Rightarrow> jsstring \<Rightarrow> jsstring" where
  "replaceAll c rep s = concat (map (\<lambda>x. if x = c then rep else [x]) s)"

fun join :: "jsstring \<Rightarrow> jsstring list \<Rightarrow> jsstring" where
  "join sep [] = []"
| "join sep [x] = x"
| "join sep (x # y # ys) = x @ sep @ join sep (y # ys)"

definition spaces :: "nat \<Rightarrow> jsstring" where
  "spaces n = replicate n 32"

record SwitchMetadata =
  sm_symbolName :: "jsstring option"
  defaultCase :: "node option"
  missingLiteralBranchTypes :: "ts_type list"
  containsNonLiteralType :: bool

definition isTypeLiteralLikeType :: "ts_type \<Rightarrow> bool" where
  "isTypeLiteralLikeType t =
     tsutils_isTypeFlagSet t
       (TypeFlags_Literal OR TypeFlags_Undefined OR TypeFlags_Null OR TypeFlags_UniqueESSymbol)"

definition doesTypeContainNonLiteralType :: "ts_type \<Rightarrow> bool" where
  "doesTypeContainNonLiteralType t =
     list_ex (\<lambda>u. list_all (\<lambda>subType. \<not> isTypeLiteralLikeType subType)
                     (intersectionTypeParts u))
       (unionTypeParts t)"

text \<open>The clauses of a switch statement's case block, and the tested expressions of its
  \<^verbatim>\<open>case\<close> clauses (a clause is a \<^verbatim>\<open>CaseClause\<close> or a \<^verbatim>\<open>DefaultClause\<close>).\<close>

definition clauses :: "node \<Rightarrow> node list" where
  "clauses caseBlock = (case shape caseBlock of CaseBlockN cls \<Rightarrow> cls | _ \<Rightarrow> [])"

definition caseExpressions :: "node list \<Rightarrow> node list" where
  "caseExpressions cls =
     concat (map (\<lambda>c. case shape c of CaseClauseN e _ \<Rightarrow> [e] | _ \<Rightarrow> []) cls)"

definition getSwitchMetadata :: "checker \<Rightarrow> node \<Rightarrow> node \<Rightarrow> SwitchMetadata" where
  "getSwitchMetadata chk expression caseBlock =
     (let dflt = find (\<lambda>switchCase. kind switchCase = DefaultClause) (clauses caseBlock);
          discriminantType = getConstrainedTypeAtLocation chk expression;
          caseTypes = map (getConstrainedTypeAtLocation chk) (caseExpressions (clauses caseBlock));
          missing =
            concat (map (\<lambda>unionPart.
                filter (\<lambda>intersectionPart.
                    \<not> (list_ex (same_type intersectionPart) caseTypes
                       \<or> \<not> isTypeLiteralLikeType intersectionPart))
                  (intersectionTypeParts unionPart))
              (unionTypeParts discriminantType))
      in \<lparr>sm_symbolName = symbolName discriminantType,
          defaultCase = dflt,
          missingLiteralBranchTypes = missing,
          containsNonLiteralType = doesTypeContainNonLiteralType discriminantType\<rparr>)"

text \<open>
  The text tested by the synthesized \<^verbatim>\<open>case\<close> for a missing type (the variable
  \<^verbatim>\<open>caseTest\<close>).  For a symbol-like type without a symbol name it is
  \<^verbatim>\<open>undefined\<close>, and \<^verbatim>\<open>caseTest.replaceAll\<close> then throws.
\<close>

definition caseTest :: "checker \<Rightarrow> jsstring option \<Rightarrow> ts_type \<Rightarrow> jsstring option" where
  "caseTest chk symName missingBranchType =
     (let missingBranchName = symbolName missingBranchType;
          caseTest0 = (if tsutils_isTypeFlagSet missingBranchType TypeFlags_ESSymbolLike
                       then missingBranchName
                       else Some (typeToString chk missingBranchType))
      in case (symName, missingBranchName) of
           (Some sn, Some bn) \<Rightarrow>
             if sn \<noteq> [] \<and> requiresQuoting chk bn
             then Some (sn @ js_str ''['' @ [39]
                    @ replaceAll 13 [92, 114] (replaceAll 10 [92, 110] (replaceAll 39 [92, 39] bn))
                    @ [39] @ js_str '']'')
             else caseTest0
         | _ \<Rightarrow> caseTest0)"

text \<open>One line of the fix for one missing branch; \<open>None\<close> stands for the
  \<^verbatim>\<open>default\<close> branch.\<close>

definition caseBranch :: "jsstring \<Rightarrow> jsstring" where
  "caseBranch ct =
     js_str ''case '' @ ct @ js_str '': { throw new Error('' @ [39]
     @ js_str ''Not implemented yet: ''
     @ replaceAll 39 [92, 39] (replaceAll 92 [92, 92] ct)
     @ js_str '' case'' @ [39] @ js_str '') }''"

definition missingCase :: "checker \<Rightarrow> jsstring option \<Rightarrow> ts_type option \<Rightarrow> error + jsstring" where
  "missingCase chk symName missingBranchType =
     (case missingBranchType of
        None \<Rightarrow> Inr (js_str ''default: { throw new Error('' @ [39] @ js_str ''default case''
                    @ [39] @ js_str '') }'')
      | Some t \<Rightarrow>
          (case caseTest chk symName t of
             None \<Rightarrow> Inl TypeError
           | Some ct \<Rightarrow> Inr (caseBranch ct)))"

fun missingCases :: "checker \<Rightarrow> jsstring option \<Rightarrow> ts_type option list \<Rightarrow> error + jsstring list" where
  "missingCases chk symName [] = Inr []"
| "missingCases chk symName (t # ts) =
     (case missingCase chk symName t of
        Inl e \<Rightarrow> Inl e
      | Inr c \<Rightarrow> (case missingCases chk symName ts of Inl e \<Rightarrow> Inl e | Inr cs \<Rightarrow> Inr (c # cs)))"

definition fixSwitch ::
  "checker \<Rightarrow> source_file \<Rightarrow> node \<Rightarrow> node \<Rightarrow> ts_type option list \<Rightarrow> jsstring option
     \<Rightarrow> error + text_change list" where
  "fixSwitch chk sf n caseBlock missingBranchTypes symName =
     (let lastCase = (if clauses caseBlock \<noteq> [] then Some (last (clauses caseBlock)) else None);
          caseIndent = (case lastCase of
                          Some lc \<Rightarrow> spaces (characterOfPosition sf (nstart lc))
                        | None \<Rightarrow> spaces (characterOfPosition sf (nstart n)))
      in case missingCases chk symName missingBranchTypes of
           Inl e \<Rightarrow> Inl e
         | Inr cases \<Rightarrow>
             (let fixString = join [10] (map (\<lambda>code. caseIndent @ code) cases)
              in case lastCase of
                   Some lc \<Rightarrow>
                     Inr [\<lparr>newText = [10] @ fixString, span_start = nstart lc, span_length = 0\<rparr>]
                 | None \<Rightarrow>
                     (case nullThrows
                             (case getFirstToken sf caseBlock of
                                Some ob \<Rightarrow> if kind ob = OpenBraceToken then Some ob else None
                              | None \<Rightarrow> None)
                             (MissingToken ''{'' ''discriminant'') of
                        Inl e \<Rightarrow> Inl e
                      | Inr openingBrace \<Rightarrow>
                          (case getLastToken sf caseBlock of
                             None \<Rightarrow> Inl (NullThrows (js_str ''Non-null Assertion Failed: ''
                                                       @ MissingToken ''}'' ''discriminant''))
                           | Some closingBrace \<Rightarrow>
                               (case nullThrows
                                       (if kind closingBrace = CloseBraceToken
                                        then Some openingBrace else None)
                                       (MissingToken ''}'' ''discriminant'') of
                                  Inl e \<Rightarrow> Inl e
                                | Inr _ \<Rightarrow>
                                    Inr [\<lparr>newText = join [10] [js_str ''{'', fixString,
                                                               caseIndent @ js_str ''}''],
                                          span_start = nstart openingBrace,
                                          span_length = nend closingBrace - nstart openingBrace\<rparr>])))))"

definition missingBranchesText :: "checker \<Rightarrow> ts_type list \<Rightarrow> jsstring" where
  "missingBranchesText chk missing =
     join (js_str '' | '')
       (map (\<lambda>missingType.
               if tsutils_isTypeFlagSet missingType TypeFlags_ESSymbolLike
               then js_str ''typeof '' @ (case symbolName missingType of
                                             Some nm \<Rightarrow> nm | None \<Rightarrow> js_str ''undefined'')
               else typeToString chk missingType)
          missing)"

definition checkSwitchExhaustive ::
  "checker \<Rightarrow> source_file \<Rightarrow> node \<Rightarrow> node \<Rightarrow> SwitchMetadata \<Rightarrow> diagnostic list" where
  "checkSwitchExhaustive chk sf n caseBlock switchMetadata =
     (if missingLiteralBranchTypes switchMetadata \<noteq> [] \<and> defaultCase switchMetadata = None
      then [withFix
              (report (js_str ''Switch is not exhaustive. Cases not matched: ''
                       @ missingBranchesText chk (missingLiteralBranchTypes switchMetadata))
                 (nstart n) (nend n))
              (js_str ''Add branches for missing cases.'')
              (fixSwitch chk sf n caseBlock
                 (map Some (missingLiteralBranchTypes switchMetadata))
                 (sm_symbolName switchMetadata))]
      else [])"

definition checkSwitchUnnecessaryDefaultCase :: "bool \<Rightarrow> SwitchMetadata \<Rightarrow> diagnostic list" where
  "checkSwitchUnnecessaryDefaultCase allowDefaultCaseForExhaustiveSwitch switchMetadata =
     (if allowDefaultCaseForExhaustiveSwitch then []
      else case defaultCase switchMetadata of
             Some dc \<Rightarrow>
               if missingLiteralBranchTypes switchMetadata = []
                  \<and> \<not> containsNonLiteralType switchMetadata
               then [report (js_str ''The switch statement is exhaustive, so the default case is unnecessary.'')
                       (nstart dc) (nend dc)]
               else []
           | None \<Rightarrow> [])"

definition checkSwitchNoUnionDefaultCase ::
  "bool \<Rightarrow> checker \<Rightarrow> source_file \<Rightarrow> node \<Rightarrow> node \<Rightarrow> node \<Rightarrow> SwitchMetadata \<Rightarrow> diagnostic list" where
  "checkSwitchNoUnionDefaultCase requireDefaultForNonUnion chk sf n expression caseBlock switchMetadata =
     (if \<not> requireDefaultForNonUnion then []
      else if containsNonLiteralType switchMetadata \<and> defaultCase switchMetadata = None
      then [withFix
              (report (js_str ''Switch is not exhaustive. Cases not matched: '' @ js_str ''default'')
                 (nstart expression) (nend n))
              (js_str ''Add branches for missing cases.'')
              (fixSwitch chk sf n caseBlock [None] None)]
      else [])"

text \<open>The callback of the rule at one node; the traversal then descends into the node's
  children.\<close>

record switch_options =
  allowDefaultCaseForExhaustiveSwitch :: bool
  requireDefaultForNonUnion :: bool

definition switch_cb :: "switch_options \<Rightarrow> checker \<Rightarrow> source_file \<Rightarrow> node \<Rightarrow> diagnostic list" where
  "switch_cb opts chk sf n =
     (case shape n of
        SwitchStatementN expression caseBlock \<Rightarrow>
          (let switchMetadata = getSwitchMetadata chk expression caseBlock
           in checkSwitchExhaustive chk sf n caseBlock switchMetadata
              @ checkSwitchUnnecessaryDefaultCase (allowDefaultCaseForExhaustiveSwitch opts) switchMetadata
              @ checkSwitchNoUnionDefaultCase (requireDefaultForNonUnion opts) chk sf n expression caseBlock switchMetadata)
      | _ \<Rightarrow> [])"

text \<open>
  The specification's words for the missing branches of a switch: the literal-like parts
  of the discriminant type, decomposed into union and then intersection parts, that are
  identity-equal to the type of no \<^verbatim>\<open>case\<close> clause; for "one synthesized fix per missing
  branch"; and for a discriminant type that "contains any non-literal constituent" (the
  comment of \<^verbatim>\<open>doesTypeContainNonLiteralType\<close> names \<^verbatim>\<open>"foo" | number\<close> and
  \<^verbatim>\<open>"foo" & { bar: 1 }\<close> as such types).
\<close>

definition spec_missingParts :: "checker \<Rightarrow> ts_type \<Rightarrow> node \<Rightarrow> ts_type list" where
  "spec_missingParts chk discriminantType caseBlock =
     filter (\<lambda>part. isTypeLiteralLikeType part
                    \<and> \<not> list_ex (\<lambda>c. same_type part (getConstrainedTypeAtLocation chk c))
                          (caseExpressions (clauses caseBlock)))
       (concat (map intersectionTypeParts (unionTypeParts discriminantType)))"

definition spec_oneFixPerMissingBranch :: "diagnostic list \<Rightarrow> ts_type list \<Rightarrow> bool" where
  "spec_oneFixPerMissingBranch ds missing = (length (concat (map dfixes ds)) = length missing)"

definition spec_hasNonLiteralConstituent :: "ts_type \<Rightarrow> bool" where
  "spec_hasNonLiteralConstituent t =
     list_ex (\<lambda>u. list_ex (\<lambda>subType. \<not> isTypeLiteralLikeType subType) (intersectionTypeParts u))
       (unionTypeParts t)"

section \<open>Rule: unnecessary type assertion\<close>

text \<open>
  A rule's callback at one node reports diagnostics and then either lets the traversal
  descend into the node's children, returns early (the children are not visited),
  throws (the traversal of the file ends), or does not return at all.
\<close>

datatype outcome = Descend | Return | Throw error | Diverge

text \<open>What the rule reads of the compiler options.\<close>

record compiler_options =
  strictNullChecks :: bool
  exactOptionalPropertyTypes :: bool

text \<open>
  Modelled from the spec: \<^verbatim>\<open>isNullableType\<close> of the repository's type utilities,
  which is not among the source files: "true if any union constituent carries the null or
  undefined flag".
\<close>

definition isNullableType :: "ts_type \<Rightarrow> bool" where
  "isNullableType t =
     list_ex (\<lambda>part. tsutils_isTypeFlagSet part (TypeFlags_Null OR TypeFlags_Undefined))
       (unionTypeParts t)"

text \<open>
  The two other type utilities the rule calls are parameters: the contextual type expected
  at a node (given the node's ancestors, parent first), and the declaration of an
  identifier together with the declaration's own ancestors.
\<close>

record type_utils =
  getContextualType :: "node list \<Rightarrow> node \<Rightarrow> ts_type option"
  getDeclaration :: "node \<Rightarrow> (node \<times> node list) option"

definition isPossiblyUsedBeforeAssigned ::
  "checker \<Rightarrow> compiler_options \<Rightarrow> type_utils \<Rightarrow> node \<Rightarrow> error + bool" where
  "isPossiblyUsedBeforeAssigned chk copts tu n =
     (case getDeclaration tu n of
        None \<Rightarrow> Inr True
      | Some (declaration, declAncestors) \<Rightarrow>
          (case shape declaration of
             VariableDeclarationN _ None (Some ty) None \<Rightarrow>
               if strictNullChecks copts
               then (let declarationType = getTypeFromTypeNode chk ty;
                         t = getConstrainedTypeAtLocation chk n
                     in if same_type declarationType t
                        then (case declAncestors of
                                _ # grandparent # _ \<Rightarrow>
                                  if \<not> (case shape grandparent of
                                           VariableStatementN modifiers _ \<Rightarrow>
                                             list_ex (\<lambda>md. kind md = DeclareKeyword) modifiers
                                         | _ \<Rightarrow> False)
                                  then Inr True else Inr False
                              | _ \<Rightarrow> Inl TypeError)
                        else Inr False)
               else Inr False
           | _ \<Rightarrow> Inr False))"

definition isConstAssertion :: "node \<Rightarrow> bool" where
  "isConstAssertion n =
     (case shape n of
        TypeReferenceN typeName _ \<Rightarrow>
          (case shape typeName of IdentifierN escapedText \<Rightarrow> escapedText = js_str ''const''
           | _ \<Rightarrow> False)
      | _ \<Rightarrow> False)"

text \<open>\<open>expression\<close> is the asserted expression and \<open>ancestors\<close> the ancestors of the
  assertion, so that \<^verbatim>\<open>parent.parent\<close> is the second of them.\<close>

definition isImplicitlyNarrowedConstDeclaration :: "node \<Rightarrow> node list \<Rightarrow> error + bool" where
  "isImplicitlyNarrowedConstDeclaration expression ancestors =
     (case ancestors of
        _ # maybeDeclarationNode # _ \<Rightarrow>
          (let isTemplateLiteralWithExpressions =
                 (case shape expression of
                    TemplateExpressionN _ templateSpans \<Rightarrow> length templateSpans \<noteq> 0
                  | _ \<Rightarrow> False)
           in Inr ((case shape maybeDeclarationNode of
                      VariableDeclarationListN isConst _ \<Rightarrow> isConst
                    | _ \<Rightarrow> False)
                   \<and> \<not> isTemplateLiteralWithExpressions))
      | _ \<Rightarrow> Inl TypeError)"

definition isTypeUnchanged :: "compiler_options \<Rightarrow> ts_type \<Rightarrow> ts_type \<Rightarrow> bool" where
  "isTypeUnchanged copts uncast cast =
     (if same_type uncast cast then True
      else if tsutils_isTypeFlagSet uncast TypeFlags_Undefined
              \<and> tsutils_isTypeFlagSet cast TypeFlags_Undefined
              \<and> exactOptionalPropertyTypes copts
      then (let uncastParts = filter (\<lambda>part. \<not> tsutils_isTypeFlagSet part TypeFlags_Undefined)
                                (unionTypeParts uncast);
                castParts = filter (\<lambda>part. \<not> tsutils_isTypeFlagSet part TypeFlags_Undefined)
                              (unionTypeParts cast)
            in if length uncastParts \<noteq> length castParts then False
               else list_all (\<lambda>part. list_ex (same_type part) uncastParts) castParts)
      else False)"

text \<open>
  The union parts of a type that do not carry the \<^verbatim>\<open>Undefined\<close> flag, and the
  specification's words for the exception of \<^verbatim>\<open>isTypeUnchanged\<close>: two distinct types
  that "differ only by presence of an undefined constituent", that is, whose other union
  parts are the same types.
\<close>

definition nonUndefinedParts :: "ts_type \<Rightarrow> ts_type list" where
  "nonUndefinedParts t =
     filter (\<lambda>part. \<not> tsutils_isTypeFlagSet part TypeFlags_Undefined) (unionTypeParts t)"

definition spec_differOnlyByUndefined :: "ts_type \<Rightarrow> ts_type \<Rightarrow> bool" where
  "spec_differOnlyByUndefined a b =
     (\<not> same_type a b \<and> tid ` set (nonUndefinedParts a) = tid ` set (nonUndefinedParts b))"

text \<open>A type that has an undefined constituent: it is an undefined type, or a union
  one of whose parts is.\<close>

definition spec_hasUndefinedConstituent :: "ts_type \<Rightarrow> bool" where
  "spec_hasUndefinedConstituent t =
     (tsutils_isTypeFlagSet t TypeFlags_Undefined
      \<or> list_ex (\<lambda>part. tsutils_isTypeFlagSet part TypeFlags_Undefined) (unionTypeParts t))"

text \<open>\<^verbatim>\<open>type.isLiteral()\<close>: a string, number or bigint literal type.\<close>

definition isLiteral_method :: "ts_type \<Rightarrow> bool" where
  "isLiteral_method t =
     (flags t AND (TypeFlags_StringLiteral OR TypeFlags_NumberLiteral OR TypeFlags_BigIntLiteral) \<noteq> 0)"

text \<open>The edit that deletes \<open>len\<close> code units from \<open>start\<close>.\<close>

definition deletion :: "int \<Rightarrow> int \<Rightarrow> text_change" where
  "deletion start len = \<lparr>newText = [], span_start = start, span_length = len\<rparr>"

definition typeAssertionFix :: "source_file \<Rightarrow> node \<Rightarrow> error + text_change list" where
  "typeAssertionFix sf n =
     (case shape n of
        TypeAssertionN ty expression \<Rightarrow>
          (case nullThrows (getTokenBefore (getChildren sf n) ty (Some (\<lambda>x. kind x = LessThanToken)))
                  (MissingToken ''<'' ''type annotation'') of
             Inl e \<Rightarrow> Inl e
           | Inr openingAngleBracket \<Rightarrow>
               (case nullThrows (getTokenAfter (getChildren sf n) ty (Some (\<lambda>x. kind x = GreaterThanToken)))
                       (MissingToken ''>'' ''type annotation'') of
                  Inl e \<Rightarrow> Inl e
                | Inr closingAngleBracket \<Rightarrow>
                    Inr [deletion (nstart openingAngleBracket)
                           (nend closingAngleBracket - nstart openingAngleBracket)]))
      | AsExpressionN expression ty \<Rightarrow>
          (case nullThrows (getTokenAfter (getChildren sf n) expression (Some (\<lambda>x. kind x = AsKeyword)))
                  (MissingToken ''>'' ''type annotation'') of
             Inl e \<Rightarrow> Inl e
           | Inr asToken \<Rightarrow> Inr [deletion (pos asToken) (nend n - pos asToken)])
      | _ \<Rightarrow> Inl TypeError)"

definition msg_receiver_accepts :: jsstring where
  "msg_receiver_accepts = js_str
     ''This assertion is unnecessary since the receiver accepts the original type of the expression.''"

definition msg_does_not_change :: jsstring where
  "msg_does_not_change = js_str
     ''This assertion is unnecessary since it does not change the type of the expression.''"

definition noDescription :: jsstring where
  "noDescription = js_str ''[No Description]''"

text \<open>The non-null branch of the callback: \<open>n\<close> is \<^verbatim>\<open>expression!\<close>.\<close>

definition checkNonNullExpression ::
  "checker \<Rightarrow> compiler_options \<Rightarrow> type_utils \<Rightarrow> node list \<Rightarrow> node \<Rightarrow> node
     \<Rightarrow> diagnostic list \<times> outcome" where
  "checkNonNullExpression chk copts tu ancestors n expression =
     (let removeAssertion =
            withFix (report msg_receiver_accepts (nstart n) (nend n)) noDescription
              (Inr [deletion (nend expression) (nend n - nend expression)]);
          assignmentParent =
            (case ancestors of
               parent # _ \<Rightarrow>
                 (case shape parent of
                    BinaryExpressionN left operatorToken _ \<Rightarrow>
                      if kind operatorToken = EqualsToken then Some left else None
                  | _ \<Rightarrow> None)
             | [] \<Rightarrow> None)
      in case assignmentParent of
           Some left \<Rightarrow> (if same_node left n then [removeAssertion] else [], Return)
         | None \<Rightarrow>
             (let t = getConstrainedTypeAtLocation chk expression
              in if \<not> isNullableType t \<and> \<not> tsutils_isTypeFlagSet t TypeFlags_Void
                 then (case (if kind expression = Identifier
                             then isPossiblyUsedBeforeAssigned chk copts tu expression
                             else Inr False) of
                         Inl e \<Rightarrow> ([], Throw e)
                       | Inr True \<Rightarrow> ([], Return)
                       | Inr False \<Rightarrow>
                           ([withFix (report msg_does_not_change (nstart n) (nend n)) noDescription
                               (Inr [deletion (nend n - 1) 1])],
                            Descend))
                 else (case getContextualType tu ancestors n of
                         None \<Rightarrow> ([], Descend)
                       | Some contextualType \<Rightarrow>
                           (let typeIncludesUndefined = tsutils_isTypeFlagSet t TypeFlags_Undefined;
                                typeIncludesNull = tsutils_isTypeFlagSet t TypeFlags_Null;
                                typeIncludesVoid = tsutils_isTypeFlagSet t TypeFlags_Void;
                                contextualTypeIncludesUndefined =
                                  tsutils_isTypeFlagSet contextualType TypeFlags_Undefined;
                                contextualTypeIncludesNull =
                                  tsutils_isTypeFlagSet contextualType TypeFlags_Null;
                                contextualTypeIncludesVoid =
                                  tsutils_isTypeFlagSet contextualType TypeFlags_Void;
                                isValidUndefined =
                                  (if typeIncludesUndefined then contextualTypeIncludesUndefined else True);
                                isValidNull =
                                  (if typeIncludesNull then contextualTypeIncludesNull else True);
                                isValidVoid =
                                  (if typeIncludesVoid then contextualTypeIncludesVoid else True)
                            in if isValidUndefined \<and> isValidNull \<and> isValidVoid
                               then ([removeAssertion], Descend)
                               else ([], Descend)))))"

text \<open>
  The specification's words for the nullable branch: a nullability class is present in a
  type when a union constituent of the type carries its flag (as for
  \<^verbatim>\<open>isNullableType\<close>), and the contextual type accepts the operand's type when it
  includes every class among undefined, null and void that the operand's type includes.
\<close>

definition spec_typeIncludes :: "type_flags \<Rightarrow> ts_type \<Rightarrow> bool" where
  "spec_typeIncludes cls t = list_ex (\<lambda>part. tsutils_isTypeFlagSet part cls) (unionTypeParts t)"

definition spec_contextAcceptsNullability :: "ts_type \<Rightarrow> ts_type \<Rightarrow> bool" where
  "spec_contextAcceptsNullability t contextualType =
     ((if spec_typeIncludes TypeFlags_Undefined t
       then spec_typeIncludes TypeFlags_Undefined contextualType else True)
    \<and> (if spec_typeIncludes TypeFlags_Null t
        then spec_typeIncludes TypeFlags_Null contextualType else True)
    \<and> (if spec_typeIncludes TypeFlags_Void t
        then spec_typeIncludes TypeFlags_Void contextualType else True))"

text \<open>The type-assertion branch: \<open>n\<close> is \<^verbatim>\<open><ty>expression\<close> or
  \<^verbatim>\<open>expression as ty\<close>.\<close>

definition checkTypeAssertion ::
  "jsstring list option \<Rightarrow> checker \<Rightarrow> compiler_options \<Rightarrow> source_file \<Rightarrow> node list \<Rightarrow> node
     \<Rightarrow> node \<Rightarrow> node \<Rightarrow> diagnostic list \<times> outcome" where
  "checkTypeAssertion typesToIgnore chk copts sf ancestors n expression ty =
     (if (case typesToIgnore of
            None \<Rightarrow> False
          | Some names \<Rightarrow> typeToString chk (getTypeFromTypeNode chk ty) \<in> set names)
      then ([], Return)
      else (let castType = getTypeAtLocation chk n;
                uncastType = getTypeAtLocation chk expression;
                typeIsUnchanged = isTypeUnchanged copts uncastType castType
            in case (if isLiteral_method castType
                     then isImplicitlyNarrowedConstDeclaration expression ancestors
                     else Inr (\<not> isConstAssertion ty)) of
                 Inl e \<Rightarrow> ([], Throw e)
               | Inr wouldSameTypeBeInferred \<Rightarrow>
                   if typeIsUnchanged \<and> wouldSameTypeBeInferred
                   then ([withFix (report msg_does_not_change (nstart n) (nend n)) noDescription
                            (typeAssertionFix sf n)],
                         Descend)
                   else ([], Descend)))"

definition assertion_cb ::
  "jsstring list option \<Rightarrow> checker \<Rightarrow> compiler_options \<Rightarrow> type_utils \<Rightarrow> source_file
     \<Rightarrow> node list \<Rightarrow> node \<Rightarrow> diagnostic list \<times> outcome" where
  "assertion_cb typesToIgnore chk copts tu sf ancestors n =
     (case shape n of
        NonNullExpressionN expression \<Rightarrow>
          checkNonNullExpression chk copts tu ancestors n expression
      | AsExpressionN expression ty \<Rightarrow>
          checkTypeAssertion typesToIgnore chk copts sf ancestors n expression ty
      | TypeAssertionN ty expression \<Rightarrow>
          checkTypeAssertion typesToIgnore chk copts sf ancestors n expression ty
      | _ \<Rightarrow> ([], Descend))"

section \<open>Rule: unnecessary condition\<close>

text \<open>
  The queries this rule asks beyond those of \<open>checker\<close>: array and tuple tests, property
  and index-signature lookup, call signatures (as their return types), the
  optional-chain flag of a node, the \<^verbatim>\<open>isFalsyType\<close> helper of \<^verbatim>\<open>ts-api-utils\<close>, and
  the helpers of the repository's type utilities that are not among the source files
  (\<^verbatim>\<open>getTypeName\<close>, \<^verbatim>\<open>getTypeOfPropertyOfName\<close>, \<^verbatim>\<open>isTypeAnyType\<close>,
  \<^verbatim>\<open>isTypeUnknownType\<close>, \<^verbatim>\<open>isTypeFlagSet\<close>).  \<open>getProperty\<close> returns whether
  the property's symbol has the \<^verbatim>\<open>Optional\<close> flag, when the property exists.
\<close>

record condition_queries =
  isArrayType :: "ts_type \<Rightarrow> bool"
  isTupleType :: "ts_type \<Rightarrow> bool"
  getProperty :: "ts_type \<Rightarrow> jsstring \<Rightarrow> bool option"
  getIndexInfosOfType :: "ts_type \<Rightarrow> ts_type list"
  getStringIndexInfoOfType :: "ts_type \<Rightarrow> bool"
  getCallSignaturesOfType :: "ts_type \<Rightarrow> ts_type list"
  isOptionalChain :: "node \<Rightarrow> bool"
  isFalsyType :: "ts_type \<Rightarrow> bool"
  getTypeName :: "ts_type \<Rightarrow> jsstring"
  getTypeOfPropertyOfName :: "ts_type \<Rightarrow> jsstring \<Rightarrow> ts_type option"
  isTypeAnyType :: "ts_type \<Rightarrow> bool"
  isTypeUnknownType :: "ts_type \<Rightarrow> bool"
  isTypeFlagSet :: "ts_type \<Rightarrow> type_flags \<Rightarrow> bool"

record condition_env =
  c_checker :: checker
  c_queries :: condition_queries
  c_sourceFile :: source_file
  isStrictNullChecks :: bool
  allowConstantLoopConditions :: bool
  allowRuleToRunWithoutStrictNullChecksIKnowWhatIAmDoing :: bool

definition typeAt :: "condition_env \<Rightarrow> node \<Rightarrow> ts_type" where
  "typeAt env n = getConstrainedTypeAtLocation (c_checker env) n"

subsection \<open>Truthiness utilities\<close>

definition isBooleanLiteralType :: "ts_type \<Rightarrow> bool" where
  "isBooleanLiteralType t = tsutils_isTypeFlagSet t TypeFlags_BooleanLiteral"

definition isTrueLiteralType :: "ts_type \<Rightarrow> bool" where
  "isTrueLiteralType t = (isBooleanLiteralType t \<and> intrinsicName t = Some (js_str ''true''))"

text \<open>\<^verbatim>\<open>!!value\<close> of a literal's value: a bigint value is an object.\<close>

definition js_truthy :: "js_value \<Rightarrow> bool" where
  "js_truthy v = (case v of StringValue str \<Rightarrow> str \<noteq> []
                  | NumberValue z _ \<Rightarrow> \<not> z
                  | PseudoBigIntValue _ _ \<Rightarrow> True)"

definition valueToString :: "js_value \<Rightarrow> jsstring" where
  "valueToString v = (case v of StringValue str \<Rightarrow> str
                      | NumberValue _ str \<Rightarrow> str
                      | PseudoBigIntValue _ _ \<Rightarrow> js_str ''[object Object]'')"

definition isTruthyLiteral :: "ts_type \<Rightarrow> bool" where
  "isTruthyLiteral t =
     (isTrueLiteralType t
      \<or> (isLiteral_method t \<and> (case tvalue t of Some v \<Rightarrow> js_truthy v | None \<Rightarrow> False)))"

definition isPossiblyFalsy :: "condition_queries \<Rightarrow> ts_type \<Rightarrow> bool" where
  "isPossiblyFalsy q t =
     list_ex (\<lambda>part. isTypeFlagSet q part TypeFlags_PossiblyFalsy)
       (filter (\<lambda>part. \<not> isTruthyLiteral part)
          (concat (map intersectionTypeParts (unionTypeParts t))))"

definition isPossiblyTruthy :: "condition_queries \<Rightarrow> ts_type \<Rightarrow> bool" where
  "isPossiblyTruthy q t =
     list_ex (\<lambda>intersectionParts. list_all (\<lambda>part. \<not> isFalsyType q part) intersectionParts)
       (map intersectionTypeParts (unionTypeParts t))"

abbreviation (input) nullishFlag :: type_flags where
  "nullishFlag \<equiv> TypeFlags_Undefined OR TypeFlags_Null"

definition isNullishType :: "condition_queries \<Rightarrow> ts_type \<Rightarrow> bool" where
  "isNullishType q t = isTypeFlagSet q t nullishFlag"

definition isPossiblyNullish :: "condition_queries \<Rightarrow> ts_type \<Rightarrow> bool" where
  "isPossiblyNullish q t = list_ex (isNullishType q) (unionTypeParts t)"

definition isAlwaysNullish :: "condition_queries \<Rightarrow> ts_type \<Rightarrow> bool" where
  "isAlwaysNullish q t = list_all (isNullishType q) (unionTypeParts t)"

definition isLiteral :: "ts_type \<Rightarrow> bool" where
  "isLiteral t =
     (isBooleanLiteralType t
      \<or> flags t = TypeFlags_Undefined
      \<or> flags t = TypeFlags_Null
      \<or> flags t = TypeFlags_Void
      \<or> isLiteral_method t)"

text \<open>The specification's words for a literal-like operand of a comparison: "a
  string/number/boolean literal, undefined, null, or void".\<close>

definition spec_isLiteralLike :: "ts_type \<Rightarrow> bool" where
  "spec_isLiteralLike t =
     (tsutils_isTypeFlagSet t TypeFlags_StringLiteral
      \<or> tsutils_isTypeFlagSet t TypeFlags_NumberLiteral
      \<or> tsutils_isTypeFlagSet t TypeFlags_BooleanLiteral
      \<or> flags t = TypeFlags_Undefined
      \<or> flags t = TypeFlags_Null
      \<or> flags t = TypeFlags_Void)"

subsection \<open>The checks\<close>

definition msg_never :: jsstring where
  "msg_never = js_str ''Unnecessary conditional, value is `never`.''"
definition msg_alwaysFalsy :: jsstring where
  "msg_alwaysFalsy = js_str ''Unnecessary conditional, value is always falsy.''"
definition msg_alwaysTruthy :: jsstring where
  "msg_alwaysTruthy = js_str ''Unnecessary conditional, value is always truthy.''"
definition msg_neverNullish :: jsstring where
  "msg_neverNullish = js_str
     ''Unnecessary conditional, expected left-hand side of `??` operator to be possibly null or undefined.''"
definition msg_alwaysNullish :: jsstring where
  "msg_alwaysNullish = js_str
     ''Unnecessary conditional, left-hand side of `??` operator is always `null` or `undefined`.''"
definition msg_literalBooleanExpression :: jsstring where
  "msg_literalBooleanExpression = js_str
     ''Unnecessary conditional, both sides of the expression are literal values.''"
definition msg_noOverlapBooleanExpression :: jsstring where
  "msg_noOverlapBooleanExpression = js_str ''Unnecessary conditional, the types have no overlap.''"
definition msg_alwaysTruthyFunc :: jsstring where
  "msg_alwaysTruthyFunc = js_str
     ''This callback should return a conditional, but return is always truthy.''"
definition msg_alwaysFalsyFunc :: jsstring where
  "msg_alwaysFalsyFunc = js_str
     ''This callback should return a conditional, but return is always falsy.''"
definition msg_neverOptionalChain :: jsstring where
  "msg_neverOptionalChain = js_str ''Unnecessary optional chain on a non-nullish value.''"
definition msg_strictNullChecks :: jsstring where
  "msg_strictNullChecks = js_str
     ''This rule requires the `strictNullChecks` compiler option to be turned on to function correctly.''"

definition nodeIsArrayType :: "condition_env \<Rightarrow> node \<Rightarrow> bool" where
  "nodeIsArrayType env n = list_ex (isArrayType (c_queries env)) (unionTypeParts (typeAt env n))"

definition nodeIsTupleType :: "condition_env \<Rightarrow> node \<Rightarrow> bool" where
  "nodeIsTupleType env n = list_ex (isTupleType (c_queries env)) (unionTypeParts (typeAt env n))"

definition isArrayIndexExpression :: "condition_env \<Rightarrow> node \<Rightarrow> bool" where
  "isArrayIndexExpression env n =
     (case shape n of
        ElementAccessExpressionN _ _ argumentExpression \<Rightarrow>
          nodeIsArrayType env argumentExpression
          \<or> (nodeIsTupleType env argumentExpression \<and> kind argumentExpression = StringLiteral)
      | _ \<Rightarrow> False)"

text \<open>
  \<^verbatim>\<open>Array.prototype.some\<close> over a callback that may throw: \<open>None\<close> is a throw.  The
  literal flag of a type promises a \<^verbatim>\<open>value\<close>; reading \<^verbatim>\<open>value.toString()\<close> of a
  type without one throws.
\<close>

fun some_opt :: "('a \<Rightarrow> bool option) \<Rightarrow> 'a list \<Rightarrow> bool option" where
  "some_opt f [] = Some False"
| "some_opt f (x # xs) =
     (case f x of None \<Rightarrow> None | Some True \<Rightarrow> Some True | Some False \<Rightarrow> some_opt f xs)"

lemma some_opt_cong [fundef_cong]:
  "xs = ys \<Longrightarrow> (\<And>x. x \<in> set ys \<Longrightarrow> f x = g x) \<Longrightarrow> some_opt f xs = some_opt g ys"
  by (induction ys arbitrary: xs) (auto split: option.splits bool.splits)

fun isNullablePropertyType :: "condition_queries \<Rightarrow> ts_type \<Rightarrow> ts_type \<Rightarrow> bool option" where
  "isNullablePropertyType q objType (TsType i f ts v sn cs intr) =
     (if f AND TypeFlags_Union \<noteq> 0
      then some_opt (isNullablePropertyType q objType) ts
      else (let propertyType = TsType i f ts v sn cs intr;
                byIndexSignature =
                  Some (list_ex (\<lambda>keyType. getTypeName q keyType = getTypeName q propertyType)
                          (getIndexInfosOfType q objType))
            in if f AND TypeFlags_NumberLiteral \<noteq> 0 \<or> f AND TypeFlags_StringLiteral \<noteq> 0
               then (case v of
                       None \<Rightarrow> None
                     | Some val \<Rightarrow>
                         (case getTypeOfPropertyOfName q objType (valueToString val) of
                            Some propType \<Rightarrow> Some (isNullableType propType)
                          | None \<Rightarrow> byIndexSignature))
               else byIndexSignature))"

definition isNullableMemberExpression :: "condition_env \<Rightarrow> node \<Rightarrow> bool option" where
  "isNullableMemberExpression env n =
     (case shape n of
        ElementAccessExpressionN expression _ argumentExpression \<Rightarrow>
          isNullablePropertyType (c_queries env)
            (getTypeAtLocation (c_checker env) expression)
            (getTypeAtLocation (c_checker env) argumentExpression)
      | PropertyAccessExpressionN expression _ property \<Rightarrow>
          (case shape property of
             IdentifierN escapedText \<Rightarrow>
               Some (getProperty (c_queries env) (getTypeAtLocation (c_checker env) expression)
                       escapedText = Some True)
           | _ \<Rightarrow> Some False)
      | _ \<Rightarrow> Some False)"

text \<open>\<^verbatim>\<open>checkNode\<close>: the report, once the node to judge is reached.\<close>

definition checkNode_judge :: "condition_env \<Rightarrow> node \<Rightarrow> bool \<Rightarrow> diagnostic list" where
  "checkNode_judge env n isUnaryNotArgument =
     (let t = typeAt env n
      in if list_ex (\<lambda>part. isTypeAnyType (c_queries env) part
                           \<or> isTypeUnknownType (c_queries env) part
                           \<or> isTypeFlagSet (c_queries env) part TypeFlags_TypeVariable)
              (unionTypeParts t)
         then []
         else (let message =
                     (if isTypeFlagSet (c_queries env) t TypeFlags_Never then Some msg_never
                      else if \<not> isPossiblyTruthy (c_queries env) t
                      then Some (if \<not> isUnaryNotArgument then msg_alwaysFalsy else msg_alwaysTruthy)
                      else if \<not> isPossiblyFalsy (c_queries env) t
                      then Some (if \<not> isUnaryNotArgument then msg_alwaysTruthy else msg_alwaysFalsy)
                      else None)
               in case message of
                    Some m \<Rightarrow> [report m (nstart n) (nend n)]
                  | None \<Rightarrow> []))"

fun checkNode :: "condition_env \<Rightarrow> node \<Rightarrow> bool \<Rightarrow> diagnostic list" where
  "checkNode env (Node i p s e (PrefixUnaryExpressionN operator operand)) isUnaryNotArgument =
     (if operator = ExclamationToken then checkNode env operand True
      else if isArrayIndexExpression env (Node i p s e (PrefixUnaryExpressionN operator operand))
      then []
      else checkNode_judge env (Node i p s e (PrefixUnaryExpressionN operator operand))
             isUnaryNotArgument)"
| "checkNode env (Node i p s e (BinaryExpressionN left operatorToken right)) isUnaryNotArgument =
     (if isArrayIndexExpression env (Node i p s e (BinaryExpressionN left operatorToken right))
      then []
      else if kind operatorToken \<noteq> QuestionQuestionToken then checkNode env right False
      else checkNode_judge env (Node i p s e (BinaryExpressionN left operatorToken right))
             isUnaryNotArgument)"
| "checkNode env n isUnaryNotArgument =
     (if isArrayIndexExpression env n then []
      else checkNode_judge env n isUnaryNotArgument)"

fun optionChainContainsOptionArrayIndex :: "condition_env \<Rightarrow> node \<Rightarrow> bool" where
  "optionChainContainsOptionArrayIndex env (Node i p s e (CallExpressionN lhsNode q tas as)) =
     (if q \<noteq> None \<and> isArrayIndexExpression env lhsNode then True
      else if kind lhsNode = PropertyAccessExpression \<or> kind lhsNode = ElementAccessExpression
              \<or> kind lhsNode = CallExpression
      then optionChainContainsOptionArrayIndex env lhsNode
      else False)"
| "optionChainContainsOptionArrayIndex env (Node i p s e (PropertyAccessExpressionN lhsNode q nm)) =
     (if q \<noteq> None \<and> isArrayIndexExpression env lhsNode then True
      else if kind lhsNode = PropertyAccessExpression \<or> kind lhsNode = ElementAccessExpression
              \<or> kind lhsNode = CallExpression
      then optionChainContainsOptionArrayIndex env lhsNode
      else False)"
| "optionChainContainsOptionArrayIndex env (Node i p s e (ElementAccessExpressionN lhsNode q arg)) =
     (if q \<noteq> None \<and> isArrayIndexExpression env lhsNode then True
      else if kind lhsNode = PropertyAccessExpression \<or> kind lhsNode = ElementAccessExpression
              \<or> kind lhsNode = CallExpression
      then optionChainContainsOptionArrayIndex env lhsNode
      else False)"
| "optionChainContainsOptionArrayIndex env n = False"

definition checkNodeForNullish :: "condition_env \<Rightarrow> node \<Rightarrow> diagnostic list option" where
  "checkNodeForNullish env n =
     (let t = typeAt env n;
          q = c_queries env
      in if isTypeFlagSet q t (TypeFlags_Any OR TypeFlags_Unknown OR TypeFlags_TypeParameter
                               OR TypeFlags_TypeVariable)
         then Some []
         else if isTypeFlagSet q t TypeFlags_Never
         then Some [report msg_never (nstart n) (nend n)]
         else (case (if \<not> isPossiblyNullish q t
                     then (if kind n = PropertyAccessExpression \<or> kind n = ElementAccessExpression
                           then (case isNullableMemberExpression env n of
                                   None \<Rightarrow> None | Some b \<Rightarrow> Some (\<not> b))
                           else Some True)
                     else Some False) of
                 None \<Rightarrow> None
               | Some True \<Rightarrow>
                   if \<not> isArrayIndexExpression env n
                      \<and> \<not> ((kind n = PropertyAccessExpression \<or> kind n = ElementAccessExpression)
                            \<and> isOptionalChain q n
                            \<and> kind n \<noteq> NonNullExpression
                            \<and> optionChainContainsOptionArrayIndex env n)
                   then Some [report msg_neverNullish (nstart n) (nend n)]
                   else Some []
               | Some False \<Rightarrow>
                   if isAlwaysNullish q t
                   then Some [report msg_alwaysNullish (nstart n) (nend n)]
                   else Some []))"

text \<open>The relational and equality operators (\<^verbatim>\<open>BOOL_OPERATORS\<close>).\<close>

definition BOOL_OPERATORS :: "syntax_kind set" where
  "BOOL_OPERATORS =
     {LessThanToken, GreaterThanToken, LessThanEqualsToken, GreaterThanEqualsToken,
      EqualsEqualsToken, EqualsEqualsEqualsToken, ExclamationEqualsToken,
      ExclamationEqualsEqualsToken}"

definition isComparable :: "condition_env \<Rightarrow> syntax_kind \<Rightarrow> ts_type \<Rightarrow> type_flags \<Rightarrow> bool" where
  "isComparable env operatorKind t flag =
     (let flag1 = flag OR (TypeFlags_Any OR TypeFlags_Unknown OR TypeFlags_TypeParameter
                           OR TypeFlags_TypeVariable);
          flag2 = (if operatorKind = EqualsEqualsToken \<or> operatorKind = ExclamationEqualsToken
                   then flag1 OR (TypeFlags_Null OR TypeFlags_Undefined OR TypeFlags_Void)
                   else flag1)
      in isTypeFlagSet (c_queries env) t flag2)"

definition checkIfBinaryExpressionIsNecessaryConditional ::
  "condition_env \<Rightarrow> node \<Rightarrow> node \<Rightarrow> node \<Rightarrow> node \<Rightarrow> diagnostic list" where
  "checkIfBinaryExpressionIsNecessaryConditional env n left operatorToken right =
     (if kind operatorToken \<notin> BOOL_OPERATORS then []
      else (let leftType = typeAt env left;
                rightType = typeAt env right
            in if isLiteral leftType \<and> isLiteral rightType
               then [report msg_literalBooleanExpression (nstart n) (nend n)]
               else if isStrictNullChecks env
               then (if (flags leftType = TypeFlags_Undefined
                          \<and> \<not> isComparable env (kind operatorToken) rightType
                                 (TypeFlags_Undefined OR TypeFlags_Void))
                        \<or> (flags rightType = TypeFlags_Undefined
                          \<and> \<not> isComparable env (kind operatorToken) leftType
                                 (TypeFlags_Undefined OR TypeFlags_Void))
                        \<or> (flags leftType = TypeFlags_Null
                          \<and> \<not> isComparable env (kind operatorToken) rightType TypeFlags_Null)
                        \<or> (flags rightType = TypeFlags_Null
                          \<and> \<not> isComparable env (kind operatorToken) leftType TypeFlags_Null)
                     then [report msg_noOverlapBooleanExpression (nstart n) (nend n)]
                     else [])
               else []))"

definition checkLogicalExpressionForUnnecessaryConditionals ::
  "condition_env \<Rightarrow> node \<Rightarrow> node \<Rightarrow> diagnostic list option" where
  "checkLogicalExpressionForUnnecessaryConditionals env left operatorToken =
     (if kind operatorToken = QuestionQuestionToken then checkNodeForNullish env left
      else Some (checkNode env left False))"

definition checkIfLoopIsNecessaryConditional :: "condition_env \<Rightarrow> node option \<Rightarrow> diagnostic list" where
  "checkIfLoopIsNecessaryConditional env test =
     (case test of
        None \<Rightarrow> []
      | Some tst \<Rightarrow>
          if allowConstantLoopConditions env \<and> isTrueLiteralType (typeAt env tst) then []
          else checkNode env tst False)"

definition ARRAY_PREDICATE_FUNCTIONS :: "jsstring set" where
  "ARRAY_PREDICATE_FUNCTIONS = {js_str ''filter'', js_str ''find'', js_str ''some'', js_str ''every''}"

definition isArrayPredicateFunction :: "condition_env \<Rightarrow> node \<Rightarrow> bool" where
  "isArrayPredicateFunction env expression =
     (case shape expression of
        PropertyAccessExpressionN object _ nm \<Rightarrow>
          (case shape nm of
             IdentifierN escapedText \<Rightarrow>
               escapedText \<in> ARRAY_PREDICATE_FUNCTIONS
               \<and> (nodeIsArrayType env object \<or> nodeIsTupleType env object)
           | _ \<Rightarrow> False)
      | _ \<Rightarrow> False)"

text \<open>The expression that \<^verbatim>\<open>checkCallExpression\<close> checks directly for an inline
  callback: the body of \<^verbatim>\<open>() => something\<close>, or the returned expression of
  \<^verbatim>\<open>() => { return something; }\<close>.\<close>

definition directlyReturned :: "node \<Rightarrow> node option" where
  "directlyReturned callback =
     (let ofBody = (\<lambda>body. case shape body of
                      BlockN [stmt] \<Rightarrow> (case shape stmt of ReturnStatementN e \<Rightarrow> e | _ \<Rightarrow> None)
                    | BlockN _ \<Rightarrow> None
                    | _ \<Rightarrow> Some body)
      in case shape callback of
           ArrowFunctionN _ body \<Rightarrow> ofBody body
         | FunctionExpressionN _ body \<Rightarrow> ofBody body
         | _ \<Rightarrow> None)"

definition checkCallExpression :: "condition_env \<Rightarrow> node \<Rightarrow> node list \<Rightarrow> diagnostic list" where
  "checkCallExpression env expression arguments =
     (if isArrayPredicateFunction env expression \<and> arguments \<noteq> []
      then (let callback = hd arguments
            in case directlyReturned callback of
                 Some e \<Rightarrow> checkNode env e False
               | None \<Rightarrow>
                   (let q = c_queries env;
                        returnTypes = getCallSignaturesOfType q (typeAt env callback)
                    in if returnTypes = [] then []
                       else if list_ex (\<lambda>t. isTypeAnyType q t \<or> isTypeUnknownType q t) returnTypes
                       then []
                       else (if \<not> list_ex (isPossiblyFalsy q) returnTypes
                             then [report msg_alwaysTruthyFunc (nstart callback) (nend callback)]
                             else [])
                            @ (if \<not> list_ex (isPossiblyTruthy q) returnTypes
                               then [report msg_alwaysFalsyFunc (nstart callback) (nend callback)]
                               else [])))
      else [])"

definition isMemberExpressionNullableOriginFromObject :: "condition_env \<Rightarrow> node \<Rightarrow> bool option" where
  "isMemberExpressionNullableOriginFromObject env n =
     (let q = c_queries env;
          fromUnion = (\<lambda>expression property isElementAccess.
            let prevType = typeAt env expression
            in case shape property of
                 IdentifierN escapedText \<Rightarrow>
                   if tsutils_isTypeFlagSet prevType TypeFlags_Union
                   then (case some_opt
                                (\<lambda>t. if isElementAccess
                                      then isNullablePropertyType q t (typeAt env property)
                                      else (case getTypeOfPropertyOfName q t escapedText of
                                              Some propType \<Rightarrow> Some (isNullableType propType)
                                            | None \<Rightarrow> Some (getStringIndexInfoOfType q t)))
                                (types prevType) of
                           None \<Rightarrow> None
                         | Some isOwnNullable \<Rightarrow> Some (\<not> isOwnNullable \<and> isNullableType prevType))
                   else Some False
               | _ \<Rightarrow> Some False)
      in case shape n of
           PropertyAccessExpressionN expression _ nm \<Rightarrow> fromUnion expression nm False
         | ElementAccessExpressionN expression _ argumentExpression \<Rightarrow>
             fromUnion expression argumentExpression True
         | _ \<Rightarrow> Some False)"

definition isCallExpressionNullableOriginFromCallee :: "condition_env \<Rightarrow> node \<Rightarrow> bool" where
  "isCallExpressionNullableOriginFromCallee env expression =
     (let prevType = typeAt env expression
      in if tsutils_isTypeFlagSet prevType TypeFlags_Union
         then (let isOwnNullable =
                     list_ex (\<lambda>t. list_ex isNullableType (callReturnTypes t)) (types prevType)
               in \<not> isOwnNullable \<and> isNullableType prevType)
         else False)"

definition isOptionableExpression :: "condition_env \<Rightarrow> node \<Rightarrow> bool option" where
  "isOptionableExpression env n =
     (let t = typeAt env n;
          q = c_queries env
      in case (case shape n of
                 PropertyAccessExpressionN _ _ _ \<Rightarrow>
                   (case isMemberExpressionNullableOriginFromObject env n of
                      None \<Rightarrow> None | Some b \<Rightarrow> Some (\<not> b))
               | ElementAccessExpressionN _ _ _ \<Rightarrow>
                   (case isMemberExpressionNullableOriginFromObject env n of
                      None \<Rightarrow> None | Some b \<Rightarrow> Some (\<not> b))
               | CallExpressionN expression _ _ _ \<Rightarrow>
                   Some (\<not> isCallExpressionNullableOriginFromCallee env expression)
               | _ \<Rightarrow> Some True) of
           None \<Rightarrow> None
         | Some isOwnNullable \<Rightarrow>
             (let possiblyVoid = isTypeFlagSet q t TypeFlags_Void
              in Some (isTypeFlagSet q t (TypeFlags_Any OR TypeFlags_Unknown)
                       \<or> (isOwnNullable \<and> (isNullableType t \<or> possiblyVoid)))))"

text \<open>\<open>n\<close> is the call or member expression, \<open>expression\<close> its receiver (which is
  also \<^verbatim>\<open>beforeOperator\<close>) and \<open>questionDotToken\<close> its optional-chaining token.\<close>

definition checkOptionalChain ::
  "condition_env \<Rightarrow> node \<Rightarrow> node \<Rightarrow> node option \<Rightarrow> jsstring \<Rightarrow> diagnostic list option" where
  "checkOptionalChain env n expression questionDotToken fix =
     (if questionDotToken = None then Some []
      else if optionChainContainsOptionArrayIndex env n then Some []
      else (case isOptionableExpression env expression of
              None \<Rightarrow> None
            | Some True \<Rightarrow> Some []
            | Some False \<Rightarrow>
                (case nullThrows
                        (getTokenAfter (getChildren (c_sourceFile env) n) expression
                           (Some (\<lambda>token. kind token = QuestionDotToken)))
                        (MissingToken ''operator'' ''?.'') of
                   Inl e \<Rightarrow> None
                 | Inr questionDotOperator \<Rightarrow>
                     Some [withFix
                             (report msg_neverOptionalChain (nstart questionDotOperator)
                                (nend questionDotOperator))
                             noDescription
                             (Inr [\<lparr>newText = fix,
                                    span_start = nstart questionDotOperator,
                                    span_length = getWidth questionDotOperator\<rparr>])])))"

definition checkOptionalMemberExpression :: "condition_env \<Rightarrow> node \<Rightarrow> diagnostic list option" where
  "checkOptionalMemberExpression env n =
     (case shape n of
        PropertyAccessExpressionN expression q _ \<Rightarrow> checkOptionalChain env n expression q (js_str ''.'')
      | ElementAccessExpressionN expression q _ \<Rightarrow> checkOptionalChain env n expression q []
      | _ \<Rightarrow> Some [])"

definition checkOptionalCallExpression :: "condition_env \<Rightarrow> node \<Rightarrow> diagnostic list option" where
  "checkOptionalCallExpression env n =
     (case shape n of
        CallExpressionN expression q _ _ \<Rightarrow> checkOptionalChain env n expression q []
      | _ \<Rightarrow> Some [])"

subsection \<open>The traversal callback\<close>

text \<open>
  The callback is an \<^verbatim>\<open>if\<close>/\<^verbatim>\<open>else if\<close> chain over the node; \<open>dispatch\<close> is the
  chain of its guards, in the source's order, naming the branch that is taken, and
  \<open>run_branch\<close> is the body of each branch.  Every body is wrapped in
  \<^verbatim>\<open>try { ... } catch { }\<close>: a check that throws reports nothing.
\<close>

datatype branch =
    LogicalAssignmentBranch | NullishAssignmentBranch | LogicalExpressionBranch
  | BinaryExpressionBranch | CallExpressionBranch | ConditionalExpressionBranch
  | DoStatementBranch | ForStatementBranch | IfStatementBranch | WhileStatementBranch
  | OptionalMemberExpressionBranch | OptionalCallExpressionBranch | NoBranch

definition operatorKind :: "node \<Rightarrow> syntax_kind option" where
  "operatorKind n = (case shape n of BinaryExpressionN _ operatorToken _ \<Rightarrow> Some (kind operatorToken)
                     | _ \<Rightarrow> None)"

definition questionDotToken :: "node \<Rightarrow> node option" where
  "questionDotToken n =
     (case shape n of
        CallExpressionN _ q _ _ \<Rightarrow> q
      | PropertyAccessExpressionN _ q _ \<Rightarrow> q
      | ElementAccessExpressionN _ q _ \<Rightarrow> q
      | _ \<Rightarrow> None)"

definition dispatch :: "node \<Rightarrow> branch" where
  "dispatch n =
     (if kind n = BinaryExpression
      then (if operatorKind n \<in> {Some BarBarEqualsToken, Some AmpersandAmpersandEqualsToken}
            then LogicalAssignmentBranch
            else if operatorKind n = Some QuestionQuestionEqualsToken
            then NullishAssignmentBranch
            else if operatorKind n = Some QuestionQuestionToken
                    \<or> operatorKind n = Some BarBarToken
                    \<or> operatorKind n = Some AmpersandAmpersandToken
            then LogicalExpressionBranch
            else BinaryExpressionBranch)
      else if kind n = CallExpression then CallExpressionBranch
      else if kind n = ConditionalExpression then ConditionalExpressionBranch
      else if kind n = DoStatement then DoStatementBranch
      else if kind n = ForStatement then ForStatementBranch
      else if kind n = IfStatement then IfStatementBranch
      else if kind n = WhileStatement then WhileStatementBranch
      else if (kind n = PropertyAccessExpression \<or> kind n = ElementAccessExpression)
              \<and> questionDotToken n \<noteq> None
      then OptionalMemberExpressionBranch
      else if kind n = CallExpression \<and> questionDotToken n \<noteq> None
      then OptionalCallExpressionBranch
      else NoBranch)"

definition tryCatch :: "diagnostic list option \<Rightarrow> diagnostic list" where
  "tryCatch r = (case r of None \<Rightarrow> [] | Some ds \<Rightarrow> ds)"

definition run_branch :: "condition_env \<Rightarrow> branch \<Rightarrow> node \<Rightarrow> diagnostic list" where
  "run_branch env b n =
     (case b of
        LogicalAssignmentBranch \<Rightarrow>
          (case shape n of BinaryExpressionN left _ _ \<Rightarrow> checkNode env left False | _ \<Rightarrow> [])
      | NullishAssignmentBranch \<Rightarrow>
          (case shape n of BinaryExpressionN left _ _ \<Rightarrow> tryCatch (checkNodeForNullish env left)
           | _ \<Rightarrow> [])
      | LogicalExpressionBranch \<Rightarrow>
          (case shape n of
             BinaryExpressionN left operatorToken _ \<Rightarrow>
               tryCatch (checkLogicalExpressionForUnnecessaryConditionals env left operatorToken)
           | _ \<Rightarrow> [])
      | BinaryExpressionBranch \<Rightarrow>
          (case shape n of
             BinaryExpressionN left operatorToken right \<Rightarrow>
               checkIfBinaryExpressionIsNecessaryConditional env n left operatorToken right
           | _ \<Rightarrow> [])
      | CallExpressionBranch \<Rightarrow>
          (case shape n of
             CallExpressionN expression _ _ arguments \<Rightarrow> checkCallExpression env expression arguments
           | _ \<Rightarrow> [])
      | ConditionalExpressionBranch \<Rightarrow>
          (case shape n of
             ConditionalExpressionN condition _ _ _ _ \<Rightarrow> checkNode env condition False
           | _ \<Rightarrow> [])
      | DoStatementBranch \<Rightarrow>
          (case shape n of
             DoStatementN _ expression \<Rightarrow> checkIfLoopIsNecessaryConditional env (Some expression)
           | _ \<Rightarrow> [])
      | ForStatementBranch \<Rightarrow>
          (case shape n of
             ForStatementN _ condition _ _ \<Rightarrow> checkIfLoopIsNecessaryConditional env condition
           | _ \<Rightarrow> [])
      | IfStatementBranch \<Rightarrow>
          (case shape n of IfStatementN expression _ _ \<Rightarrow> checkNode env expression False | _ \<Rightarrow> [])
      | WhileStatementBranch \<Rightarrow>
          (case shape n of
             WhileStatementN expression _ \<Rightarrow> checkIfLoopIsNecessaryConditional env (Some expression)
           | _ \<Rightarrow> [])
      | OptionalMemberExpressionBranch \<Rightarrow> tryCatch (checkOptionalMemberExpression env n)
      | OptionalCallExpressionBranch \<Rightarrow> tryCatch (checkOptionalCallExpression env n)
      | NoBranch \<Rightarrow> [])"

definition condition_cb :: "condition_env \<Rightarrow> node \<Rightarrow> diagnostic list" where
  "condition_cb env n = run_branch env (dispatch n) n"

text \<open>The report the rule makes before the traversal when strict null checks are off.\<close>

definition condition_config_report :: "condition_env \<Rightarrow> diagnostic list" where
  "condition_config_report env =
     (if \<not> isStrictNullChecks env \<and> \<not> allowRuleToRunWithoutStrictNullChecksIKnowWhatIAmDoing env
      then [report msg_strictNullChecks 0 0]
      else [])"

section \<open>Rule: prefer nullish coalescing\<close>

record ignore_primitives =
  ip_bigint :: bool
  ip_boolean :: bool
  ip_number :: bool
  ip_string :: bool

text \<open>\<open>ignorePrimitives\<close> is \<open>None\<close> for the option value \<^verbatim>\<open>true\<close>.
  \<open>n_getTypeFlags\<close> is \<^verbatim>\<open>getTypeFlags\<close> of the repository's type utilities, which is
  not among the source files.\<close>

record nullish_env =
  n_checker :: checker
  n_sourceFile :: source_file
  n_getTypeFlags :: "ts_type \<Rightarrow> type_flags"
  n_isStrictNullChecks :: bool
  n_allowRuleToRunWithoutStrictNullChecksIKnowWhatIAmDoing :: bool
  ignoreConditionalTests :: bool
  ignoreTernaryTests :: bool
  ignoreMixedLogicalExpressions :: bool
  ignorePrimitives :: "ignore_primitives option"

definition isLogicalOrExpression :: "node \<Rightarrow> bool" where
  "isLogicalOrExpression n =
     (case shape n of BinaryExpressionN _ operatorToken _ \<Rightarrow> kind operatorToken = BarBarToken
      | _ \<Rightarrow> False)"

definition isLogicalAndExpression :: "node \<Rightarrow> bool" where
  "isLogicalAndExpression n =
     (case shape n of
        BinaryExpressionN _ operatorToken _ \<Rightarrow> kind operatorToken = AmpersandAmpersandToken
      | _ \<Rightarrow> False)"

definition isLogicalExpression :: "node \<Rightarrow> bool" where
  "isLogicalExpression n = (isLogicalOrExpression n \<or> isLogicalAndExpression n)"

definition isUndefinedIdentifier :: "node \<Rightarrow> bool" where
  "isUndefinedIdentifier i = (kind i = UndefinedKeyword)"

definition isNullLiteral :: "node \<Rightarrow> bool" where
  "isNullLiteral n = (kind n = NullKeyword)"

fun isNodeEqual :: "source_file \<Rightarrow> node \<Rightarrow> node \<Rightarrow> bool" where
  "isNodeEqual sf (Node i p s e (PropertyAccessExpressionN ea qa na)) b =
     (case shape b of
        PropertyAccessExpressionN eb qb nb \<Rightarrow> isNodeEqual sf na nb \<and> isNodeEqual sf ea eb
      | _ \<Rightarrow> False)"
| "isNodeEqual sf a b =
     (if kind a \<noteq> kind b then False
      else if kind a = ThisKeyword \<and> kind b = ThisKeyword then True
      else if kind a = StringLiteral \<and> kind b = StringLiteral then getText sf a = getText sf b
      else if kind a = Identifier \<and> kind b = Identifier then getText sf a = getText sf b
      else False)"

text \<open>The comparison operator that a ternary's test stands for, and the nodes inside the
  test, as the first part of the callback computes them.\<close>

definition ternaryTest :: "node \<Rightarrow> syntax_kind option \<times> node list" where
  "ternaryTest condition =
     (case shape condition of
        BinaryExpressionN left operatorToken right \<Rightarrow>
          if kind operatorToken = EqualsEqualsToken
             \<or> kind operatorToken = ExclamationEqualsToken
             \<or> kind operatorToken = EqualsEqualsEqualsToken
             \<or> kind operatorToken = ExclamationEqualsEqualsToken
          then (Some (kind operatorToken), [left, right])
          else if isLogicalExpression condition
          then (case (shape left, shape right) of
                  (BinaryExpressionN ll lop lr, BinaryExpressionN rl rop rr) \<Rightarrow>
                    (if kind operatorToken = BarBarToken
                     then (if kind lop = EqualsEqualsEqualsToken \<and> kind rop = EqualsEqualsEqualsToken
                           then Some EqualsEqualsEqualsToken
                           else if ((kind lop = EqualsEqualsEqualsToken
                                      \<or> kind rop = EqualsEqualsEqualsToken)
                                    \<and> (kind lop = EqualsEqualsToken \<or> kind rop = EqualsEqualsToken))
                                   \<or> (kind lop = EqualsEqualsToken \<and> kind rop = EqualsEqualsToken)
                           then Some EqualsEqualsToken
                           else None)
                     else if kind operatorToken = AmpersandAmpersandToken
                     then (if kind lop = ExclamationEqualsEqualsToken
                              \<and> kind rop = ExclamationEqualsEqualsToken
                           then Some ExclamationEqualsEqualsToken
                           else if ((kind lop = ExclamationEqualsEqualsToken
                                      \<or> kind rop = ExclamationEqualsEqualsToken)
                                    \<and> (kind lop = ExclamationEqualsToken
                                       \<or> kind rop = ExclamationEqualsToken))
                                   \<or> (kind lop = ExclamationEqualsToken
                                      \<and> kind rop = ExclamationEqualsToken)
                           then Some ExclamationEqualsToken
                           else None)
                     else None,
                     [ll, lr, rl, rr])
                | _ \<Rightarrow> (None, [left, right]))
          else (None, [left, right])
      | _ \<Rightarrow> (None, []))"

text \<open>
  The loop over the nodes inside the test.  The state is the identifier found so far and
  the two flags \<^verbatim>\<open>hasUndefinedCheck\<close> and \<^verbatim>\<open>hasNullCheck\<close>; \<open>None\<close> is the early
  \<^verbatim>\<open>return\<close> for a node that is none of null, undefined and the identifier.
\<close>

fun scanTestNodes ::
  "source_file \<Rightarrow> syntax_kind \<Rightarrow> node \<Rightarrow> node \<Rightarrow> node list \<Rightarrow> node option \<times> bool \<times> bool
     \<Rightarrow> (node option \<times> bool \<times> bool) option" where
  "scanTestNodes sf operator whenTrue whenFalse [] st = Some st"
| "scanTestNodes sf operator whenTrue whenFalse (testNode # rest) (identifier, hasUndefinedCheck, hasNullCheck) =
     (if isNullLiteral testNode
      then scanTestNodes sf operator whenTrue whenFalse rest (identifier, hasUndefinedCheck, True)
      else if isUndefinedIdentifier testNode
      then scanTestNodes sf operator whenTrue whenFalse rest (identifier, True, hasNullCheck)
      else if (operator = ExclamationEqualsEqualsToken \<or> operator = ExclamationEqualsToken)
              \<and> isNodeEqual sf testNode whenTrue
      then scanTestNodes sf operator whenTrue whenFalse rest (Some testNode, hasUndefinedCheck, hasNullCheck)
      else if (operator = EqualsEqualsEqualsToken \<or> operator = EqualsEqualsToken)
              \<and> isNodeEqual sf testNode whenFalse
      then scanTestNodes sf operator whenTrue whenFalse rest (Some testNode, hasUndefinedCheck, hasNullCheck)
      else None)"

definition isFixable :: "nullish_env \<Rightarrow> syntax_kind \<Rightarrow> node \<Rightarrow> bool \<Rightarrow> bool \<Rightarrow> bool" where
  "isFixable env operator identifier hasUndefinedCheck hasNullCheck =
     (if hasUndefinedCheck = hasNullCheck then hasUndefinedCheck
      else if operator = EqualsEqualsToken \<or> operator = ExclamationEqualsToken then True
      else (let t = getTypeAtLocation (n_checker env) identifier;
                flags = n_getTypeFlags env t
            in if flags AND (TypeFlags_Any OR TypeFlags_Unknown) \<noteq> 0 then False
               else (let hasNullType = (flags AND TypeFlags_Null \<noteq> 0)
                     in if hasUndefinedCheck \<and> \<not> hasNullType then True
                        else (let hasUndefinedType = (flags AND TypeFlags_Undefined \<noteq> 0)
                              in hasNullCheck \<and> \<not> hasUndefinedType))))"

definition msg_preferNullishOverTernary :: jsstring where
  "msg_preferNullishOverTernary = js_str
     ''Prefer using nullish coalescing operator (`??`) instead of a ternary expression, as it is simpler to read.''"

definition msg_preferNullishOverOr :: jsstring where
  "msg_preferNullishOverOr = js_str
     ''Prefer using nullish coalescing operator (`??`) instead of a logical or (`||`), as it is a safer operator.''"

definition fixToNullish :: jsstring where
  "fixToNullish = js_str ''Fix to nullish coalescing operator (`??`).''"

definition checkTernary ::
  "nullish_env \<Rightarrow> node \<Rightarrow> node \<Rightarrow> node \<Rightarrow> node \<Rightarrow> diagnostic list \<times> outcome" where
  "checkTernary env n condition whenTrue whenFalse =
     (if ignoreTernaryTests env then ([], Return)
      else (case ternaryTest condition of
              (None, _) \<Rightarrow> ([], Return)
            | (Some operator, nodesInsideTestExpression) \<Rightarrow>
                (case scanTestNodes (n_sourceFile env) operator whenTrue whenFalse
                        nodesInsideTestExpression (None, False, False) of
                   None \<Rightarrow> ([], Return)
                 | Some (None, _, _) \<Rightarrow> ([], Return)
                 | Some (Some identifier, hasUndefinedCheck, hasNullCheck) \<Rightarrow>
                     if isFixable env operator identifier hasUndefinedCheck hasNullCheck
                     then (let (left, right) =
                                 (if operator = EqualsEqualsEqualsToken \<or> operator = EqualsEqualsToken
                                  then (whenFalse, whenTrue) else (whenTrue, whenFalse))
                           in ([withFix
                                  (report msg_preferNullishOverTernary (nstart n) (nend n))
                                  fixToNullish
                                  (Inr [\<lparr>newText = getText (n_sourceFile env) left @ js_str '' ?? ''
                                                     @ getText (n_sourceFile env) right,
                                         span_start = nstart n,
                                         span_length = getWidth n\<rparr>])],
                               Descend))
                     else ([], Descend))))"

text \<open>\<^verbatim>\<open>isConditionalTest\<close>: the walk up the parents; \<open>parents\<close> holds the identities of
  the nodes passed so far.\<close>

fun isConditionalTest_walk :: "nat list \<Rightarrow> node list \<Rightarrow> bool" where
  "isConditionalTest_walk parents [] = False"
| "isConditionalTest_walk parents (current # higher) =
     (let parents' = nid current # parents;
          has = (\<lambda>x. case x of None \<Rightarrow> False | Some m \<Rightarrow> nid m \<in> set parents')
      in if (case shape current of
               ConditionalExpressionN condition _ _ _ _ \<Rightarrow> has (Some condition)
             | ForStatementN _ condition _ _ \<Rightarrow> has condition
             | _ \<Rightarrow> False)
         then True
         else if (case shape current of
                    DoStatementN _ expression \<Rightarrow> has (Some expression)
                  | IfStatementN expression _ _ \<Rightarrow> has (Some expression)
                  | WhileStatementN expression _ \<Rightarrow> has (Some expression)
                  | _ \<Rightarrow> False)
         then True
         else if kind current = ArrowFunction \<or> kind current = FunctionExpression then False
         else isConditionalTest_walk parents' higher)"

definition isConditionalTest :: "node list \<Rightarrow> node \<Rightarrow> bool" where
  "isConditionalTest ancestors n = isConditionalTest_walk [nid n] ancestors"

text \<open>
  \<^verbatim>\<open>isMixedLogicalExpression\<close>: the loop over a queue that grows while it is read.  A
  queue entry is a node with its ancestors, or \<^verbatim>\<open>undefined\<close> (the parent of a node
  without one); \<open>seen\<close> holds the identities met so far.  The result is \<open>None\<close> when the
  loop does not end, and an error when \<^verbatim>\<open>undefined\<close> is inspected.
\<close>

type_synonym located = "node \<times> node list"

definition parentOf :: "located \<Rightarrow> located option" where
  "parentOf ln = (case snd ln of [] \<Rightarrow> None | parent # higher \<Rightarrow> Some (parent, higher))"

definition identityOf :: "located option \<Rightarrow> nat option" where
  "identityOf x = (case x of None \<Rightarrow> None | Some ln \<Rightarrow> Some (nid (fst ln)))"

definition neighbours :: "located \<Rightarrow> located option list" where
  "neighbours ln =
     (case shape (fst ln) of
        BinaryExpressionN left _ right \<Rightarrow>
          [parentOf ln, Some (left, fst ln # snd ln), Some (right, fst ln # snd ln)]
      | _ \<Rightarrow> [])"

partial_function (option) mixedLogical_loop ::
  "nat option list \<Rightarrow> located option list \<Rightarrow> (error + bool) option" where
  "mixedLogical_loop seen queue =
     (if queue = [] then Some (Inr False)
      else if identityOf (hd queue) \<in> set seen then mixedLogical_loop seen (tl queue)
      else if hd queue = None then Some (Inl TypeError)
      else if isLogicalExpression (fst (the (hd queue)))
      then (if isLogicalAndExpression (fst (the (hd queue))) then Some (Inr True)
            else if isLogicalOrExpression (fst (the (hd queue)))
            then mixedLogical_loop (identityOf (hd queue) # seen)
                   (tl queue @ neighbours (the (hd queue)))
            else mixedLogical_loop (identityOf (hd queue) # seen) (tl queue))
      else mixedLogical_loop (identityOf (hd queue) # seen) (tl queue))"

declare mixedLogical_loop.simps [code]

definition isMixedLogicalExpression :: "node list \<Rightarrow> node \<Rightarrow> node \<Rightarrow> node \<Rightarrow> (error + bool) option" where
  "isMixedLogicalExpression ancestors n left right =
     mixedLogical_loop []
       [parentOf (n, ancestors), Some (left, n # ancestors), Some (right, n # ancestors)]"

definition ignorableFlags :: "ignore_primitives option \<Rightarrow> type_flags" where
  "ignorableFlags ip =
     (if ip = None \<or> ip_bigint (the ip) then TypeFlags_BigInt else 0)
     OR (if ip = None \<or> ip_boolean (the ip) then TypeFlags_BooleanLiteral else 0)
     OR (if ip = None \<or> ip_number (the ip) then TypeFlags_Number else 0)
     OR (if ip = None \<or> ip_string (the ip) then TypeFlags_String else 0)"

text \<open>The edits of the fix for \<^verbatim>\<open>left || right\<close>.\<close>

definition logicalOrFix :: "node list \<Rightarrow> node \<Rightarrow> node \<Rightarrow> node \<Rightarrow> error + text_change list" where
  "logicalOrFix ancestors left right barBarOperator =
     (case ancestors of
        [] \<Rightarrow> Inl TypeError
      | parent # _ \<Rightarrow>
          Inr ((if isLogicalOrExpression parent
                then [(case shape left of
                         BinaryExpressionN ll lop lr \<Rightarrow>
                           if isLogicalExpression left \<and> \<not> isLogicalOrExpression ll
                           then \<lparr>newText = js_str ''('', span_start = nstart lr, span_length = 0\<rparr>
                           else \<lparr>newText = js_str ''('', span_start = nstart left, span_length = 0\<rparr>
                       | _ \<Rightarrow> \<lparr>newText = js_str ''('', span_start = nstart left, span_length = 0\<rparr>),
                      \<lparr>newText = js_str '')'', span_start = nend right, span_length = 0\<rparr>]
                else [])
               @ [\<lparr>newText = js_str ''??'', span_start = nstart barBarOperator,
                    span_length = getWidth barBarOperator\<rparr>]))"

definition checkLogicalOr ::
  "nullish_env \<Rightarrow> node list \<Rightarrow> node \<Rightarrow> node \<Rightarrow> node \<Rightarrow> node \<Rightarrow> diagnostic list \<times> outcome" where
  "checkLogicalOr env ancestors n left operatorToken right =
     (let t = getTypeAtLocation (n_checker env) left
      in if \<not> tsutils_isTypeFlagSet t (TypeFlags_Null OR TypeFlags_Undefined) then ([], Return)
         else if ignoreConditionalTests env \<and> isConditionalTest ancestors n then ([], Return)
         else (case isMixedLogicalExpression ancestors n left right of
                 None \<Rightarrow> ([], Diverge)
               | Some (Inl e) \<Rightarrow> ([], Throw e)
               | Some (Inr isMixedLogical) \<Rightarrow>
                   if ignoreMixedLogicalExpressions env \<and> isMixedLogical then ([], Return)
                   else if flags t \<noteq> TypeFlags_Null \<and> flags t \<noteq> TypeFlags_Undefined
                           \<and> \<not> tsutils_isTypeFlagSet t (TypeFlags_Union OR TypeFlags_Intersection)
                   then ([], Throw TypeError)
                   else if flags t \<noteq> TypeFlags_Null \<and> flags t \<noteq> TypeFlags_Undefined
                           \<and> list_ex (\<lambda>part. tsutils_isTypeFlagSet part
                                                 (ignorableFlags (ignorePrimitives env)))
                                (types t)
                   then ([], Return)
                   else (case nullThrows
                                (getTokenAfter (getChildren (n_sourceFile env) n) left
                                   (Some (\<lambda>child. kind child = kind operatorToken)))
                                (MissingToken ''operator'' ''||'') of
                           Inl e \<Rightarrow> ([], Throw e)
                         | Inr barBarOperator \<Rightarrow>
                             ([withFix
                                 (report msg_preferNullishOverOr (nstart barBarOperator)
                                    (nend barBarOperator))
                                 fixToNullish
                                 (logicalOrFix ancestors left right barBarOperator)],
                              Descend))))"

definition nullish_cb :: "nullish_env \<Rightarrow> node list \<Rightarrow> node \<Rightarrow> diagnostic list \<times> outcome" where
  "nullish_cb env ancestors n =
     (case shape n of
        ConditionalExpressionN condition _ whenTrue _ whenFalse \<Rightarrow>
          checkTernary env n condition whenTrue whenFalse
      | BinaryExpressionN left operatorToken right \<Rightarrow>
          if kind operatorToken = BarBarToken
          then checkLogicalOr env ancestors n left operatorToken right
          else ([], Descend)
      | _ \<Rightarrow> ([], Descend))"

definition nullish_config_report :: "nullish_env \<Rightarrow> diagnostic list" where
  "nullish_config_report env =
     (if \<not> n_isStrictNullChecks env \<and> \<not> n_allowRuleToRunWithoutStrictNullChecksIKnowWhatIAmDoing env
      then [report msg_strictNullChecks 0 0]
      else [])"

section \<open>Rule: prefer ts-expect-error\<close>

text \<open>The code units that \<^verbatim>\<open>\s\<close> matches in a regular expression.\<close>

definition isWhiteSpace :: "code_unit \<Rightarrow> bool" where
  "isWhiteSpace c =
     (c \<in> {9, 10, 11, 12, 13, 32, 160, 5760, 8232, 8233, 8239, 8287, 12288, 65279}
      \<or> (8192 \<le> c \<and> c \<le> 8202))"

definition tsIgnore :: jsstring where
  "tsIgnore = js_str ''@ts-ignore''"

definition startsWith :: "jsstring \<Rightarrow> jsstring \<Rightarrow> bool" where
  "startsWith s pat = (take (length pat) s = pat)"

text \<open>
  \<^verbatim>\<open>/^\s*\/?\s*@ts-ignore/.test(s)\<close> and \<^verbatim>\<open>/^\s*(?:\/|\*)*\s*@ts-ignore/.test(s)\<close>.
  White space, the characters \<^verbatim>\<open>/\<close> and \<^verbatim>\<open>*\<close>, and the \<^verbatim>\<open>@\<close> that starts the
  marker exclude one another, so the greedy match is the only one.
\<close>

definition tsIgnoreRegExpSingleLine :: "jsstring \<Rightarrow> bool" where
  "tsIgnoreRegExpSingleLine s =
     (let s1 = dropWhile isWhiteSpace s;
          s2 = (case s1 of c # rest \<Rightarrow> if c = 47 then rest else s1 | [] \<Rightarrow> s1);
          s3 = dropWhile isWhiteSpace s2
      in startsWith s3 tsIgnore)"

definition tsIgnoreRegExpMultiLine :: "jsstring \<Rightarrow> bool" where
  "tsIgnoreRegExpMultiLine s =
     (let s1 = dropWhile isWhiteSpace s;
          s2 = dropWhile (\<lambda>c. c = 47 \<or> c = 42) s1;
          s3 = dropWhile isWhiteSpace s2
      in startsWith s3 tsIgnore)"

definition isLineComment :: "comment_range \<Rightarrow> bool" where
  "isLineComment comment = (ckind comment = SingleLineCommentTrivia)"

text \<open>The last element of \<^verbatim>\<open>s.split('\n')\<close>: what follows the last line feed.\<close>

definition lastLine :: "jsstring \<Rightarrow> jsstring" where
  "lastLine s = rev (takeWhile (\<lambda>c. c \<noteq> 10) (rev s))"

definition commentText :: "source_file \<Rightarrow> comment_range \<Rightarrow> jsstring" where
  "commentText sf comment = js_slice (sf_text sf) (cpos comment) (cend comment)"

definition getLastCommentLine :: "source_file \<Rightarrow> comment_range \<Rightarrow> jsstring" where
  "getLastCommentLine sf comment =
     (if isLineComment comment then commentText sf comment
      else lastLine (commentText sf comment))"

definition isValidTsIgnorePresent :: "source_file \<Rightarrow> comment_range \<Rightarrow> bool" where
  "isValidTsIgnorePresent sf comment =
     (let line = getLastCommentLine sf comment
      in if isLineComment comment then tsIgnoreRegExpSingleLine (js_slice_from line 2)
         else tsIgnoreRegExpMultiLine line)"

text \<open>\<^verbatim>\<open>String.prototype.indexOf\<close>: the first index at which the pattern starts, or
  \<open>-1\<close>.\<close>

fun indexOf_str_from :: "jsstring \<Rightarrow> jsstring \<Rightarrow> nat \<Rightarrow> int" where
  "indexOf_str_from [] pat i = (if pat = [] then int i else -1)"
| "indexOf_str_from (c # cs) pat i =
     (if startsWith (c # cs) pat then int i else indexOf_str_from cs pat (Suc i))"

definition indexOf_str :: "jsstring \<Rightarrow> jsstring \<Rightarrow> int" where
  "indexOf_str s pat = indexOf_str_from s pat 0"

definition msg_preferExpectErrorComment :: jsstring where
  "msg_preferExpectErrorComment = js_str
     (''Use '' @ [CHR 0x22] @ ''@ts-expect-error'' @ [CHR 0x22]
      @ '' to ensure an error is actually being suppressed.'')"

definition expectErrorFix :: "source_file \<Rightarrow> comment_range \<Rightarrow> text_change" where
  "expectErrorFix sf comment =
     (let replacePos = cpos comment + indexOf_str (commentText sf comment) tsIgnore;
          replaceLength = int (length tsIgnore)
      in \<lparr>newText = js_str ''@ts-expect-error'', span_start = replacePos,
          span_length = replaceLength\<rparr>)"

definition expectError_cb :: "source_file \<Rightarrow> node \<Rightarrow> diagnostic list" where
  "expectError_cb sf n =
     (let comments = (case getLeadingCommentRanges sf (pos n) of None \<Rightarrow> [] | Some cs \<Rightarrow> cs)
      in map (\<lambda>comment.
                withFix (report msg_preferExpectErrorComment (cpos comment) (cend comment))
                  noDescription (Inr [expectErrorFix sf comment]))
           (filter (isValidTsIgnorePresent sf) comments))"


section \<open>Rule: no duplicate case\<close>

text \<open>The rule written inline in the configuration: within a switch statement, a
  \<^verbatim>\<open>case\<close> clause whose label text was seen in an earlier clause is reported.\<close>

definition msg_duplicateCase :: jsstring where
  "msg_duplicateCase = js_str ''Disallow duplicate case labels''"

fun duplicateLabels :: "source_file \<Rightarrow> jsstring list \<Rightarrow> node list \<Rightarrow> diagnostic list" where
  "duplicateLabels sf seenLabels [] = []"
| "duplicateLabels sf seenLabels (clause # rest) =
     (case shape clause of
        CaseClauseN expression _ \<Rightarrow>
          (let label = getText sf expression
           in if label \<in> set seenLabels
              then report msg_duplicateCase (nstart clause) (nend clause)
                   # duplicateLabels sf seenLabels rest
              else duplicateLabels sf (label # seenLabels) rest)
      | _ \<Rightarrow> duplicateLabels sf seenLabels rest)"

definition duplicateCase_cb :: "source_file \<Rightarrow> node \<Rightarrow> diagnostic list" where
  "duplicateCase_cb sf n =
     (case shape n of
        SwitchStatementN _ caseBlock \<Rightarrow> duplicateLabels sf [] (clauses caseBlock)
      | _ \<Rightarrow> [])"

section \<open>The traversal and the rules\<close>

text \<open>
  Every rule walks the tree with \<^verbatim>\<open>sourceFile.forEachChild(function cb(node) { ...;
  node.forEachChild(cb) })\<close>.  A callback that returns early does not descend; one that
  throws, or does not return, ends the walk.  The diagnostics reported up to that point
  stay reported.
\<close>

lemma sum_size_forEachChild: "sum_list (map size (forEachChild n)) < size n"
  by (cases n; cases "shape n")
     (auto simp: forEachChild_def size_list_conv_sum_list split: option.splits)

lemma size_forEachChild: "c \<in> set (forEachChild n) \<Longrightarrow> size c < size n"
proof -
  assume "c \<in> set (forEachChild n)"
  then have "size c \<le> sum_list (map size (forEachChild n))"
    by (simp add: member_le_sum_list)
  with sum_size_forEachChild [of n] show ?thesis by simp
qed

datatype completion = Completed | Threw error | Hangs

fun run_all :: "('a \<Rightarrow> diagnostic list \<times> completion) \<Rightarrow> 'a list \<Rightarrow> diagnostic list \<times> completion" where
  "run_all f [] = ([], Completed)"
| "run_all f (x # xs) =
     (case f x of
        (ds, Completed) \<Rightarrow> (case run_all f xs of (ds', r) \<Rightarrow> (ds @ ds', r))
      | (ds, r) \<Rightarrow> (ds, r))"

lemma run_all_cong [fundef_cong]:
  "xs = ys \<Longrightarrow> (\<And>x. x \<in> set ys \<Longrightarrow> f x = g x) \<Longrightarrow> run_all f xs = run_all g ys"
  by (induction ys arbitrary: xs) (auto split: prod.splits completion.splits)

function traverse ::
  "(node list \<Rightarrow> node \<Rightarrow> diagnostic list \<times> outcome) \<Rightarrow> node list \<Rightarrow> node
     \<Rightarrow> diagnostic list \<times> completion" where
  "traverse cb ancestors n =
     (case cb ancestors n of
        (ds, Descend) \<Rightarrow>
          (case run_all (traverse cb (n # ancestors)) (forEachChild n) of
             (ds', r) \<Rightarrow> (ds @ ds', r))
      | (ds, Return) \<Rightarrow> (ds, Completed)
      | (ds, Throw e) \<Rightarrow> (ds, Threw e)
      | (ds, Diverge) \<Rightarrow> (ds, Hangs))"
  by pat_completeness auto
termination
  by (relation "measure (\<lambda>(cb, ancestors, n). size n)") (auto simp: size_forEachChild)

definition forEachChild_traverse ::
  "(node list \<Rightarrow> node \<Rightarrow> diagnostic list \<times> outcome) \<Rightarrow> node \<Rightarrow> diagnostic list \<times> completion" where
  "forEachChild_traverse cb sourceFile = run_all (traverse cb [sourceFile]) (forEachChild sourceFile)"

declare traverse.simps [simp del]

text \<open>The nodes below a node, in the order of the walk.\<close>

function descendants :: "node \<Rightarrow> node list" where
  "descendants n = concat (map (\<lambda>c. c # descendants c) (forEachChild n))"
  by pat_completeness auto
termination
  by (relation "measure size") (auto simp: size_forEachChild)

declare descendants.simps [simp del]

text \<open>Each rule walks the children of the source file with its callback; two rules
  first report a disabled \<^verbatim>\<open>strictNullChecks\<close> at offset 0.\<close>

definition always_descend :: "(node \<Rightarrow> diagnostic list) \<Rightarrow> node list \<Rightarrow> node \<Rightarrow> diagnostic list \<times> outcome" where
  "always_descend cb ancestors n = (cb n, Descend)"

definition switch_rule :: "switch_options \<Rightarrow> checker \<Rightarrow> source_file \<Rightarrow> node \<Rightarrow> diagnostic list \<times> completion" where
  "switch_rule opts chk sf root = forEachChild_traverse (always_descend (switch_cb opts chk sf)) root"

definition assertion_rule ::
  "jsstring list option \<Rightarrow> checker \<Rightarrow> compiler_options \<Rightarrow> type_utils \<Rightarrow> source_file \<Rightarrow> node
     \<Rightarrow> diagnostic list \<times> completion" where
  "assertion_rule typesToIgnore chk copts tu sf root =
     forEachChild_traverse (assertion_cb typesToIgnore chk copts tu sf) root"

definition condition_rule :: "condition_env \<Rightarrow> node \<Rightarrow> diagnostic list \<times> completion" where
  "condition_rule env root =
     (case forEachChild_traverse (always_descend (condition_cb env)) root of
        (ds, r) \<Rightarrow> (condition_config_report env @ ds, r))"

definition nullish_rule :: "nullish_env \<Rightarrow> node \<Rightarrow> diagnostic list \<times> completion" where
  "nullish_rule env root =
     (case forEachChild_traverse (nullish_cb env) root of
        (ds, r) \<Rightarrow> (nullish_config_report env @ ds, r))"

definition expectError_rule :: "source_file \<Rightarrow> node \<Rightarrow> diagnostic list \<times> completion" where
  "expectError_rule sf root = forEachChild_traverse (always_descend (expectError_cb sf)) root"

definition duplicateCase_rule :: "source_file \<Rightarrow> node \<Rightarrow> diagnostic list \<times> completion" where
  "duplicateCase_rule sf root = forEachChild_traverse (always_descend (duplicateCase_cb sf)) root"

text \<open>
  The rules of the configuration, each with its options and the services of the program,
  and their run on a source file.  The configuration has one more entry,
  \<^verbatim>\<open>strict-boolean-expressions\<close>, converted from a TSLint rule whose code is not
  in the repository.
\<close>

datatype rule_module =
    NoDuplicateCase
  | PreferTsExpectError
  | NoUnnecessaryTypeAssertion "jsstring list option" checker compiler_options type_utils
  | PreferNullishCoalescing nullish_env
  | SwitchExhaustivenessCheck switch_options checker
  | NoUnnecessaryCondition condition_env

fun run_rule :: "rule_module \<Rightarrow> source_file \<Rightarrow> node \<Rightarrow> diagnostic list \<times> completion" where
  "run_rule NoDuplicateCase sf root = duplicateCase_rule sf root"
| "run_rule PreferTsExpectError sf root = expectError_rule sf root"
| "run_rule (NoUnnecessaryTypeAssertion typesToIgnore chk copts tu) sf root =
     assertion_rule typesToIgnore chk copts tu sf root"
| "run_rule (PreferNullishCoalescing env) sf root = nullish_rule (env\<lparr>n_sourceFile := sf\<rparr>) root"
| "run_rule (SwitchExhaustivenessCheck opts chk) sf root = switch_rule opts chk sf root"
| "run_rule (NoUnnecessaryCondition env) sf root = condition_rule (env\<lparr>c_sourceFile := sf\<rparr>) root"

section \<open>Positions within the text\<close>

text \<open>
  What the parser provides: a node starts at or after offset 0, ends at or after its
  start, and ends within its parent; the source file node ends within the text.
  Positions count UTF-16 code units, of which a text has at most as many as bytes.
\<close>

function wf_within :: "int \<Rightarrow> node \<Rightarrow> bool" where
  "wf_within bound n =
     (0 \<le> nstart n \<and> nstart n \<le> nend n \<and> nend n \<le> bound
      \<and> list_all (wf_within (nend n)) (forEachChild n))"
  by pat_completeness auto
termination
  by (relation "measure (\<lambda>(bound, n). size n)") (auto simp: size_forEachChild)

declare wf_within.simps [simp del]

text \<open>A reported span is within a text of length \<open>len\<close>; the leading comment ranges
  that the host returns are within the text.\<close>

definition span_ok :: "int \<Rightarrow> diagnostic \<Rightarrow> bool" where
  "span_ok len d = (0 \<le> dstart d \<and> dstart d \<le> dend d \<and> dend d \<le> len)"

definition comments_ok :: "source_file \<Rightarrow> bool" where
  "comments_ok sf =
     (\<forall>p cs. getLeadingCommentRanges sf p = Some cs \<longrightarrow>
        (\<forall>c \<in> set cs. 0 \<le> cpos c \<and> cpos c \<le> cend c \<and> cend c \<le> int (length (sf_text sf))))"

definition cb_spans_ok ::
  "int \<Rightarrow> (node list \<Rightarrow> node \<Rightarrow> diagnostic list \<times> outcome) \<Rightarrow> bool" where
  "cb_spans_ok len cb =
     (\<forall>ancestors m b. wf_within b m \<longrightarrow> b \<le> len \<longrightarrow>
        (\<forall>d \<in> set (fst (cb ancestors m)). span_ok len d))"

section \<open>Example inputs\<close>

definition ex_typeA :: ts_type where
  "ex_typeA = TsType 1 TypeFlags_StringLiteral [] (Some (StringValue (js_str ''a''))) None [] None"

definition ex_typeB :: ts_type where
  "ex_typeB = TsType 2 TypeFlags_StringLiteral [] (Some (StringValue (js_str ''b''))) None [] None"

definition ex_typeAB :: ts_type where
  "ex_typeAB = TsType 3 TypeFlags_Union [ex_typeA, ex_typeB] None None [] None"

definition ex_typeString :: ts_type where
  "ex_typeString = TsType 4 TypeFlags_String [] None None [] None"

definition ex_typeUndefined :: ts_type where
  "ex_typeUndefined = TsType 31 TypeFlags_Undefined [] None None [] None"

definition ex_typeMissing :: ts_type where
  "ex_typeMissing = TsType 32 TypeFlags_Undefined [] None None [] None"

definition ex_stringOrUndefined :: ts_type where
  "ex_stringOrUndefined = TsType 30 TypeFlags_Union [ex_typeString, ex_typeUndefined] None None [] None"

definition ex_checker :: checker where
  "ex_checker =
     \<lparr>getTypeAtLocation = (\<lambda>n. if nid n = 2 then ex_typeAB
                                else if nid n = 5 then ex_typeA
                                else if nid n = 7 then ex_typeB
                                else if nid n = 41 then ex_stringOrUndefined else ex_typeString),
      getTypeFromTypeNode = (\<lambda>n. ex_typeString),
      getBaseConstraintOfType = (\<lambda>t. None),
      typeToString = (\<lambda>t. case tvalue t of Some (StringValue v) \<Rightarrow> [39] @ v @ [39]
                                | _ \<Rightarrow> js_str ''string''),
      isIdentifierStart = (\<lambda>c. 97 \<le> c \<and> c \<le> 122),
      isIdentifierPart = (\<lambda>c. 97 \<le> c \<and> c \<le> 122)\<rparr>"

text \<open>The statement
  \<^verbatim>\<open>switch (k) { case 'a': break; case 'b': break; default: break; }\<close>
  with \<^verbatim>\<open>k\<close> of type \<^verbatim>\<open>'a' | 'b'\<close>, and the same statement with its first clause
  only.\<close>

definition ex_k :: node where "ex_k = Node 2 8 8 9 (IdentifierN (js_str ''k''))"
definition ex_caseA :: node where
  "ex_caseA = Node 4 12 13 29 (CaseClauseN (Node 5 17 18 21 (Leaf StringLiteral)) [Node 6 22 23 29 (OtherN 252 [])])"
definition ex_caseB :: node where
  "ex_caseB = Node 8 29 30 46 (CaseClauseN (Node 7 34 35 38 (Leaf StringLiteral)) [Node 9 39 40 46 (OtherN 252 [])])"
definition ex_default :: node where
  "ex_default = Node 10 46 47 62 (DefaultClauseN [Node 11 55 56 62 (OtherN 252 [])])"
definition ex_caseBlock3 :: node where
  "ex_caseBlock3 = Node 3 10 11 64 (CaseBlockN [ex_caseA, ex_caseB, ex_default])"
definition ex_caseBlock1 :: node where
  "ex_caseBlock1 = Node 3 10 11 31 (CaseBlockN [ex_caseA])"
definition ex_switch1 :: node where
  "ex_switch1 = Node 1 0 0 31 (SwitchStatementN ex_k ex_caseBlock1)"

definition ex_sourceFile :: source_file where
  "ex_sourceFile =
     \<lparr>sf_text = js_str ''switch (k) { case '' @ [39] @ js_str ''a'' @ [39] @ js_str '': break; }'',
      fileName = js_str ''a.ts'',
      getChildren = (\<lambda>n. []),
      getFirstToken = (\<lambda>n. None),
      getLastToken = (\<lambda>n. None),
      getLeadingCommentRanges = (\<lambda>p. None),
      characterOfPosition = (\<lambda>p. nat p)\<rparr>"

text \<open>The children of the assertion in \<^verbatim>\<open>const foo = <number>(3 + 5);\<close>.\<close>

definition ex_lt :: node where "ex_lt = Node 20 11 12 13 (Leaf LessThanToken)"
definition ex_number :: node where "ex_number = Node 21 13 13 19 (OtherN 150 [])"
definition ex_gt :: node where "ex_gt = Node 22 19 19 20 (Leaf GreaterThanToken)"
definition ex_paren :: node where "ex_paren = Node 23 20 20 27 (OtherN 217 [])"

definition ex_exact :: compiler_options where
  "ex_exact = \<lparr>strictNullChecks = True, exactOptionalPropertyTypes = True\<rparr>"

text \<open>The declaration \<^verbatim>\<open>const c: string = b!;\<close> with \<^verbatim>\<open>b\<close> of type
  \<^verbatim>\<open>string | undefined\<close>; the contextual type of an initializer is the declared type.\<close>

definition ex_b :: node where "ex_b = Node 41 17 18 19 (IdentifierN (js_str ''b''))"
definition ex_bang :: node where "ex_bang = Node 40 17 18 20 (NonNullExpressionN ex_b)"
definition ex_decl :: node where
  "ex_decl = Node 42 5 6 20 (VariableDeclarationN (Node 43 5 6 7 (IdentifierN (js_str ''c'')))
                None (Some (Node 44 8 9 15 (OtherN 154 []))) (Some ex_bang))"

definition ex_typeUtils :: type_utils where
  "ex_typeUtils =
     \<lparr>getContextualType =
        (\<lambda>ancestors n. case ancestors of
            parent # _ \<Rightarrow> (case shape parent of
                             VariableDeclarationN _ _ (Some ty) _ \<Rightarrow>
                               Some (getTypeFromTypeNode ex_checker ty)
                           | _ \<Rightarrow> None)
          | [] \<Rightarrow> None),
      getDeclaration = (\<lambda>n. None)\<rparr>"

definition ex_typeOne :: ts_type where
  "ex_typeOne = TsType 50 TypeFlags_NumberLiteral []
                  (Some (NumberValue False (js_str ''1''))) None [] None"

definition ex_conditionChecker :: checker where
  "ex_conditionChecker = ex_checker\<lparr>getTypeAtLocation := (\<lambda>n. ex_typeOne)\<rparr>"

definition ex_queries :: condition_queries where
  "ex_queries =
     \<lparr>isArrayType = (\<lambda>t. False), isTupleType = (\<lambda>t. False),
      getProperty = (\<lambda>t nm. None), getIndexInfosOfType = (\<lambda>t. []),
      getStringIndexInfoOfType = (\<lambda>t. False), getCallSignaturesOfType = (\<lambda>t. []),
      isOptionalChain = (\<lambda>n. False), isFalsyType = (\<lambda>t. False),
      getTypeName = (\<lambda>t. []), getTypeOfPropertyOfName = (\<lambda>t nm. None),
      isTypeAnyType = (\<lambda>t. flags t = TypeFlags_Any),
      isTypeUnknownType = (\<lambda>t. flags t = TypeFlags_Unknown),
      isTypeFlagSet = (\<lambda>t f. flags t AND f \<noteq> 0)\<rparr>"

definition ex_env :: condition_env where
  "ex_env = \<lparr>c_checker = ex_conditionChecker, c_queries = ex_queries,
             c_sourceFile = ex_sourceFile, isStrictNullChecks = True,
             allowConstantLoopConditions = False,
             allowRuleToRunWithoutStrictNullChecksIKnowWhatIAmDoing = False\<rparr>"

text \<open>The comparison \<^verbatim>\<open>1 === 1\<close> of \<^verbatim>\<open>if (1 === 1) {}\<close>.\<close>

definition ex_comparison :: node where
  "ex_comparison = Node 60 4 4 11
     (BinaryExpressionN (Node 61 4 4 5 (OtherN 9 []))
        (Node 62 5 6 9 (Leaf EqualsEqualsEqualsToken))
        (Node 63 9 10 11 (OtherN 9 [])))"

text \<open>The optional call \<^verbatim>\<open>f?.()\<close>.\<close>

definition ex_optionalCall :: node where
  "ex_optionalCall = Node 70 0 0 5
     (CallExpressionN (Node 71 0 0 1 (IdentifierN (js_str ''f'')))
        (Some (Node 72 1 1 3 (Leaf QuestionDotToken))) [] [])"

text \<open>The ternary \<^verbatim>\<open>a === null || a === undefined ? b : a\<close>: in an expression the
  parser gives \<^verbatim>\<open>undefined\<close> as an identifier.  The second tree has a node of kind
  \<^verbatim>\<open>UndefinedKeyword\<close> in its place.\<close>

definition ex_ternaryWith :: "node \<Rightarrow> node" where
  "ex_ternaryWith undefinedNode = Node 80 0 0 37
     (ConditionalExpressionN
        (Node 81 0 0 29
           (BinaryExpressionN
              (Node 82 0 0 10
                 (BinaryExpressionN (Node 85 0 0 1 (IdentifierN (js_str ''a'')))
                    (Node 86 1 2 5 (Leaf EqualsEqualsEqualsToken))
                    (Node 87 5 6 10 (Leaf NullKeyword))))
              (Node 84 10 11 13 (Leaf BarBarToken))
              (Node 83 13 14 29
                 (BinaryExpressionN (Node 88 13 14 15 (IdentifierN (js_str ''a'')))
                    (Node 89 15 16 19 (Leaf EqualsEqualsEqualsToken))
                    undefinedNode))))
        (Node 91 29 30 31 (Leaf (OtherKind 58)))
        (Node 92 31 32 33 (IdentifierN (js_str ''b'')))
        (Node 93 33 34 35 (Leaf (OtherKind 59)))
        (Node 94 35 36 37 (IdentifierN (js_str ''a''))))"

definition ex_ternary :: node where
  "ex_ternary = ex_ternaryWith (Node 90 19 20 29 (IdentifierN (js_str ''undefined'')))"

definition ex_ternaryKeyword :: node where
  "ex_ternaryKeyword = ex_ternaryWith (Node 90 19 20 29 (Leaf UndefinedKeyword))"

definition ex_nullishEnv :: nullish_env where
  "ex_nullishEnv =
     \<lparr>n_checker = ex_checker,
      n_sourceFile = ex_sourceFile\<lparr>sf_text := js_str ''a === null || a === undefined ? b : a''\<rparr>,
      n_getTypeFlags = flags,
      n_isStrictNullChecks = True,
      n_allowRuleToRunWithoutStrictNullChecksIKnowWhatIAmDoing = False,
      ignoreConditionalTests = False,
      ignoreTernaryTests = False,
      ignoreMixedLogicalExpressions = False,
      ignorePrimitives = Some \<lparr>ip_bigint = False, ip_boolean = False, ip_number = False,
                               ip_string = False\<rparr>\<rparr>"



text \<open>The file \<^verbatim>\<open>if (1 === 1) {}\<close>, checked without \<^verbatim>\<open>strictNullChecks\<close>.\<close>

definition ex_ifText :: source_file where
  "ex_ifText = ex_sourceFile\<lparr>sf_text := js_str ''if (1 === 1) {}''\<rparr>"

definition ex_ifFile :: node where
  "ex_ifFile = Node 100 0 0 15
     (SourceFileN [Node 101 0 0 15 (IfStatementN ex_comparison (Node 102 12 13 15 (BlockN [])) None)])"

definition ex_looseEnv :: condition_env where
  "ex_looseEnv = ex_env\<lparr>isStrictNullChecks := False\<rparr>"

text \<open>
  The statement \<^verbatim>\<open>switch (k) { case 'a': break; }\<close> as the only statement of its
  file, also with \<^verbatim>\<open>k\<close> of type \<^verbatim>\<open>'a' | 'b' | 'c'\<close>; and the file
  \<^verbatim>\<open>switch (k) { case 'a': break; default: break; }\<close> with \<^verbatim>\<open>k\<close> of type
  \<^verbatim>\<open>'a' & { b: 1 }\<close>.
\<close>

definition ex_typeC :: ts_type where
  "ex_typeC = TsType 6 TypeFlags_StringLiteral [] (Some (StringValue (js_str ''c''))) None [] None"

definition ex_typeABC :: ts_type where
  "ex_typeABC = TsType 7 TypeFlags_Union [ex_typeA, ex_typeB, ex_typeC] None None [] None"

definition ex_checkerABC :: checker where
  "ex_checkerABC =
     ex_checker\<lparr>getTypeAtLocation :=
       (\<lambda>n. if nid n = 2 then ex_typeABC else getTypeAtLocation ex_checker n)\<rparr>"

definition ex_typeObject :: ts_type where
  "ex_typeObject = TsType 8 TypeFlags_Object [] None None [] None"

definition ex_typeBranded :: ts_type where
  "ex_typeBranded = TsType 9 TypeFlags_Intersection [ex_typeA, ex_typeObject] None None [] None"

definition ex_checkerBranded :: checker where
  "ex_checkerBranded =
     ex_checker\<lparr>getTypeAtLocation :=
       (\<lambda>n. if nid n = 2 then ex_typeBranded else getTypeAtLocation ex_checker n)\<rparr>"

definition ex_defaultAfterA :: node where
  "ex_defaultAfterA = Node 10 29 30 45 (DefaultClauseN [Node 11 38 39 45 (OtherN 252 [])])"

definition ex_caseBlockBranded :: node where
  "ex_caseBlockBranded = Node 3 10 11 47 (CaseBlockN [ex_caseA, ex_defaultAfterA])"

definition ex_switchBranded :: node where
  "ex_switchBranded = Node 1 0 0 47 (SwitchStatementN ex_k ex_caseBlockBranded)"

definition ex_file1 :: node where
  "ex_file1 = Node 0 0 0 31 (SourceFileN [ex_switch1])"

definition ex_brandedText :: source_file where
  "ex_brandedText = ex_sourceFile\<lparr>sf_text :=
     js_str ''switch (k) { case '' @ [39] @ js_str ''a'' @ [39]
     @ js_str '': break; default: break; }''\<rparr>"

definition ex_brandedFile :: node where
  "ex_brandedFile = Node 0 0 0 47 (SourceFileN [ex_switchBranded])"

definition ex_defaultOptions :: switch_options where
  "ex_defaultOptions = \<lparr>allowDefaultCaseForExhaustiveSwitch = True, requireDefaultForNonUnion = False\<rparr>"

definition ex_strict :: switch_options where
  "ex_strict = \<lparr>allowDefaultCaseForExhaustiveSwitch = False, requireDefaultForNonUnion = False\<rparr>"

section \<open>The walk visits every node\<close>

lemma run_all_completed:
  "\<forall>x \<in> set xs. snd (f x) = Completed \<Longrightarrow>
   run_all f xs = (concat (map (\<lambda>x. fst (f x)) xs), Completed)"
  by (induction xs) (auto split: prod.splits completion.splits)

lemma concat_concat_map_Cons:
  "concat (concat (map (\<lambda>x. f x # g x) xs)) = concat (map (\<lambda>x. f x @ concat (g x)) xs)"
  by (induction xs) simp_all

lemma traverse_always_descend:
  "traverse (always_descend cb) ancestors n =
     (cb n @ concat (map cb (descendants n)), Completed)"
proof (induction n arbitrary: ancestors rule: measure_induct_rule [where f = size])
  case (less n)
  have kids: "\<forall>c \<in> set (forEachChild n).
      traverse (always_descend cb) (n # ancestors) c =
        (cb c @ concat (map cb (descendants c)), Completed)"
    using less by (simp add: size_forEachChild)
  then have "run_all (traverse (always_descend cb) (n # ancestors)) (forEachChild n) =
      (concat (map (\<lambda>c. fst (traverse (always_descend cb) (n # ancestors) c)) (forEachChild n)),
       Completed)"
    by (intro run_all_completed) simp
  also have "concat (map (\<lambda>c. fst (traverse (always_descend cb) (n # ancestors) c)) (forEachChild n)) =
      concat (map (\<lambda>c. cb c @ concat (map cb (descendants c))) (forEachChild n))"
    using kids by (intro arg_cong [where f = concat] map_cong) simp_all
  also have "\<dots> = concat (map cb (descendants n))"
    by (subst (2) descendants.simps) (simp add: map_concat comp_def concat_concat_map_Cons)
  finally have below: "run_all (traverse (always_descend cb) (n # ancestors)) (forEachChild n) =
      (concat (map cb (descendants n)), Completed)" .
  have here: "always_descend cb ancestors n = (cb n, Descend)"
    by (simp add: always_descend_def)
  show ?case
    by (subst traverse.simps) (simp add: here below)
qed

lemma walk_always_descend:
  "forEachChild_traverse (always_descend cb) sourceFile =
     (concat (map cb (descendants sourceFile)), Completed)"
proof -
  have "run_all (traverse (always_descend cb) [sourceFile]) (forEachChild sourceFile) =
      (concat (map (\<lambda>c. fst (traverse (always_descend cb) [sourceFile] c)) (forEachChild sourceFile)),
       Completed)"
    by (intro run_all_completed) (simp add: traverse_always_descend)
  also have "concat (map (\<lambda>c. fst (traverse (always_descend cb) [sourceFile] c)) (forEachChild sourceFile)) =
      concat (map cb (descendants sourceFile))"
    by (subst descendants.simps)
       (simp add: traverse_always_descend map_concat comp_def concat_concat_map_Cons)
  finally show ?thesis by (simp add: forEachChild_traverse_def)
qed

lemma switch_rule_visits:
  "switch_rule opts chk sf sourceFile =
     (concat (map (switch_cb opts chk sf) (descendants sourceFile)), Completed)"
  by (simp add: switch_rule_def walk_always_descend)


lemma descendants_leaf: "forEachChild n = [] \<Longrightarrow> descendants n = []"
  by (subst descendants.simps) simp

lemma switch_cb_other: "kind n \<noteq> SwitchStatement \<Longrightarrow> switch_cb opts chk sf n = []"
  by (cases "shape n") (simp_all add: switch_cb_def kind_def)

lemma ex_caseA_below:
  "descendants ex_caseA = [Node 5 17 18 21 (Leaf StringLiteral), Node 6 22 23 29 (OtherN 252 [])]"
  by (subst descendants.simps)
     (simp add: ex_caseA_def forEachChild_def descendants_leaf)

lemma ex_k_below: "descendants ex_k = []"
  by (simp add: descendants_leaf ex_k_def forEachChild_def)

lemma ex_file1_below:
  "descendants ex_file1 =
     [ex_switch1, ex_k, ex_caseBlock1, ex_caseA,
      Node 5 17 18 21 (Leaf StringLiteral), Node 6 22 23 29 (OtherN 252 [])]"
proof -
  have b: "descendants ex_caseBlock1 =
      [ex_caseA, Node 5 17 18 21 (Leaf StringLiteral), Node 6 22 23 29 (OtherN 252 [])]"
    by (subst descendants.simps) (simp add: ex_caseBlock1_def forEachChild_def ex_caseA_below)
  have s: "descendants ex_switch1 = [ex_k, ex_caseBlock1, ex_caseA,
      Node 5 17 18 21 (Leaf StringLiteral), Node 6 22 23 29 (OtherN 252 [])]"
    by (subst descendants.simps) (simp add: ex_switch1_def forEachChild_def ex_k_below b)
  show ?thesis
    by (subst descendants.simps) (simp add: ex_file1_def forEachChild_def s)
qed

lemma ex_brandedFile_below:
  "descendants ex_brandedFile =
     [ex_switchBranded, ex_k, ex_caseBlockBranded, ex_caseA,
      Node 5 17 18 21 (Leaf StringLiteral), Node 6 22 23 29 (OtherN 252 []),
      ex_defaultAfterA, Node 11 38 39 45 (OtherN 252 [])]"
proof -
  have d: "descendants ex_defaultAfterA = [Node 11 38 39 45 (OtherN 252 [])]"
    by (subst descendants.simps) (simp add: ex_defaultAfterA_def forEachChild_def descendants_leaf)
  have b: "descendants ex_caseBlockBranded =
      [ex_caseA, Node 5 17 18 21 (Leaf StringLiteral), Node 6 22 23 29 (OtherN 252 []),
       ex_defaultAfterA, Node 11 38 39 45 (OtherN 252 [])]"
    by (subst descendants.simps)
       (simp add: ex_caseBlockBranded_def forEachChild_def ex_caseA_below d)
  have s: "descendants ex_switchBranded = [ex_k, ex_caseBlockBranded, ex_caseA,
      Node 5 17 18 21 (Leaf StringLiteral), Node 6 22 23 29 (OtherN 252 []),
      ex_defaultAfterA, Node 11 38 39 45 (OtherN 252 [])]"
    by (subst descendants.simps) (simp add: ex_switchBranded_def forEachChild_def ex_k_below b)
  show ?thesis
    by (subst descendants.simps) (simp add: ex_brandedFile_def forEachChild_def s)
qed

lemma ex_not_switch:
  "kind ex_k \<noteq> SwitchStatement" "kind ex_caseBlock1 \<noteq> SwitchStatement"
  "kind ex_caseBlockBranded \<noteq> SwitchStatement"
  "kind ex_caseA \<noteq> SwitchStatement" "kind ex_defaultAfterA \<noteq> SwitchStatement"
  "kind (Node i p s e (Leaf StringLiteral)) \<noteq> SwitchStatement"
  "kind (Node i p s e (OtherN 252 [])) \<noteq> SwitchStatement"
  by (simp_all add: kind_def ex_k_def ex_caseBlock1_def ex_caseBlockBranded_def ex_caseA_def
      ex_defaultAfterA_def)

section \<open>Switch exhaustiveness: what the metadata says about the discriminant\<close>

lemma missing_Nil_iff:
  "missingLiteralBranchTypes (getSwitchMetadata chk e cb) = [] \<longleftrightarrow>
   (\<forall>u \<in> set (unionTypeParts (getConstrainedTypeAtLocation chk e)).
      \<forall>p \<in> set (intersectionTypeParts u).
        isTypeLiteralLikeType p \<longrightarrow>
        (\<exists>c \<in> set (caseExpressions (clauses cb)).
           same_type p (getConstrainedTypeAtLocation chk c)))"
  by (auto simp: getSwitchMetadata_def Let_def filter_empty_conv list_ex_iff)

lemma missing_set:
  "set (missingLiteralBranchTypes (getSwitchMetadata chk e cb)) =
   {p. \<exists>u \<in> set (unionTypeParts (getConstrainedTypeAtLocation chk e)).
        p \<in> set (intersectionTypeParts u) \<and> isTypeLiteralLikeType p \<and>
        \<not> (\<exists>c \<in> set (caseExpressions (clauses cb)).
           same_type p (getConstrainedTypeAtLocation chk c))}"
  by (auto simp: getSwitchMetadata_def Let_def list_ex_iff)

lemma defaultCase_None_iff:
  "defaultCase (getSwitchMetadata chk e cb) = None \<longleftrightarrow>
   (\<forall>c \<in> set (clauses cb). kind c \<noteq> DefaultClause)"
  by (auto simp: getSwitchMetadata_def Let_def find_None_iff)

lemma defaultCase_eq:
  "defaultCase (getSwitchMetadata chk e cb) = find (\<lambda>c. kind c = DefaultClause) (clauses cb)"
  by (simp add: getSwitchMetadata_def Let_def)

lemma containsNonLiteralType_iff:
  "containsNonLiteralType (getSwitchMetadata chk e cb) \<longleftrightarrow>
   (\<exists>u \<in> set (unionTypeParts (getConstrainedTypeAtLocation chk e)).
      \<forall>p \<in> set (intersectionTypeParts u). \<not> isTypeLiteralLikeType p)"
  by (auto simp: getSwitchMetadata_def Let_def doesTypeContainNonLiteralType_def list_ex_iff list_all_iff)

lemma missingCases_Some:
  "\<forall>t \<in> set ts. caseTest chk symN t \<noteq> None \<Longrightarrow>
   missingCases chk symN (map Some ts) = Inr (map (\<lambda>t. caseBranch (the (caseTest chk symN t))) ts)"
  by (induction ts) (auto simp: missingCase_def)

lemma caseTest_defined:
  "tsutils_isTypeFlagSet t TypeFlags_ESSymbolLike \<longrightarrow> symbolName t \<noteq> None \<Longrightarrow>
   caseTest chk symN t \<noteq> None"
  by (auto simp: caseTest_def Let_def split: option.splits)

lemma missing_nonempty_iff:
  "missingLiteralBranchTypes (getSwitchMetadata chk e cb) \<noteq> [] \<longleftrightarrow>
   (\<exists>u \<in> set (unionTypeParts (getConstrainedTypeAtLocation chk e)).
      \<exists>p \<in> set (intersectionTypeParts u).
        isTypeLiteralLikeType p \<and>
        \<not> (\<exists>c \<in> set (caseExpressions (clauses cb)).
           same_type p (getConstrainedTypeAtLocation chk c)))"
  using missing_Nil_iff [of chk e cb] by auto

lemma fixSwitch_last:
  assumes "clauses cb \<noteq> []" and "missingCases chk symN ts = Inr cases"
  shows "fixSwitch chk sf n cb ts symN =
     Inr [\<lparr>newText = [10] @ join [10] (map (\<lambda>code. spaces (characterOfPosition sf (nstart (last (clauses cb)))) @ code) cases),
           span_start = nstart (last (clauses cb)), span_length = 0\<rparr>]"
  using assms by (simp add: fixSwitch_def Let_def)

lemma fixSwitch_empty:
  assumes "clauses cb = []" and "missingCases chk symN ts = Inr cases"
    and "getFirstToken sf cb = Some ob" and "kind ob = OpenBraceToken"
    and "getLastToken sf cb = Some cl" and "kind cl = CloseBraceToken"
  shows "fixSwitch chk sf n cb ts symN =
     Inr [\<lparr>newText = join [10] [js_str ''{'',
              join [10] (map (\<lambda>code. spaces (characterOfPosition sf (nstart n)) @ code) cases),
              spaces (characterOfPosition sf (nstart n)) @ js_str ''}''],
           span_start = nstart ob, span_length = nend cl - nstart ob\<rparr>]"
  using assms by (simp add: fixSwitch_def Let_def nullThrows_def)


text \<open>
  Claim C7.  The claim says that the report of an unnecessary default clause is suppressed
  whenever the discriminant type contains a non-literal constituent.
  \<^verbatim>\<open>doesTypeContainNonLiteralType\<close> asks for a union part \<^emph>\<open>all\<close> of whose intersection
  parts are non-literal, although its comment counts \<^verbatim>\<open>"foo" & { bar: 1 }\<close> among the
  types that contain non-literal types.  For
  \<^verbatim>\<open>switch (k) { case 'a': break; default: break; }\<close> with \<^verbatim>\<open>k\<close> of type
  \<^verbatim>\<open>'a' & { b: 1 }\<close> and \<^verbatim>\<open>allowDefaultCaseForExhaustiveSwitch\<close> disabled, the rule
  reports the default clause as unnecessary.
\<close>

theorem default_flagged_despite_non_literal_constituent:
  "spec_hasNonLiteralConstituent (getConstrainedTypeAtLocation ex_checkerBranded ex_k)
   \<and> \<not> doesTypeContainNonLiteralType (getConstrainedTypeAtLocation ex_checkerBranded ex_k)
   \<and> switch_rule ex_strict ex_checkerBranded ex_brandedText ex_brandedFile =
       ([report (js_str ''The switch statement is exhaustive, so the default case is unnecessary.'')
           30 45], Completed)"
proof -
  have T: "getConstrainedTypeAtLocation ex_checkerBranded ex_k = ex_typeBranded"
    by (simp add: getConstrainedTypeAtLocation_def ex_checkerBranded_def ex_checker_def ex_k_def)
  have parts: "unionTypeParts ex_typeBranded = [ex_typeBranded]"
    "intersectionTypeParts ex_typeBranded = [ex_typeA, ex_typeObject]"
    by (simp_all add: unionTypeParts_def intersectionTypeParts_def tsutils_isTypeFlagSet_def
        ex_typeBranded_def)
  have lit: "isTypeLiteralLikeType ex_typeA" "\<not> isTypeLiteralLikeType ex_typeObject"
    by (simp_all add: isTypeLiteralLikeType_def tsutils_isTypeFlagSet_def ex_typeA_def
        ex_typeObject_def)
  have cls: "clauses ex_caseBlockBranded = [ex_caseA, ex_defaultAfterA]"
    by (simp add: clauses_def ex_caseBlockBranded_def)
  have ces: "caseExpressions [ex_caseA, ex_defaultAfterA] = [Node 5 17 18 21 (Leaf StringLiteral)]"
    by (simp add: caseExpressions_def ex_caseA_def ex_defaultAfterA_def)
  have tA: "getConstrainedTypeAtLocation ex_checkerBranded (Node 5 17 18 21 (Leaf StringLiteral)) = ex_typeA"
    by (simp add: getConstrainedTypeAtLocation_def ex_checkerBranded_def ex_checker_def)
  have dflt: "kind ex_caseA \<noteq> DefaultClause" "kind ex_defaultAfterA = DefaultClause"
    by (simp_all add: ex_caseA_def ex_defaultAfterA_def kind_def)
  have meta: "getSwitchMetadata ex_checkerBranded ex_k ex_caseBlockBranded =
     \<lparr>sm_symbolName = None, defaultCase = Some ex_defaultAfterA, missingLiteralBranchTypes = [],
      containsNonLiteralType = False\<rparr>"
    by (simp add: getSwitchMetadata_def Let_def T parts lit cls ces tA dflt
        doesTypeContainNonLiteralType_def same_type_def)
       (simp add: ex_typeBranded_def)
  have "spec_hasNonLiteralConstituent ex_typeBranded"
    by (simp add: spec_hasNonLiteralConstituent_def parts lit)
  moreover have "switch_cb ex_strict ex_checkerBranded ex_brandedText ex_switchBranded =
       [report (js_str ''The switch statement is exhaustive, so the default case is unnecessary.'')
          30 45]"
    by (simp add: switch_cb_def ex_switchBranded_def meta checkSwitchExhaustive_def
        checkSwitchUnnecessaryDefaultCase_def checkSwitchNoUnionDefaultCase_def ex_strict_def
        ex_defaultAfterA_def)
  then have "switch_rule ex_strict ex_checkerBranded ex_brandedText ex_brandedFile =
       ([report (js_str ''The switch statement is exhaustive, so the default case is unnecessary.'')
           30 45], Completed)"
    by (simp add: switch_rule_visits ex_brandedFile_below switch_cb_other ex_not_switch)
  moreover have "\<not> doesTypeContainNonLiteralType ex_typeBranded"
    by (simp add: doesTypeContainNonLiteralType_def parts lit)
  ultimately show ?thesis by (simp add: T)
qed

text \<open>Where the discriminant is a union of literals and every one has its clause, the
  default clause is reported as the claim says.\<close>

lemma ex_meta3:
  "getSwitchMetadata ex_checker ex_k ex_caseBlock3 =
     \<lparr>sm_symbolName = None, defaultCase = Some ex_default, missingLiteralBranchTypes = [],
      containsNonLiteralType = False\<rparr>"
  by (simp add: getSwitchMetadata_def Let_def ex_checker_def ex_k_def ex_caseBlock3_def
      ex_caseA_def ex_caseB_def ex_default_def clauses_def caseExpressions_def kind_def
      getConstrainedTypeAtLocation_def ex_typeAB_def ex_typeA_def ex_typeB_def
      unionTypeParts_def intersectionTypeParts_def tsutils_isTypeFlagSet_def
      isTypeLiteralLikeType_def same_type_def doesTypeContainNonLiteralType_def)

lemma default_flagged_for_covered_union:
  "checkSwitchUnnecessaryDefaultCase False (getSwitchMetadata ex_checker ex_k ex_caseBlock3) =
     [report (js_str ''The switch statement is exhaustive, so the default case is unnecessary.'') 47 62]"
  by (simp add: ex_meta3 checkSwitchUnnecessaryDefaultCase_def ex_default_def)

lemma missing_eq_spec:
  "missingLiteralBranchTypes (getSwitchMetadata chk e cb) =
   spec_missingParts chk (getConstrainedTypeAtLocation chk e) cb"
proof -
  have p: "filter (\<lambda>part. \<not> (list_ex (same_type part) (map (getConstrainedTypeAtLocation chk) cs)
                \<or> \<not> isTypeLiteralLikeType part)) ps =
           filter (\<lambda>part. isTypeLiteralLikeType part
            \<and> \<not> list_ex (\<lambda>c. same_type part (getConstrainedTypeAtLocation chk c)) cs) ps" for cs ps
    by (rule filter_cong) (auto simp: list_ex_iff)
  show ?thesis
    unfolding getSwitchMetadata_def Let_def spec_missingParts_def filter_concat p
    by (simp add: comp_def)
qed

lemma symbolName_meta: "sm_symbolName (getSwitchMetadata chk e cb) = symbolName (getConstrainedTypeAtLocation chk e)"
  by (simp add: getSwitchMetadata_def Let_def)

lemma spec_missingParts_part:
  "t \<in> set (spec_missingParts chk T cb) \<Longrightarrow>
   \<exists>u \<in> set (unionTypeParts T). t \<in> set (intersectionTypeParts u)"
  by (auto simp: spec_missingParts_def)


lemma ex_missingABC:
  "spec_missingParts ex_checkerABC (getConstrainedTypeAtLocation ex_checkerABC ex_k) ex_caseBlock1 =
     [ex_typeB, ex_typeC]"
proof -
  have T: "getConstrainedTypeAtLocation ex_checkerABC ex_k = ex_typeABC"
    by (simp add: getConstrainedTypeAtLocation_def ex_checkerABC_def ex_checker_def ex_k_def)
  have parts: "unionTypeParts ex_typeABC = [ex_typeA, ex_typeB, ex_typeC]"
    "intersectionTypeParts ex_typeA = [ex_typeA]" "intersectionTypeParts ex_typeB = [ex_typeB]"
    "intersectionTypeParts ex_typeC = [ex_typeC]"
    by (simp_all add: unionTypeParts_def intersectionTypeParts_def tsutils_isTypeFlagSet_def
        ex_typeABC_def ex_typeA_def ex_typeB_def ex_typeC_def)
  have ces: "caseExpressions (clauses ex_caseBlock1) = [Node 5 17 18 21 (Leaf StringLiteral)]"
    by (simp add: clauses_def ex_caseBlock1_def caseExpressions_def ex_caseA_def)
  have tA: "getConstrainedTypeAtLocation ex_checkerABC (Node 5 17 18 21 (Leaf StringLiteral)) = ex_typeA"
    by (simp add: getConstrainedTypeAtLocation_def ex_checkerABC_def ex_checker_def)
  have lit: "isTypeLiteralLikeType ex_typeA" "isTypeLiteralLikeType ex_typeB"
    "isTypeLiteralLikeType ex_typeC"
    "same_type ex_typeA ex_typeA" "\<not> same_type ex_typeB ex_typeA" "\<not> same_type ex_typeC ex_typeA"
    by (simp_all add: isTypeLiteralLikeType_def tsutils_isTypeFlagSet_def same_type_def
        ex_typeA_def ex_typeB_def ex_typeC_def)
  show ?thesis
    by (simp add: spec_missingParts_def T parts ces tA lit)
qed

lemma ex_noDefault1: "\<forall>c \<in> set (clauses ex_caseBlock1). kind c \<noteq> DefaultClause"
  by (simp add: clauses_def ex_caseBlock1_def ex_caseA_def kind_def)


text \<open>
  Claim C2 as stated fails: the report carries one fix, however many branches are
  missing.  In \<^verbatim>\<open>switch (k) { case 'a': break; }\<close> with \<^verbatim>\<open>k\<close> of type
  \<^verbatim>\<open>'a' | 'b' | 'c'\<close> two branches are missing, and the rule proposes one fix.
\<close>

theorem one_fix_for_two_missing_branches:
  "spec_missingParts ex_checkerABC (getConstrainedTypeAtLocation ex_checkerABC ex_k) ex_caseBlock1 =
     [ex_typeB, ex_typeC]
   \<and> length (concat (map dfixes
          (fst (switch_rule ex_defaultOptions ex_checkerABC ex_sourceFile ex_file1)))) = 1
   \<and> \<not> spec_oneFixPerMissingBranch
          (fst (switch_rule ex_defaultOptions ex_checkerABC ex_sourceFile ex_file1))
          (spec_missingParts ex_checkerABC (getConstrainedTypeAtLocation ex_checkerABC ex_k)
             ex_caseBlock1)"
proof -
  let ?m = "getSwitchMetadata ex_checkerABC ex_k ex_caseBlock1"
  have miss: "missingLiteralBranchTypes ?m = [ex_typeB, ex_typeC]"
    by (simp add: missing_eq_spec ex_missingABC)
  have nodflt: "defaultCase ?m = None"
    using ex_noDefault1 by (simp add: defaultCase_None_iff)
  have "length (concat (map dfixes (switch_cb ex_defaultOptions ex_checkerABC ex_sourceFile ex_switch1))) = 1"
    by (simp add: switch_cb_def ex_switch1_def Let_def checkSwitchExhaustive_def miss nodflt
        checkSwitchUnnecessaryDefaultCase_def checkSwitchNoUnionDefaultCase_def
        ex_defaultOptions_def withFix_def report_def)
  then have "length (concat (map dfixes
          (fst (switch_rule ex_defaultOptions ex_checkerABC ex_sourceFile ex_file1)))) = 1"
    by (simp add: switch_rule_visits ex_file1_below switch_cb_other ex_not_switch)
  then show ?thesis
    by (simp add: ex_missingABC spec_oneFixPerMissingBranch_def)
qed


text \<open>
  Claim C2, amended.  For a switch statement of the file whose discriminant's constrained
  type, decomposed into union and then intersection parts, has literal-like parts that are
  identity-equal to the type of no \<^verbatim>\<open>case\<close> clause, and which has no default clause,
  the rule reports the switch as not exhaustive, over the whole statement, naming the
  missing parts; the report is the only one of the statement unless
  \<^verbatim>\<open>requireDefaultForNonUnion\<close> is set, and carries one fix,
  \<^verbatim>\<open>Add branches for missing cases.\<close>  Provided every missing symbol-like part has a
  symbol name and an empty case block has its two braces, the fix is one edit that holds
  one synthesized branch
  \<^verbatim>\<open>case <value>: { throw new Error('Not implemented yet: <value> case') }\<close> per missing
  part, in the order of the decomposition: inserted at the start of the last existing
  clause, or, when the case block has no clause, replacing the block from its opening to
  its closing brace.
\<close>

theorem switch_missing_branches_one_fix:
  fixes opts :: switch_options and chk :: checker and sf :: source_file
    and sourceFile n expression caseBlock :: node
  defines "T \<equiv> getConstrainedTypeAtLocation chk expression"
  defines "missing \<equiv> spec_missingParts chk T caseBlock"
  defines "indent \<equiv> spaces (characterOfPosition sf
                       (if clauses caseBlock \<noteq> [] then nstart (last (clauses caseBlock)) else nstart n))"
  defines "reported \<equiv> (\<lambda>edits.
        \<lparr>message = js_str ''Switch is not exhaustive. Cases not matched: ''
                      @ missingBranchesText chk missing,
          dstart = nstart n, dend = nend n,
          dfixes = [\<lparr>description = js_str ''Add branches for missing cases.'',
                     textChanges = edits\<rparr>]\<rparr>)"
  assumes visited: "n \<in> set (descendants sourceFile)"
    and switch: "shape n = SwitchStatementN expression caseBlock"
    and some_missing: "missing \<noteq> []"
    and no_default: "\<forall>c \<in> set (clauses caseBlock). kind c \<noteq> DefaultClause"
  shows "\<exists>edits.
      reported edits \<in> set (fst (switch_rule opts chk sf sourceFile))
      \<and> switch_cb opts chk sf n =
            reported edits
            # checkSwitchNoUnionDefaultCase (requireDefaultForNonUnion opts) chk sf n expression
                caseBlock (getSwitchMetadata chk expression caseBlock)
      \<and> (\<not> requireDefaultForNonUnion opts \<longrightarrow> switch_cb opts chk sf n = [reported edits])
      \<and> ((\<forall>t \<in> set missing.
             tsutils_isTypeFlagSet t TypeFlags_ESSymbolLike \<longrightarrow> symbolName t \<noteq> None)
           \<and> (clauses caseBlock = [] \<longrightarrow>
                (\<exists>ob cl. getFirstToken sf caseBlock = Some ob \<and> kind ob = OpenBraceToken
                   \<and> getLastToken sf caseBlock = Some cl \<and> kind cl = CloseBraceToken))
          \<longrightarrow> (\<exists>tests edit.
                 edits = Inr [edit]
               \<and> map Some tests = map (caseTest chk (symbolName T)) missing
               \<and> (clauses caseBlock \<noteq> [] \<longrightarrow>
                     edit = \<lparr>newText = [10] @ join [10] (map (\<lambda>ct. indent @ caseBranch ct) tests),
                             span_start = nstart (last (clauses caseBlock)), span_length = 0\<rparr>)
               \<and> (clauses caseBlock = [] \<longrightarrow>
                     (\<exists>ob cl. getFirstToken sf caseBlock = Some ob
                        \<and> getLastToken sf caseBlock = Some cl
                        \<and> edit = \<lparr>newText = join [10] [js_str ''{'',
                                      join [10] (map (\<lambda>ct. indent @ caseBranch ct) tests),
                                      indent @ js_str ''}''],
                                   span_start = nstart ob, span_length = nend cl - nstart ob\<rparr>))))"
proof -
  let ?m = "getSwitchMetadata chk expression caseBlock"
  have miss: "missingLiteralBranchTypes ?m = missing"
    by (simp add: missing_def T_def missing_eq_spec)
  have sym: "sm_symbolName ?m = symbolName T"
    by (simp add: T_def symbolName_meta)
  have nodflt: "defaultCase ?m = None"
    using no_default by (simp add: defaultCase_None_iff)
  have exh: "checkSwitchExhaustive chk sf n caseBlock ?m =
      [\<lparr>message = js_str ''Switch is not exhaustive. Cases not matched: ''
                      @ missingBranchesText chk missing,
          dstart = nstart n, dend = nend n,
          dfixes = [\<lparr>description = js_str ''Add branches for missing cases.'',
                     textChanges = fixSwitch chk sf n caseBlock (map Some missing) (symbolName T)\<rparr>]\<rparr>]"
    using some_missing nodflt
    by (simp add: checkSwitchExhaustive_def miss sym report_def withFix_def)
  have unn: "checkSwitchUnnecessaryDefaultCase a ?m = []" for a
    using nodflt by (simp add: checkSwitchUnnecessaryDefaultCase_def)
  let ?edits = "fixSwitch chk sf n caseBlock (map Some missing) (symbolName T)"
  have rep: "switch_cb opts chk sf n =
        reported ?edits
        # checkSwitchNoUnionDefaultCase (requireDefaultForNonUnion opts) chk sf n expression
            caseBlock ?m"
    using switch by (simp add: switch_cb_def Let_def exh unn reported_def)
  have one: "\<not> requireDefaultForNonUnion opts \<longrightarrow> switch_cb opts chk sf n = [reported ?edits]"
    unfolding rep by (simp add: checkSwitchNoUnionDefaultCase_def)
  have "reported ?edits \<in> set (switch_cb opts chk sf n)"
    unfolding rep by simp
  with visited have rule: "reported ?edits \<in> set (fst (switch_rule opts chk sf sourceFile))"
    by (auto simp: switch_rule_visits)
  have shape: "\<exists>tests edit.
                 fixSwitch chk sf n caseBlock (map Some missing) (symbolName T) = Inr [edit]
               \<and> map Some tests = map (caseTest chk (symbolName T)) missing
               \<and> (clauses caseBlock \<noteq> [] \<longrightarrow>
                     edit = \<lparr>newText = [10] @ join [10] (map (\<lambda>ct. indent @ caseBranch ct) tests),
                             span_start = nstart (last (clauses caseBlock)), span_length = 0\<rparr>)
               \<and> (clauses caseBlock = [] \<longrightarrow>
                     (\<exists>ob cl. getFirstToken sf caseBlock = Some ob
                        \<and> getLastToken sf caseBlock = Some cl
                        \<and> edit = \<lparr>newText = join [10] [js_str ''{'',
                                      join [10] (map (\<lambda>ct. indent @ caseBranch ct) tests),
                                      indent @ js_str ''}''],
                                   span_start = nstart ob, span_length = nend cl - nstart ob\<rparr>))"
    if named: "\<forall>t \<in> set missing.
             tsutils_isTypeFlagSet t TypeFlags_ESSymbolLike \<longrightarrow> symbolName t \<noteq> None"
      and braces: "clauses caseBlock = [] \<longrightarrow>
                (\<exists>ob cl. getFirstToken sf caseBlock = Some ob \<and> kind ob = OpenBraceToken
                   \<and> getLastToken sf caseBlock = Some cl \<and> kind cl = CloseBraceToken)"
  proof -
    have sub: "\<forall>t \<in> set missing. caseTest chk (symbolName T) t \<noteq> None"
      using named caseTest_defined by blast
    define tests where "tests = map (\<lambda>t. the (caseTest chk (symbolName T) t)) missing"
    have tests: "map Some tests = map (caseTest chk (symbolName T)) missing"
      unfolding tests_def using sub by (induction missing) auto
    have cases: "missingCases chk (symbolName T) (map Some missing) = Inr (map caseBranch tests)"
      using missingCases_Some [OF sub] by (simp add: tests_def comp_def)
    show ?thesis
    proof (cases "clauses caseBlock = []")
      case False
      have "fixSwitch chk sf n caseBlock (map Some missing) (symbolName T) =
          Inr [\<lparr>newText = [10] @ join [10] (map (\<lambda>ct. indent @ caseBranch ct) tests),
                 span_start = nstart (last (clauses caseBlock)), span_length = 0\<rparr>]"
        using fixSwitch_last [OF False cases, of sf n] False
        by (simp add: indent_def comp_def)
      with tests False show ?thesis by auto
    next
      case True
      with braces obtain ob cl where
        tok: "getFirstToken sf caseBlock = Some ob" "kind ob = OpenBraceToken"
             "getLastToken sf caseBlock = Some cl" "kind cl = CloseBraceToken"
        by blast
      have "fixSwitch chk sf n caseBlock (map Some missing) (symbolName T) =
          Inr [\<lparr>newText = join [10] [js_str ''{'',
                                        join [10] (map (\<lambda>ct. indent @ caseBranch ct) tests),
                                        indent @ js_str ''}''],
                 span_start = nstart ob, span_length = nend cl - nstart ob\<rparr>]"
        using fixSwitch_empty [OF True cases tok, of n] True
        by (simp add: indent_def comp_def)
      with tests True tok show ?thesis by auto
    qed
  qed
  from rule rep one shape show ?thesis by blast
qed

theorem switch_missing_branches_one_fix_witness:
  "switch_rule ex_defaultOptions ex_checkerABC ex_sourceFile ex_file1 =
    ([\<lparr>message = js_str ''Switch is not exhaustive. Cases not matched: ''
                  @ [39] @ js_str ''b'' @ [39] @ js_str '' | '' @ [39] @ js_str ''c'' @ [39],
       dstart = 0, dend = 31,
       dfixes = [\<lparr>description = js_str ''Add branches for missing cases.'',
                  textChanges = Inr [\<lparr>newText =
                       [10] @ spaces 13 @ js_str ''case ''
                       @ [39] @ js_str ''b'' @ [39] @ js_str '': { throw new Error('' @ [39]
                       @ js_str ''Not implemented yet: '' @ [92, 39] @ js_str ''b'' @ [92, 39]
                       @ js_str '' case'' @ [39] @ js_str '') }''
                       @ [10] @ spaces 13 @ js_str ''case ''
                       @ [39] @ js_str ''c'' @ [39] @ js_str '': { throw new Error('' @ [39]
                       @ js_str ''Not implemented yet: '' @ [92, 39] @ js_str ''c'' @ [92, 39]
                       @ js_str '' case'' @ [39] @ js_str '') }'',
                     span_start = 13, span_length = 0\<rparr>]\<rparr>]\<rparr>], Completed)"
proof -
  let ?T = "getConstrainedTypeAtLocation ex_checkerABC ex_k"
  have vis: "ex_switch1 \<in> set (descendants ex_file1)"
    by (simp add: ex_file1_below)
  let ?missing = "spec_missingParts ex_checkerABC ?T ex_caseBlock1"
  have sh: "shape ex_switch1 = SwitchStatementN ex_k ex_caseBlock1"
    by (simp add: ex_switch1_def)
  have ne: "?missing \<noteq> []"
    by (simp add: ex_missingABC)
  have cls: "clauses ex_caseBlock1 = [ex_caseA]"
    by (simp add: clauses_def ex_caseBlock1_def)
  have named: "\<forall>t \<in> set ?missing.
      tsutils_isTypeFlagSet t TypeFlags_ESSymbolLike \<longrightarrow> symbolName t \<noteq> None"
    unfolding ex_missingABC by (simp add: tsutils_isTypeFlagSet_def ex_typeB_def ex_typeC_def)
  have opt: "\<not> requireDefaultForNonUnion ex_defaultOptions"
    by (simp add: ex_defaultOptions_def)
  from switch_missing_branches_one_fix [OF vis sh ne ex_noDefault1, of ex_defaultOptions ex_sourceFile]
    named cls opt
  obtain tests edit where
    rep: "switch_cb ex_defaultOptions ex_checkerABC ex_sourceFile ex_switch1 =
          [\<lparr>message = js_str ''Switch is not exhaustive. Cases not matched: ''
                      @ missingBranchesText ex_checkerABC ?missing,
            dstart = nstart ex_switch1, dend = nend ex_switch1,
            dfixes = [\<lparr>description = js_str ''Add branches for missing cases.'',
                       textChanges = Inr [edit]\<rparr>]\<rparr>]"
    and tests: "map Some tests = map (caseTest ex_checkerABC (symbolName ?T)) ?missing"
    and edit: "edit = \<lparr>newText = [10] @ join [10]
                   (map (\<lambda>ct. spaces (characterOfPosition ex_sourceFile (nstart (last [ex_caseA])))
                               @ caseBranch ct) tests),
                 span_start = nstart (last [ex_caseA]), span_length = 0\<rparr>"
    by auto
  have sn: "symbolName ?T = None"
    by (simp add: getConstrainedTypeAtLocation_def ex_checkerABC_def ex_checker_def ex_k_def
        ex_typeABC_def)
  have ct: "caseTest ex_checkerABC None ex_typeB = Some ([39] @ js_str ''b'' @ [39])"
    "caseTest ex_checkerABC None ex_typeC = Some ([39] @ js_str ''c'' @ [39])"
    by (simp_all add: caseTest_def tsutils_isTypeFlagSet_def ex_typeB_def ex_typeC_def
        ex_checkerABC_def ex_checker_def)
  have t: "tests = [[39] @ js_str ''b'' @ [39], [39] @ js_str ''c'' @ [39]]"
    using tests unfolding ex_missingABC sn by (auto simp: ct map_eq_Cons_conv)
  have mtxt: "missingBranchesText ex_checkerABC [ex_typeB, ex_typeC] =
      [39] @ js_str ''b'' @ [39] @ js_str '' | '' @ [39] @ js_str ''c'' @ [39]"
    by (simp add: missingBranchesText_def tsutils_isTypeFlagSet_def ex_typeB_def ex_typeC_def
        ex_checkerABC_def ex_checker_def)
  from rep edit have "switch_cb ex_defaultOptions ex_checkerABC ex_sourceFile ex_switch1 =
     [\<lparr>message = js_str ''Switch is not exhaustive. Cases not matched: ''
                  @ [39] @ js_str ''b'' @ [39] @ js_str '' | '' @ [39] @ js_str ''c'' @ [39],
       dstart = 0, dend = 31,
       dfixes = [\<lparr>description = js_str ''Add branches for missing cases.'',
                  textChanges = Inr [\<lparr>newText =
                       [10] @ spaces 13 @ js_str ''case ''
                       @ [39] @ js_str ''b'' @ [39] @ js_str '': { throw new Error('' @ [39]
                       @ js_str ''Not implemented yet: '' @ [92, 39] @ js_str ''b'' @ [92, 39]
                       @ js_str '' case'' @ [39] @ js_str '') }''
                       @ [10] @ spaces 13 @ js_str ''case ''
                       @ [39] @ js_str ''c'' @ [39] @ js_str '': { throw new Error('' @ [39]
                       @ js_str ''Not implemented yet: '' @ [92, 39] @ js_str ''c'' @ [92, 39]
                       @ js_str '' case'' @ [39] @ js_str '') }'',
                     span_start = 13, span_length = 0\<rparr>]\<rparr>]\<rparr>]"
    unfolding t ex_missingABC
    by (simp add: mtxt ex_switch1_def ex_caseA_def ex_sourceFile_def caseBranch_def
        replaceAll_def js_str_def)
  then show ?thesis
    by (simp add: switch_rule_visits ex_file1_below switch_cb_other ex_not_switch)
qed

section \<open>Token lookup: what the loops compute\<close>

lemma getTokenAfter_loop_eq:
  "getTokenAfter_loop condition n count i =
     (if i < count \<and> holds condition n then Some n else None)"
proof (induction condition n count i rule: getTokenAfter_loop.induct)
  case (1 condition n count i)
  show ?case
    using "1.IH" by (subst getTokenAfter_loop.simps) auto
qed

lemma getTokenBefore_loop_eq:
  "getTokenBefore_loop condition n i =
     (if 0 \<le> i \<and> holds condition n then Some n else None)"
proof (induction condition n i rule: getTokenBefore_loop.induct)
  case (1 condition n i)
  show ?case
    using "1.IH" by (subst getTokenBefore_loop.simps) auto
qed

lemma getTokenAfter_eq:
  "getTokenAfter children n condition =
     (if indexOf children n + 1 < int (length children) \<and> holds condition n then Some n else None)"
  by (simp add: getTokenAfter_def getTokenAfter_loop_eq)

lemma getTokenBefore_eq:
  "getTokenBefore children n condition =
     (if 1 \<le> indexOf children n \<and> holds condition n then Some n else None)"
  by (simp add: getTokenBefore_def getTokenBefore_loop_eq)

text \<open>
  Claim C1.  The claim says that \<^verbatim>\<open>getTokenAfter\<close> (\<^verbatim>\<open>getTokenBefore\<close>) returns the
  first sibling after (before) the node that satisfies the condition.  The loops test and
  return the node itself, never a sibling: among the children \<^verbatim>\<open><\<close>, \<^verbatim>\<open>number\<close>,
  \<^verbatim>\<open>>\<close>, \<^verbatim>\<open>(3 + 5)\<close> of a type assertion, the lookups from \<^verbatim>\<open>number\<close> for
  \<^verbatim>\<open>>\<close> and for \<^verbatim>\<open><\<close> return nothing although both siblings are there, and
  without a condition the lookup returns \<^verbatim>\<open>number\<close>.
\<close>

theorem token_lookup_tests_the_node_itself:
  "getTokenAfter [ex_lt, ex_number, ex_gt, ex_paren] ex_number
       (Some (\<lambda>x. kind x = GreaterThanToken)) = None
   \<and> spec_tokenAfter [ex_lt, ex_number, ex_gt, ex_paren] ex_number
       (Some (\<lambda>x. kind x = GreaterThanToken)) = Some ex_gt
   \<and> getTokenBefore [ex_lt, ex_number, ex_gt, ex_paren] ex_number
       (Some (\<lambda>x. kind x = LessThanToken)) = None
   \<and> spec_tokenBefore [ex_lt, ex_number, ex_gt, ex_paren] ex_number
       (Some (\<lambda>x. kind x = LessThanToken)) = Some ex_lt
   \<and> getTokenAfter [ex_lt, ex_number, ex_gt, ex_paren] ex_number None = Some ex_number
   \<and> spec_tokenAfter [ex_lt, ex_number, ex_gt, ex_paren] ex_number None = Some ex_gt"
proof -
  have idx: "indexOf [ex_lt, ex_number, ex_gt, ex_paren] ex_number = 1"
    by (simp add: indexOf_def same_node_def ex_lt_def ex_number_def)
  have k: "kind ex_number \<noteq> GreaterThanToken" "kind ex_number \<noteq> LessThanToken"
    "kind ex_gt = GreaterThanToken" "kind ex_lt = LessThanToken"
    by (simp_all add: kind_def ex_number_def ex_gt_def ex_lt_def)
  show ?thesis
    by (simp add: getTokenAfter_eq getTokenBefore_eq spec_tokenAfter_def spec_tokenBefore_def
        idx holds_def k)
qed


section \<open>Unnecessary type assertion\<close>

lemma isTypeUnchanged_nonUndefinedParts:
  "isTypeUnchanged copts uncast cast \<longleftrightarrow>
     same_type uncast cast
     \<or> (exactOptionalPropertyTypes copts
        \<and> tsutils_isTypeFlagSet uncast TypeFlags_Undefined
        \<and> tsutils_isTypeFlagSet cast TypeFlags_Undefined
        \<and> length (nonUndefinedParts uncast) = length (nonUndefinedParts cast)
        \<and> list_all (\<lambda>part. list_ex (same_type part) (nonUndefinedParts uncast))
             (nonUndefinedParts cast))"
  by (auto simp: isTypeUnchanged_def nonUndefinedParts_def Let_def)

text \<open>
  Claim C3 as stated fails: with \<^verbatim>\<open>exactOptionalPropertyTypes\<close> enabled,
  \<^verbatim>\<open>string | undefined\<close> and \<^verbatim>\<open>string\<close> differ only by the undefined constituent,
  and \<^verbatim>\<open>isTypeUnchanged\<close> returns false: the exception is for two types that both
  have an undefined constituent.
\<close>

theorem isTypeUnchanged_counterexample:
  "spec_differOnlyByUndefined ex_stringOrUndefined ex_typeString
   \<and> exactOptionalPropertyTypes ex_exact
   \<and> \<not> isTypeUnchanged ex_exact ex_stringOrUndefined ex_typeString"
proof -
  have p1: "nonUndefinedParts ex_stringOrUndefined = [ex_typeString]"
    by (simp add: nonUndefinedParts_def unionTypeParts_def tsutils_isTypeFlagSet_def
        ex_stringOrUndefined_def ex_typeString_def ex_typeUndefined_def)
  have p2: "nonUndefinedParts ex_typeString = [ex_typeString]"
    by (simp add: nonUndefinedParts_def unionTypeParts_def tsutils_isTypeFlagSet_def
        ex_typeString_def)
  have ns: "\<not> same_type ex_stringOrUndefined ex_typeString"
    by (simp add: same_type_def ex_stringOrUndefined_def ex_typeString_def)
  have nf: "\<not> tsutils_isTypeFlagSet ex_typeString TypeFlags_Undefined"
    by (simp add: tsutils_isTypeFlagSet_def ex_typeString_def)
  show ?thesis
    by (simp add: spec_differOnlyByUndefined_def p1 p2 ns nf isTypeUnchanged_nonUndefinedParts
        ex_exact_def)
qed

lemma nonUndefinedParts_not_union:
  "\<not> tsutils_isTypeFlagSet t TypeFlags_Union \<Longrightarrow> tsutils_isTypeFlagSet t TypeFlags_Undefined \<Longrightarrow>
   nonUndefinedParts t = []"
  by (simp add: nonUndefinedParts_def unionTypeParts_def)


text \<open>
  Claim C3, amended.  \<^verbatim>\<open>isTypeUnchanged(uncast, cast)\<close> returns true when the two types
  are identical.  When it returns true for two types that are not identical,
  \<^verbatim>\<open>exactOptionalPropertyTypes\<close> is enabled, both types have an undefined constituent,
  and their union parts other than undefined agree: equally many, and every such part of
  \<open>cast\<close> identical to such a part of \<open>uncast\<close>.  So two types that are not identical
  are reported as changed whenever the option is disabled or one of them has no undefined
  constituent, whatever their structure.  With the option enabled, two undefined types
  that are not unions are unchanged.
\<close>

theorem isTypeUnchanged_by_identity:
  "(same_type uncast cast \<longrightarrow> isTypeUnchanged copts uncast cast)
   \<and> (isTypeUnchanged copts uncast cast \<and> \<not> same_type uncast cast \<longrightarrow>
        exactOptionalPropertyTypes copts
        \<and> spec_hasUndefinedConstituent uncast \<and> spec_hasUndefinedConstituent cast
        \<and> length (nonUndefinedParts uncast) = length (nonUndefinedParts cast)
        \<and> (\<forall>part \<in> set (nonUndefinedParts cast).
              \<exists>other \<in> set (nonUndefinedParts uncast). same_type part other))
   \<and> (exactOptionalPropertyTypes copts
        \<and> \<not> tsutils_isTypeFlagSet uncast TypeFlags_Union
        \<and> \<not> tsutils_isTypeFlagSet cast TypeFlags_Union
        \<and> spec_hasUndefinedConstituent uncast \<and> spec_hasUndefinedConstituent cast \<longrightarrow>
        isTypeUnchanged copts uncast cast)"
proof (intro conjI impI)
  assume "same_type uncast cast"
  then show "isTypeUnchanged copts uncast cast"
    by (simp add: isTypeUnchanged_nonUndefinedParts)
next
  assume a: "isTypeUnchanged copts uncast cast \<and> \<not> same_type uncast cast"
  then have g: "exactOptionalPropertyTypes copts"
    "tsutils_isTypeFlagSet uncast TypeFlags_Undefined"
    "tsutils_isTypeFlagSet cast TypeFlags_Undefined"
    "length (nonUndefinedParts uncast) = length (nonUndefinedParts cast)"
    "list_all (\<lambda>part. list_ex (same_type part) (nonUndefinedParts uncast)) (nonUndefinedParts cast)"
    by (auto simp: isTypeUnchanged_nonUndefinedParts)
  from g(1) show "exactOptionalPropertyTypes copts" .
  from g(2) show "spec_hasUndefinedConstituent uncast" by (simp add: spec_hasUndefinedConstituent_def)
  from g(3) show "spec_hasUndefinedConstituent cast" by (simp add: spec_hasUndefinedConstituent_def)
  from g(4) show "length (nonUndefinedParts uncast) = length (nonUndefinedParts cast)" .
  from g(5) show "\<forall>part \<in> set (nonUndefinedParts cast).
              \<exists>other \<in> set (nonUndefinedParts uncast). same_type part other"
    by (simp add: list_all_iff list_ex_iff)
next
  assume a: "exactOptionalPropertyTypes copts
        \<and> \<not> tsutils_isTypeFlagSet uncast TypeFlags_Union
        \<and> \<not> tsutils_isTypeFlagSet cast TypeFlags_Union
        \<and> spec_hasUndefinedConstituent uncast \<and> spec_hasUndefinedConstituent cast"
  then have u: "tsutils_isTypeFlagSet uncast TypeFlags_Undefined"
    "tsutils_isTypeFlagSet cast TypeFlags_Undefined"
    by (auto simp: spec_hasUndefinedConstituent_def unionTypeParts_def)
  with a have "nonUndefinedParts uncast = []" "nonUndefinedParts cast = []"
    by (simp_all add: nonUndefinedParts_not_union)
  with a u show "isTypeUnchanged copts uncast cast"
    by (simp add: isTypeUnchanged_nonUndefinedParts)
qed

theorem isTypeUnchanged_by_identity_witness:
  "same_type ex_stringOrUndefined ex_stringOrUndefined
   \<and> isTypeUnchanged ex_exact ex_stringOrUndefined ex_stringOrUndefined
   \<and> \<not> same_type ex_stringOrUndefined ex_typeString
   \<and> \<not> spec_hasUndefinedConstituent ex_typeString
   \<and> \<not> isTypeUnchanged ex_exact ex_stringOrUndefined ex_typeString
   \<and> \<not> same_type ex_typeMissing ex_typeUndefined
   \<and> spec_hasUndefinedConstituent ex_typeMissing
   \<and> spec_hasUndefinedConstituent ex_typeUndefined
   \<and> isTypeUnchanged ex_exact ex_typeMissing ex_typeUndefined
   \<and> \<not> isTypeUnchanged (ex_exact\<lparr>exactOptionalPropertyTypes := False\<rparr>) ex_typeMissing ex_typeUndefined"
proof -
  have ns: "\<not> same_type ex_typeMissing ex_typeUndefined"
    "\<not> same_type ex_stringOrUndefined ex_typeString"
    "same_type ex_stringOrUndefined ex_stringOrUndefined"
    by (simp_all add: same_type_def ex_typeMissing_def ex_typeUndefined_def
        ex_stringOrUndefined_def ex_typeString_def)
  have fl: "\<not> tsutils_isTypeFlagSet ex_typeMissing TypeFlags_Union"
    "\<not> tsutils_isTypeFlagSet ex_typeUndefined TypeFlags_Union"
    by (simp_all add: tsutils_isTypeFlagSet_def ex_typeMissing_def ex_typeUndefined_def)
  have un: "spec_hasUndefinedConstituent ex_typeMissing"
    "spec_hasUndefinedConstituent ex_typeUndefined"
    "\<not> spec_hasUndefinedConstituent ex_typeString"
    by (simp_all add: spec_hasUndefinedConstituent_def unionTypeParts_def tsutils_isTypeFlagSet_def
        ex_typeMissing_def ex_typeUndefined_def ex_typeString_def)
  have opt: "exactOptionalPropertyTypes ex_exact"
    "\<not> exactOptionalPropertyTypes (ex_exact\<lparr>exactOptionalPropertyTypes := False\<rparr>)"
    by (simp_all add: ex_exact_def)
  from isTypeUnchanged_by_identity [of ex_stringOrUndefined ex_stringOrUndefined ex_exact] ns
  have a: "isTypeUnchanged ex_exact ex_stringOrUndefined ex_stringOrUndefined" by simp
  from isTypeUnchanged_by_identity [of ex_stringOrUndefined ex_typeString ex_exact] ns un
  have b: "\<not> isTypeUnchanged ex_exact ex_stringOrUndefined ex_typeString" by blast
  from isTypeUnchanged_by_identity [of ex_typeMissing ex_typeUndefined ex_exact] fl un opt
  have c: "isTypeUnchanged ex_exact ex_typeMissing ex_typeUndefined" by simp
  from isTypeUnchanged_by_identity
         [of ex_typeMissing ex_typeUndefined "ex_exact\<lparr>exactOptionalPropertyTypes := False\<rparr>"]
       ns opt
  have d: "\<not> isTypeUnchanged (ex_exact\<lparr>exactOptionalPropertyTypes := False\<rparr>) ex_typeMissing ex_typeUndefined"
    by blast
  from a b c d ns un show ?thesis by simp
qed

text \<open>The guard of the exception reads the own flags of the two types, as the tests of
  the nullable branch of the rule do; a union does not carry the flag of a part, and a
  union is unchanged only when identical.\<close>

lemma isTypeUnchanged_of_union:
  "flags uncast = TypeFlags_Union \<Longrightarrow> isTypeUnchanged copts uncast cast = same_type uncast cast"
  by (simp add: isTypeUnchanged_def tsutils_isTypeFlagSet_def)

text \<open>
  Claim C4.  The claim says that a non-null assertion on a nullable operand is reported
  exactly when a contextual type exists and includes every nullability class present in
  the operand's type.  The rule tests the classes on the type's own flags, and a union's
  own flags hold none of them: for \<^verbatim>\<open>const c: string = b!\<close> with \<^verbatim>\<open>b\<close> of type
  \<^verbatim>\<open>string | undefined\<close> the rule reports the assertion as unnecessary although the
  contextual type \<^verbatim>\<open>string\<close> does not include undefined.
\<close>

theorem nonnull_union_operand_reported:
  "isNullableType (getConstrainedTypeAtLocation ex_checker ex_b)
   \<and> getContextualType ex_typeUtils [ex_decl] ex_bang = Some ex_typeString
   \<and> \<not> spec_contextAcceptsNullability (getConstrainedTypeAtLocation ex_checker ex_b) ex_typeString
   \<and> assertion_cb None ex_checker ex_exact ex_typeUtils ex_sourceFile [ex_decl] ex_bang =
       ([withFix (report msg_receiver_accepts 18 20) noDescription (Inr [deletion 19 1])], Descend)"
proof -
  have T: "getConstrainedTypeAtLocation ex_checker ex_b = ex_stringOrUndefined"
    by (simp add: getConstrainedTypeAtLocation_def ex_checker_def ex_b_def)
  have parts: "unionTypeParts ex_stringOrUndefined = [ex_typeString, ex_typeUndefined]"
    "unionTypeParts ex_typeString = [ex_typeString]"
    by (simp_all add: unionTypeParts_def tsutils_isTypeFlagSet_def ex_stringOrUndefined_def
        ex_typeString_def)
  have nullable: "isNullableType ex_stringOrUndefined"
    unfolding isNullableType_def parts
    by (simp add: tsutils_isTypeFlagSet_def ex_typeString_def ex_typeUndefined_def)
  have ctx: "getContextualType ex_typeUtils [ex_decl] ex_bang = Some ex_typeString"
    by (simp add: ex_typeUtils_def ex_decl_def ex_checker_def)
  have inc: "spec_typeIncludes TypeFlags_Undefined ex_stringOrUndefined"
    "\<not> spec_typeIncludes TypeFlags_Undefined ex_typeString"
    unfolding spec_typeIncludes_def parts
    by (simp_all add: tsutils_isTypeFlagSet_def ex_typeString_def ex_typeUndefined_def)
  have raw: "\<not> tsutils_isTypeFlagSet ex_stringOrUndefined TypeFlags_Undefined"
    "\<not> tsutils_isTypeFlagSet ex_stringOrUndefined TypeFlags_Null"
    "\<not> tsutils_isTypeFlagSet ex_stringOrUndefined TypeFlags_Void"
    by (simp_all add: tsutils_isTypeFlagSet_def ex_stringOrUndefined_def)
  have sh: "shape ex_bang = NonNullExpressionN ex_b" "nstart ex_bang = 18" "nend ex_bang = 20"
    "nend ex_b = 19"
    "shape ex_decl = VariableDeclarationN (Node 43 5 6 7 (IdentifierN (js_str ''c'')))
                None (Some (Node 44 8 9 15 (OtherN 154 []))) (Some ex_bang)"
    by (simp_all add: ex_bang_def ex_b_def ex_decl_def)
  have cb: "assertion_cb None ex_checker ex_exact ex_typeUtils ex_sourceFile [ex_decl] ex_bang =
       ([withFix (report msg_receiver_accepts 18 20) noDescription (Inr [deletion 19 1])], Descend)"
    by (simp add: assertion_cb_def checkNonNullExpression_def sh T nullable ctx raw Let_def)
  from nullable ctx inc cb show ?thesis
    by (simp add: T spec_contextAcceptsNullability_def)
qed

section \<open>Unnecessary condition\<close>

lemma flag_or_left: "(f :: 32 word) AND a \<noteq> 0 \<Longrightarrow> f AND (a OR b) \<noteq> 0"
  by (simp add: bit.conj_disj_distrib or_eq_0_iff)

lemma flag_or_right: "(f :: 32 word) AND b \<noteq> 0 \<Longrightarrow> f AND (a OR b) \<noteq> 0"
  by (simp add: bit.conj_disj_distrib or_eq_0_iff)

lemma spec_isLiteralLike_isLiteral: "spec_isLiteralLike t \<Longrightarrow> isLiteral t"
  unfolding spec_isLiteralLike_def isLiteral_def isLiteral_method_def isBooleanLiteralType_def
    tsutils_isTypeFlagSet_def
  using flag_or_left [of "flags t" 128 "256 OR 2048"]
    flag_or_right [of "flags t" "256" 128] flag_or_left [of "flags t" "128 OR 256" 2048]
  by (auto simp: or.assoc)


lemma dispatch_comparison:
  assumes "shape n = BinaryExpressionN left operatorToken right"
    and "kind operatorToken \<in> BOOL_OPERATORS"
  shows "dispatch n = BinaryExpressionBranch"
  using assms by (auto simp: dispatch_def kind_def operatorKind_def BOOL_OPERATORS_def)

text \<open>
  Claim C8.  A binary expression whose operator is one of \<^verbatim>\<open><\<close>, \<^verbatim>\<open>>\<close>, \<^verbatim>\<open><=\<close>,
  \<^verbatim>\<open>>=\<close>, \<^verbatim>\<open>==\<close>, \<^verbatim>\<open>===\<close>, \<^verbatim>\<open>!=\<close>, \<^verbatim>\<open>!==\<close> and whose operands both have a
  literal-like constrained type is reported by the rule's callback, over the whole
  expression, with the message that both sides of the expression are literal values, and
  nothing else is reported for it.
\<close>

theorem literal_comparison_reported:
  assumes "shape n = BinaryExpressionN left operatorToken right"
    and "kind operatorToken \<in> BOOL_OPERATORS"
    and "spec_isLiteralLike (typeAt env left)"
    and "spec_isLiteralLike (typeAt env right)"
  shows "condition_cb env n = [report msg_literalBooleanExpression (nstart n) (nend n)]"
proof -
  have d: "dispatch n = BinaryExpressionBranch"
    using assms(1,2) by (rule dispatch_comparison)
  have lit: "isLiteral (typeAt env left)" "isLiteral (typeAt env right)"
    using assms(3,4) by (simp_all add: spec_isLiteralLike_isLiteral)
  have "checkIfBinaryExpressionIsNecessaryConditional env n left operatorToken right =
      [report msg_literalBooleanExpression (nstart n) (nend n)]"
    using assms(2) lit by (simp add: checkIfBinaryExpressionIsNecessaryConditional_def)
  then show ?thesis
    by (simp add: condition_cb_def d run_branch_def assms(1))
qed

theorem literal_comparison_reported_witness:
  "condition_cb ex_env ex_comparison = [report msg_literalBooleanExpression 4 11]"
proof -
  have sh: "shape ex_comparison = BinaryExpressionN (Node 61 4 4 5 (OtherN 9 []))
        (Node 62 5 6 9 (Leaf EqualsEqualsEqualsToken)) (Node 63 9 10 11 (OtherN 9 []))"
    by (simp add: ex_comparison_def)
  have op: "kind (Node 62 5 6 9 (Leaf EqualsEqualsEqualsToken)) \<in> BOOL_OPERATORS"
    by (simp add: kind_def BOOL_OPERATORS_def)
  have ty: "typeAt ex_env m = ex_typeOne" for m
    by (simp add: typeAt_def ex_env_def ex_conditionChecker_def getConstrainedTypeAtLocation_def
        ex_checker_def)
  have lit: "spec_isLiteralLike ex_typeOne"
    by (simp add: spec_isLiteralLike_def tsutils_isTypeFlagSet_def ex_typeOne_def)
  from literal_comparison_reported [OF sh op, of ex_env] lit
  show ?thesis by (simp add: ty ex_comparison_def)
qed

lemma checkNode_judge_messages:
  "d \<in> set (checkNode_judge env n b) \<Longrightarrow> message d \<in> {msg_never, msg_alwaysFalsy, msg_alwaysTruthy}"
  by (auto simp: checkNode_judge_def Let_def report_def split: if_splits option.splits)

lemma checkNode_messages:
  "d \<in> set (checkNode env n b) \<Longrightarrow> message d \<in> {msg_never, msg_alwaysFalsy, msg_alwaysTruthy}"
proof (induction env n b rule: checkNode.induct)
qed (auto dest: checkNode_judge_messages split: if_splits)

lemma checkCallExpression_messages:
  "d \<in> set (checkCallExpression env expression arguments) \<Longrightarrow>
   message d \<in> {msg_never, msg_alwaysFalsy, msg_alwaysTruthy, msg_alwaysTruthyFunc, msg_alwaysFalsyFunc}"
  by (auto simp: checkCallExpression_def Let_def report_def dest: checkNode_messages
      split: if_splits option.splits)

lemma msg_neverOptionalChain_distinct:
  "msg_neverOptionalChain \<notin>
     {msg_never, msg_alwaysFalsy, msg_alwaysTruthy, msg_alwaysTruthyFunc, msg_alwaysFalsyFunc}"
  by (simp add: msg_neverOptionalChain_def msg_never_def msg_alwaysFalsy_def msg_alwaysTruthy_def
      msg_alwaysTruthyFunc_def msg_alwaysFalsyFunc_def js_str_def)

text \<open>
  Claim C9.  The callback's chain of guards never takes the branch guarded by
  \<^verbatim>\<open>ts.isCallExpression(node) && node.questionDotToken\<close>: a call expression takes the
  earlier \<^verbatim>\<open>ts.isCallExpression(node)\<close> branch.  So for a call expression, optional or
  not, no diagnostic of the callback carries the message of an unnecessary optional chain.
\<close>

theorem optional_call_branch_unreachable:
  "dispatch n \<noteq> OptionalCallExpressionBranch
   \<and> (kind n = CallExpression \<longrightarrow>
        dispatch n = CallExpressionBranch
        \<and> (\<forall>d \<in> set (condition_cb env n). message d \<noteq> msg_neverOptionalChain))"
proof -
  have a: "dispatch n \<noteq> OptionalCallExpressionBranch"
    by (simp add: dispatch_def)
  have b: "dispatch n = CallExpressionBranch" if "kind n = CallExpression"
    using that by (simp add: dispatch_def)
  have c: "message d \<noteq> msg_neverOptionalChain"
    if "kind n = CallExpression" and "d \<in> set (condition_cb env n)" for d
  proof -
    from that(2) b [OF that(1)]
    have "message d \<in> {msg_never, msg_alwaysFalsy, msg_alwaysTruthy, msg_alwaysTruthyFunc, msg_alwaysFalsyFunc}"
      by (auto simp: condition_cb_def run_branch_def dest: checkCallExpression_messages
          split: node_shape.splits)
    with msg_neverOptionalChain_distinct show ?thesis by auto
  qed
  from a b c show ?thesis by blast
qed

theorem optional_call_branch_unreachable_witness:
  "questionDotToken ex_optionalCall \<noteq> None
   \<and> dispatch ex_optionalCall = CallExpressionBranch
   \<and> condition_cb ex_env ex_optionalCall = []"
proof -
  have k: "kind ex_optionalCall = CallExpression"
    by (simp add: kind_def ex_optionalCall_def)
  have q: "questionDotToken ex_optionalCall \<noteq> None"
    by (simp add: questionDotToken_def ex_optionalCall_def)
  from optional_call_branch_unreachable [of ex_optionalCall ex_env] k
  have d: "dispatch ex_optionalCall = CallExpressionBranch" by simp
  have "condition_cb ex_env ex_optionalCall = []"
    unfolding condition_cb_def d
    by (simp add: run_branch_def ex_optionalCall_def checkCallExpression_def
        isArrayPredicateFunction_def)
  with q d show ?thesis by simp
qed

section \<open>Prefer nullish coalescing\<close>

lemma checkTernary_not_scanned:
  assumes "\<not> ignoreTernaryTests env" and "ternaryTest c = (Some operator, ns)"
    and "scanTestNodes (n_sourceFile env) operator wTrue wFalse ns (None, False, False) = None"
  shows "checkTernary env n c wTrue wFalse = ([], Return)"
  using assms by (simp add: checkTernary_def)

lemma checkTernary_both_checked:
  assumes "\<not> ignoreTernaryTests env" and "ternaryTest c = (Some EqualsEqualsEqualsToken, ns)"
    and "scanTestNodes (n_sourceFile env) EqualsEqualsEqualsToken wTrue wFalse ns (None, False, False)
           = Some (Some identifier, True, True)"
  shows "checkTernary env n c wTrue wFalse =
     ([withFix (report msg_preferNullishOverTernary (nstart n) (nend n)) fixToNullish
         (Inr [\<lparr>newText = getText (n_sourceFile env) wFalse @ js_str '' ?? ''
                            @ getText (n_sourceFile env) wTrue,
                span_start = nstart n, span_length = getWidth n\<rparr>])],
      Descend)"
  using assms by (simp add: checkTernary_def isFixable_def)

lemma ex_getText:
  "getText (n_sourceFile ex_nullishEnv) (Node i p 0 1 sh) = js_str ''a''"
  "getText (n_sourceFile ex_nullishEnv) (Node i p 14 15 sh) = js_str ''a''"
  "getText (n_sourceFile ex_nullishEnv) (Node i p 36 37 sh) = js_str ''a''"
  "getText (n_sourceFile ex_nullishEnv) (Node i p 32 33 sh) = js_str ''b''"
  "getText (n_sourceFile ex_nullishEnv) (Node i p 20 29 sh) = js_str ''undefined''"
  by (simp_all add: getText_def ex_nullishEnv_def ex_sourceFile_def js_slice_def js_str_def Let_def)



text \<open>
  Claim C6.  The claim says that \<^verbatim>\<open>a === null || a === undefined ? b : a\<close> is flagged
  and fixed to \<^verbatim>\<open>a ?? b\<close>.  \<^verbatim>\<open>isUndefinedIdentifier\<close> tests for the kind
  \<^verbatim>\<open>UndefinedKeyword\<close>, which an \<^verbatim>\<open>undefined\<close> in an expression never has (it is an
  identifier): the scan of the test meets a node that is none of null, undefined and the
  compared identifier, and the callback returns without a report.  With a node of kind
  \<^verbatim>\<open>UndefinedKeyword\<close> in that place the same ternary is reported with the fix
  \<^verbatim>\<open>a ?? b\<close> over the whole ternary.
\<close>

theorem ternary_with_undefined_identifier_not_flagged:
  "nullish_cb ex_nullishEnv [] ex_ternary = ([], Return)
   \<and> nullish_cb ex_nullishEnv [] ex_ternaryKeyword =
       ([withFix (report msg_preferNullishOverTernary 0 37) fixToNullish
           (Inr [\<lparr>newText = js_str ''a ?? b'', span_start = 0, span_length = 37\<rparr>])],
        Descend)"
proof -
  have test: "ternaryTest (Node 81 0 0 29
           (BinaryExpressionN
              (Node 82 0 0 10
                 (BinaryExpressionN (Node 85 0 0 1 (IdentifierN (js_str ''a'')))
                    (Node 86 1 2 5 (Leaf EqualsEqualsEqualsToken))
                    (Node 87 5 6 10 (Leaf NullKeyword))))
              (Node 84 10 11 13 (Leaf BarBarToken))
              (Node 83 13 14 29
                 (BinaryExpressionN (Node 88 13 14 15 (IdentifierN (js_str ''a'')))
                    (Node 89 15 16 19 (Leaf EqualsEqualsEqualsToken))
                    u)))) =
       (Some EqualsEqualsEqualsToken,
        [Node 85 0 0 1 (IdentifierN (js_str ''a'')), Node 87 5 6 10 (Leaf NullKeyword),
         Node 88 13 14 15 (IdentifierN (js_str ''a'')), u])" for u
    by (simp add: ternaryTest_def kind_def isLogicalExpression_def isLogicalOrExpression_def)
  have scan1: "scanTestNodes (n_sourceFile ex_nullishEnv) EqualsEqualsEqualsToken
        (Node 92 31 32 33 (IdentifierN (js_str ''b''))) (Node 94 35 36 37 (IdentifierN (js_str ''a'')))
        [Node 85 0 0 1 (IdentifierN (js_str ''a'')), Node 87 5 6 10 (Leaf NullKeyword),
         Node 88 13 14 15 (IdentifierN (js_str ''a'')),
         Node 90 19 20 29 (IdentifierN (js_str ''undefined''))] (None, False, False) = None"
    by (simp add: isNullLiteral_def isUndefinedIdentifier_def kind_def ex_getText js_str_def)
  have scan2: "scanTestNodes (n_sourceFile ex_nullishEnv) EqualsEqualsEqualsToken
        (Node 92 31 32 33 (IdentifierN (js_str ''b''))) (Node 94 35 36 37 (IdentifierN (js_str ''a'')))
        [Node 85 0 0 1 (IdentifierN (js_str ''a'')), Node 87 5 6 10 (Leaf NullKeyword),
         Node 88 13 14 15 (IdentifierN (js_str ''a'')),
         Node 90 19 20 29 (Leaf UndefinedKeyword)] (None, False, False) =
       Some (Some (Node 88 13 14 15 (IdentifierN (js_str ''a''))), True, True)"
    by (simp add: isNullLiteral_def isUndefinedIdentifier_def kind_def ex_getText)
  have opt: "\<not> ignoreTernaryTests ex_nullishEnv"
    by (simp add: ex_nullishEnv_def)
  have a: "nullish_cb ex_nullishEnv [] ex_ternary = ([], Return)"
    unfolding nullish_cb_def ex_ternary_def ex_ternaryWith_def
    by (simp add: checkTernary_not_scanned [OF opt test scan1])
  have b: "nullish_cb ex_nullishEnv [] ex_ternaryKeyword =
       ([withFix (report msg_preferNullishOverTernary 0 37) fixToNullish
           (Inr [\<lparr>newText = js_str ''a ?? b'', span_start = 0, span_length = 37\<rparr>])],
        Descend)"
    unfolding nullish_cb_def ex_ternaryKeyword_def ex_ternaryWith_def
    by (simp add: checkTernary_both_checked [OF opt test scan2] ex_getText getWidth_def)
       (simp add: js_str_def)
  from a b show ?thesis by simp
qed

text \<open>The second half of the claim holds of \<^verbatim>\<open>isFixable\<close>: with a strict operator
  and exactly one of the two checks, the ternary is fixable exactly when the identifier's
  type flags hold neither any nor unknown nor the nullish kind that is not checked.\<close>

lemma isFixable_single_strict_check:
  assumes "operator = EqualsEqualsEqualsToken \<or> operator = ExclamationEqualsEqualsToken"
    and "hasUndefinedCheck \<noteq> hasNullCheck"
  shows "isFixable env operator identifier hasUndefinedCheck hasNullCheck \<longleftrightarrow>
     n_getTypeFlags env (getTypeAtLocation (n_checker env) identifier)
        AND (TypeFlags_Any OR TypeFlags_Unknown) = 0
     \<and> (if hasUndefinedCheck
        then n_getTypeFlags env (getTypeAtLocation (n_checker env) identifier) AND TypeFlags_Null = 0
        else n_getTypeFlags env (getTypeAtLocation (n_checker env) identifier)
               AND TypeFlags_Undefined = 0)"
  using assms by (auto simp: isFixable_def Let_def)

section \<open>Prefer ts-expect-error\<close>



lemma startsWith_tsIgnore_nonempty: "startsWith s tsIgnore \<Longrightarrow> s \<noteq> []"
  by (auto simp: startsWith_def tsIgnore_def js_str_def)













section \<open>Reported spans\<close>

lemma wf_within_node:
  "wf_within b n \<Longrightarrow> 0 \<le> nstart n \<and> nstart n \<le> nend n \<and> nend n \<le> b"
  by (subst (asm) wf_within.simps) simp

lemma wf_within_child:
  "wf_within b n \<Longrightarrow> c \<in> set (forEachChild n) \<Longrightarrow> wf_within (nend n) c"
  by (subst (asm) wf_within.simps) (simp add: list_all_iff)

lemma wf_within_mono:
  "wf_within b n \<Longrightarrow> b \<le> b' \<Longrightarrow> wf_within b' n"
  by (subst (asm) wf_within.simps, subst wf_within.simps) simp

lemma wf_within_child_mono:
  "wf_within b n \<Longrightarrow> c \<in> set (forEachChild n) \<Longrightarrow> wf_within b c"
  using wf_within_child wf_within_mono wf_within_node by blast

lemma span_ok_report_node:
  "wf_within b n \<Longrightarrow> b \<le> len \<Longrightarrow> span_ok len (report m (nstart n) (nend n))"
  using wf_within_node [of b n] by (simp add: span_ok_def report_def)

lemma span_ok_report [simp]:
  "span_ok len (report m s e) = (0 \<le> s \<and> s \<le> e \<and> e \<le> len)"
  by (simp add: span_ok_def report_def)

lemma span_ok_withFix [simp]: "span_ok len (withFix d desc tc) = span_ok len d"
  by (simp add: span_ok_def withFix_def)

lemma run_all_diags:
  "\<forall>x \<in> set xs. \<forall>d \<in> set (fst (f x)). P d \<Longrightarrow> \<forall>d \<in> set (fst (run_all f xs)). P d"
proof (induction xs)
  case Nil
  then show ?case by simp
next
  case (Cons x xs)
  then have "\<forall>d \<in> set (fst (f x)). P d" "\<forall>d \<in> set (fst (run_all f xs)). P d"
    by simp_all
  then show ?case
    by (auto split: prod.splits completion.splits)
qed

lemma traverse_spans:
  "cb_spans_ok len cb \<Longrightarrow> wf_within b n \<Longrightarrow> b \<le> len \<Longrightarrow>
   \<forall>d \<in> set (fst (traverse cb ancestors n)). span_ok len d"
proof (induction cb ancestors n arbitrary: b rule: traverse.induct)
  case (1 cb ancestors n)
  have here: "\<forall>d \<in> set (fst (cb ancestors n)). span_ok len d"
    using "1.prems" unfolding cb_spans_ok_def by blast
  show ?case
  proof (cases "cb ancestors n")
    case (Pair ds out)
    show ?thesis
    proof (cases out)
      case Descend
      have "\<forall>c \<in> set (forEachChild n).
              \<forall>d \<in> set (fst (traverse cb (n # ancestors) c)). span_ok len d"
      proof
        fix c assume c: "c \<in> set (forEachChild n)"
        have "wf_within b c" using "1.prems"(2) c by (rule wf_within_child_mono)
        from "1.IH" [OF Pair [symmetric] Descend c "1.prems"(1) this "1.prems"(3)]
        show "\<forall>d \<in> set (fst (traverse cb (n # ancestors) c)). span_ok len d" .
      qed
      then have "\<forall>d \<in> set (fst (run_all (traverse cb (n # ancestors)) (forEachChild n))). span_ok len d"
        by (rule run_all_diags)
      with here Pair Descend show ?thesis
        by (subst traverse.simps) (auto split: prod.splits)
    next
      case Return
      with here Pair show ?thesis by (subst traverse.simps) auto
    next
      case (Throw e)
      with here Pair show ?thesis by (subst traverse.simps) auto
    next
      case Diverge
      with here Pair show ?thesis by (subst traverse.simps) auto
    qed
  qed
qed

lemma forEachChild_traverse_spans:
  assumes cb: "cb_spans_ok len cb" and root: "wf_within len root"
  shows "\<forall>d \<in> set (fst (forEachChild_traverse cb root)). span_ok len d"
  unfolding forEachChild_traverse_def
proof (rule run_all_diags, rule ballI)
  fix c assume "c \<in> set (forEachChild root)"
  with root have "wf_within len c" by (rule wf_within_child_mono)
  with cb show "\<forall>d \<in> set (fst (traverse cb [root] c)). span_ok len d"
    by (rule traverse_spans) simp
qed


lemma clauses_children: "c \<in> set (clauses caseBlock) \<Longrightarrow> c \<in> set (forEachChild caseBlock)"
  by (cases "shape caseBlock") (auto simp: clauses_def forEachChild_def)

lemma wf_within_clause:
  assumes "wf_within b n" and "shape n = SwitchStatementN expression caseBlock"
    and "c \<in> set (clauses caseBlock)"
  shows "wf_within b c"
proof -
  have "caseBlock \<in> set (forEachChild n)"
    using assms(2) by (simp add: forEachChild_def)
  with assms(1) have "wf_within b caseBlock" by (rule wf_within_child_mono)
  then show ?thesis using clauses_children [OF assms(3)] by (rule wf_within_child_mono)
qed

lemma switch_cb_spans:
  assumes "wf_within b n" and "b \<le> len"
  shows "\<forall>d \<in> set (switch_cb opts chk sf n). span_ok len d"
proof (cases "shape n")
  case (SwitchStatementN expression caseBlock)
  let ?m = "getSwitchMetadata chk expression caseBlock"
  have self: "span_ok len (report m (nstart n) (nend n))" for m
    using assms by (rule span_ok_report_node)
  have a: "\<forall>d \<in> set (checkSwitchExhaustive chk sf n caseBlock ?m). span_ok len d"
    using self by (simp add: checkSwitchExhaustive_def)
  have b: "\<forall>d \<in> set (checkSwitchUnnecessaryDefaultCase (allowDefaultCaseForExhaustiveSwitch opts) ?m).
             span_ok len d"
  proof (cases "defaultCase ?m")
    case None
    then show ?thesis by (simp add: checkSwitchUnnecessaryDefaultCase_def)
  next
    case (Some dc)
    then have "find (\<lambda>c. kind c = DefaultClause) (clauses caseBlock) = Some dc"
      by (simp add: defaultCase_eq)
    then have "dc \<in> set (clauses caseBlock)"
      by (auto simp: find_Some_iff)
    with assms(1) SwitchStatementN have "wf_within b dc" by (rule wf_within_clause)
    then have "span_ok len (report m (nstart dc) (nend dc))" for m
      using assms(2) by (rule span_ok_report_node)
    with Some show ?thesis by (simp add: checkSwitchUnnecessaryDefaultCase_def)
  qed
  have "expression \<in> set (forEachChild n)"
    using SwitchStatementN by (simp add: forEachChild_def)
  with assms(1) have "wf_within (nend n) expression" by (rule wf_within_child)
  then have "0 \<le> nstart expression \<and> nstart expression \<le> nend n"
    using wf_within_node [of "nend n" expression] by simp
  moreover have "nend n \<le> len"
    using wf_within_node [OF assms(1)] assms(2) by simp
  ultimately have c: "\<forall>d \<in> set (checkSwitchNoUnionDefaultCase (requireDefaultForNonUnion opts) chk sf n
                        expression caseBlock ?m). span_ok len d"
    by (simp add: checkSwitchNoUnionDefaultCase_def)
  from a b c SwitchStatementN show ?thesis
    by (auto simp: switch_cb_def Let_def)
qed (simp_all add: switch_cb_def)

lemma assertion_cb_spans:
  assumes "wf_within b n" and "b \<le> len"
  shows "\<forall>d \<in> set (fst (assertion_cb typesToIgnore chk copts tu sf ancestors n)). span_ok len d"
proof -
  have self: "span_ok len (report m (nstart n) (nend n))" for m
    using assms by (rule span_ok_report_node)
  have nn: "\<forall>d \<in> set (fst (checkNonNullExpression chk copts tu ancestors n e)). span_ok len d" for e
    using self
    by (auto simp: checkNonNullExpression_def Let_def
        split: option.splits sum.splits bool.splits if_splits list.splits node_shape.splits)
  have ta: "\<forall>d \<in> set (fst (checkTypeAssertion typesToIgnore chk copts sf ancestors n e ty)). span_ok len d"
    for e ty
    using self
    by (auto simp: checkTypeAssertion_def Let_def split: option.splits sum.splits if_splits)
  show ?thesis
    using nn ta by (auto simp: assertion_cb_def split: node_shape.splits)
qed

lemma duplicateLabels_spans:
  assumes "\<forall>c \<in> set cls. wf_within b c" and "b \<le> len"
  shows "\<forall>d \<in> set (duplicateLabels sf seen cls). span_ok len d"
  using assms(1)
proof (induction cls arbitrary: seen)
  case Nil
  then show ?case by simp
next
  case (Cons c cls)
  then have "wf_within b c" by simp
  then have "span_ok len (report m (nstart c) (nend c))" for m
    using assms(2) by (rule span_ok_report_node)
  with Cons show ?case
    by (auto simp: Let_def split: node_shape.splits)
qed

lemma duplicateCase_cb_spans:
  assumes "wf_within b n" and "b \<le> len"
  shows "\<forall>d \<in> set (duplicateCase_cb sf n). span_ok len d"
proof (cases "shape n")
  case (SwitchStatementN expression caseBlock)
  have "\<forall>c \<in> set (clauses caseBlock). wf_within b c"
    using assms(1) SwitchStatementN by (auto intro: wf_within_clause)
  then have "\<forall>d \<in> set (duplicateLabels sf [] (clauses caseBlock)). span_ok len d"
    using assms(2) by (rule duplicateLabels_spans)
  with SwitchStatementN show ?thesis by (simp add: duplicateCase_cb_def)
qed (simp_all add: duplicateCase_cb_def)

lemma expectError_cb_spans:
  assumes "comments_ok sf"
  shows "\<forall>d \<in> set (expectError_cb sf n). span_ok (int (length (sf_text sf))) d"
proof (cases "getLeadingCommentRanges sf (pos n)")
  case None
  then show ?thesis by (simp add: expectError_cb_def)
next
  case (Some cs)
  with assms have "\<forall>c \<in> set cs. 0 \<le> cpos c \<and> cpos c \<le> cend c \<and> cend c \<le> int (length (sf_text sf))"
    unfolding comments_ok_def by blast
  with Some show ?thesis
    by (auto simp: expectError_cb_def)
qed


lemma checkNode_judge_spans:
  assumes "wf_within b n" and "b \<le> len"
  shows "\<forall>d \<in> set (checkNode_judge env n f). span_ok len d"
  using span_ok_report_node [OF assms]
  by (auto simp: checkNode_judge_def Let_def split: option.splits if_splits)

lemma checkNode_spans:
  "wf_within b n \<Longrightarrow> b \<le> len \<Longrightarrow> \<forall>d \<in> set (checkNode env n f). span_ok len d"
proof (induction env n f arbitrary: b rule: checkNode.induct)
  case (1 env i p s e operator operand isUnaryNotArgument)
  let ?n = "Node i p s e (PrefixUnaryExpressionN operator operand)"
  have "operand \<in> set (forEachChild ?n)" by (simp add: forEachChild_def)
  with "1.prems"(1) have "wf_within b operand" by (rule wf_within_child_mono)
  with "1.IH" "1.prems"(2) have "operator = ExclamationToken \<Longrightarrow>
      \<forall>d \<in> set (checkNode env operand True). span_ok len d"
    by blast
  with checkNode_judge_spans [OF "1.prems"] show ?case by simp
next
  case (2 env i p s e left operatorToken right isUnaryNotArgument)
  let ?n = "Node i p s e (BinaryExpressionN left operatorToken right)"
  have "right \<in> set (forEachChild ?n)" by (simp add: forEachChild_def)
  with "2.prems"(1) have "wf_within b right" by (rule wf_within_child_mono)
  with "2.IH" "2.prems"(2) have "\<not> isArrayIndexExpression env ?n \<Longrightarrow>
      kind operatorToken \<noteq> QuestionQuestionToken \<Longrightarrow>
      \<forall>d \<in> set (checkNode env right False). span_ok len d"
    by blast
  with checkNode_judge_spans [OF "2.prems"] show ?case by simp
qed (use checkNode_judge_spans in \<open>simp_all\<close>)

lemma checkNodeForNullish_spans:
  assumes "wf_within b n" and "b \<le> len" and "checkNodeForNullish env n = Some ds"
  shows "\<forall>d \<in> set ds. span_ok len d"
  using span_ok_report_node [OF assms(1,2)] assms(3)
  by (auto simp: checkNodeForNullish_def Let_def split: option.splits if_splits bool.splits)

lemma tryCatch_spans:
  "(\<And>ds. r = Some ds \<Longrightarrow> \<forall>d \<in> set ds. span_ok len d) \<Longrightarrow> \<forall>d \<in> set (tryCatch r). span_ok len d"
  by (cases r) (simp_all add: tryCatch_def)

lemma checkOptionalChain_spans:
  assumes "wf_within b expression" and "b \<le> len"
    and "checkOptionalChain env n expression q fx = Some ds"
  shows "\<forall>d \<in> set ds. span_ok len d"
proof -
  have tok: "getTokenAfter cs expression c = Some t \<Longrightarrow> t = expression" for cs c t
    by (simp add: getTokenAfter_eq split: if_splits)
  have "span_ok len (report m (nstart expression) (nend expression))" for m
    using assms(1,2) by (rule span_ok_report_node)
  with assms(3) show ?thesis
    by (auto simp: checkOptionalChain_def nullThrows_def dest!: tok
        split: option.splits if_splits bool.splits sum.splits)
qed


lemma directlyReturned_wf:
  assumes "wf_within b callback" and "directlyReturned callback = Some e"
  shows "wf_within b e"
proof -
  have ofBody: "wf_within b e"
    if body: "wf_within b body"
      and e: "(case shape body of
                 BlockN [stmt] \<Rightarrow> (case shape stmt of ReturnStatementN e \<Rightarrow> e | _ \<Rightarrow> None)
               | BlockN _ \<Rightarrow> None
               | _ \<Rightarrow> Some body) = Some e" for body
  proof (cases "shape body")
    case (BlockN stmts)
    with e obtain stmt where stmts: "stmts = [stmt]" and r: "shape stmt = ReturnStatementN (Some e)"
      by (auto split: list.splits node_shape.splits)
    have "stmt \<in> set (forEachChild body)" using BlockN stmts by (simp add: forEachChild_def)
    with body have "wf_within b stmt" by (rule wf_within_child_mono)
    moreover have "e \<in> set (forEachChild stmt)" using r by (simp add: forEachChild_def)
    ultimately show ?thesis by (rule wf_within_child_mono)
  qed (use e body in \<open>simp_all\<close>)
  show ?thesis
  proof (cases "shape callback")
    case (ArrowFunctionN ps body)
    then have "body \<in> set (forEachChild callback)" by (simp add: forEachChild_def)
    with assms(1) have "wf_within b body" by (rule wf_within_child_mono)
    then show ?thesis using assms(2) ArrowFunctionN by (intro ofBody) (simp_all add: directlyReturned_def)
  next
    case (FunctionExpressionN ps body)
    then have "body \<in> set (forEachChild callback)" by (simp add: forEachChild_def)
    with assms(1) have "wf_within b body" by (rule wf_within_child_mono)
    then show ?thesis using assms(2) FunctionExpressionN by (intro ofBody) (simp_all add: directlyReturned_def)
  qed (use assms(2) in \<open>simp_all add: directlyReturned_def\<close>)
qed

lemma checkCallExpression_spans:
  assumes "\<forall>a \<in> set arguments. wf_within b a" and "b \<le> len"
  shows "\<forall>d \<in> set (checkCallExpression env expression arguments). span_ok len d"
proof (cases "isArrayPredicateFunction env expression \<and> arguments \<noteq> []")
  case True
  then have cb: "wf_within b (hd arguments)" using assms(1) by simp
  then have self: "span_ok len (report m (nstart (hd arguments)) (nend (hd arguments)))" for m
    using assms(2) by (rule span_ok_report_node)
  show ?thesis
  proof (cases "directlyReturned (hd arguments)")
    case None
    with True self show ?thesis by (auto simp: checkCallExpression_def Let_def)
  next
    case (Some e)
    with cb have "wf_within b e" by (rule directlyReturned_wf)
    then have "\<forall>d \<in> set (checkNode env e False). span_ok len d"
      using assms(2) by (rule checkNode_spans)
    with True Some show ?thesis by (simp add: checkCallExpression_def)
  qed
qed (auto simp: checkCallExpression_def)

lemma checkIfLoopIsNecessaryConditional_spans:
  assumes "\<forall>t. test = Some t \<longrightarrow> wf_within b t" and "b \<le> len"
  shows "\<forall>d \<in> set (checkIfLoopIsNecessaryConditional env test). span_ok len d"
proof (cases test)
  case (Some t)
  with assms(1) have "wf_within b t" by simp
  then have "\<forall>d \<in> set (checkNode env t False). span_ok len d"
    using assms(2) by (rule checkNode_spans)
  with Some show ?thesis by (simp add: checkIfLoopIsNecessaryConditional_def)
qed (simp add: checkIfLoopIsNecessaryConditional_def)

lemma tryCatch_simps [simp]: "tryCatch None = []" "tryCatch (Some ds) = ds"
  by (simp_all add: tryCatch_def)

lemma condition_cb_spans:
  assumes "wf_within b n" and "b \<le> len"
  shows "\<forall>d \<in> set (condition_cb env n). span_ok len d"
proof -
  have child: "wf_within b c" if "c \<in> set (forEachChild n)" for c
    using assms(1) that by (rule wf_within_child_mono)
  have self: "span_ok len (report m (nstart n) (nend n))" for m
    using assms by (rule span_ok_report_node)
  have cn: "\<forall>d \<in> set (checkNode env c f). span_ok len d" if "c \<in> set (forEachChild n)" for c f
    using child [OF that] assms(2) by (rule checkNode_spans)
  have nullish: "\<forall>d \<in> set (tryCatch (checkNodeForNullish env c)). span_ok len d"
    if "c \<in> set (forEachChild n)" for c
    using checkNodeForNullish_spans [OF child [OF that] assms(2)] by (rule tryCatch_spans)
  have chain: "\<forall>d \<in> set (tryCatch (checkOptionalChain env n c q fx)). span_ok len d"
    if "c \<in> set (forEachChild n)" for c q fx
    using checkOptionalChain_spans [OF child [OF that] assms(2)] by (rule tryCatch_spans)
  have loop: "\<forall>d \<in> set (checkIfLoopIsNecessaryConditional env t). span_ok len d"
    if "\<forall>c. t = Some c \<longrightarrow> c \<in> set (forEachChild n)" for t
    using that child assms(2) by (intro checkIfLoopIsNecessaryConditional_spans) auto
  have call: "\<forall>d \<in> set (checkCallExpression env e args). span_ok len d"
    if "set args \<subseteq> set (forEachChild n)" for e args
    using that child assms(2) by (intro checkCallExpression_spans) auto
  have bin: "\<forall>d \<in> set (checkIfBinaryExpressionIsNecessaryConditional env n l op r). span_ok len d"
    for l op r
    using self by (simp add: checkIfBinaryExpressionIsNecessaryConditional_def Let_def)
  note defs = condition_cb_def run_branch_def checkOptionalMemberExpression_def
    checkOptionalCallExpression_def
  show ?thesis
  proof (cases "shape n")
    case (BinaryExpressionN l op r)
    then have l: "l \<in> set (forEachChild n)" by (simp add: forEachChild_def)
    have "\<forall>d \<in> set (tryCatch (checkLogicalExpressionForUnnecessaryConditionals env l op)). span_ok len d"
      using nullish [OF l] cn [OF l]
      by (simp add: checkLogicalExpressionForUnnecessaryConditionals_def)
    with BinaryExpressionN nullish [OF l] cn [OF l] bin show ?thesis
      by (simp add: defs split: branch.splits)
  next
    case (CallExpressionN e q tas args)
    then have "set args \<subseteq> set (forEachChild n)" and "e \<in> set (forEachChild n)"
      by (auto simp: forEachChild_def split: option.splits)
    with CallExpressionN call chain show ?thesis
      by (simp add: defs split: branch.splits)
  next
    case (ConditionalExpressionN c q t co f)
    then have "c \<in> set (forEachChild n)" by (simp add: forEachChild_def)
    with ConditionalExpressionN cn show ?thesis
      by (simp add: defs split: branch.splits)
  next
    case (DoStatementN st e)
    then have "\<forall>c. Some e = Some c \<longrightarrow> c \<in> set (forEachChild n)" by (simp add: forEachChild_def)
    then have "\<forall>d \<in> set (checkIfLoopIsNecessaryConditional env (Some e)). span_ok len d" by (rule loop)
    with DoStatementN show ?thesis
      by (simp add: defs split: branch.splits)
  next
    case (WhileStatementN e st)
    then have "\<forall>c. Some e = Some c \<longrightarrow> c \<in> set (forEachChild n)" by (simp add: forEachChild_def)
    then have "\<forall>d \<in> set (checkIfLoopIsNecessaryConditional env (Some e)). span_ok len d" by (rule loop)
    with WhileStatementN show ?thesis
      by (simp add: defs split: branch.splits)
  next
    case (ForStatementN i c inc st)
    then have "\<forall>x. c = Some x \<longrightarrow> x \<in> set (forEachChild n)"
      by (auto simp: forEachChild_def split: option.splits)
    then have "\<forall>d \<in> set (checkIfLoopIsNecessaryConditional env c). span_ok len d" by (rule loop)
    with ForStatementN show ?thesis
      by (simp add: defs split: branch.splits)
  next
    case (IfStatementN e t el)
    then have "e \<in> set (forEachChild n)" by (simp add: forEachChild_def)
    with IfStatementN cn show ?thesis
      by (simp add: defs split: branch.splits)
  next
    case (PropertyAccessExpressionN e q nm)
    then have "e \<in> set (forEachChild n)" by (simp add: forEachChild_def)
    with PropertyAccessExpressionN chain show ?thesis
      by (simp add: defs split: branch.splits)
  next
    case (ElementAccessExpressionN e q nm)
    then have "e \<in> set (forEachChild n)" by (simp add: forEachChild_def)
    with ElementAccessExpressionN chain show ?thesis
      by (simp add: defs split: branch.splits)
  qed (simp_all add: defs split: branch.splits)
qed

lemma nullish_cb_spans:
  assumes "wf_within b n" and "b \<le> len"
  shows "\<forall>d \<in> set (fst (nullish_cb env ancestors n)). span_ok len d"
proof -
  have self: "span_ok len (report m (nstart n) (nend n))" for m
    using assms by (rule span_ok_report_node)
  have ternary: "\<forall>d \<in> set (fst (checkTernary env n c t f)). span_ok len d" for c t f
    using self
    by (auto simp: checkTernary_def Let_def split: option.splits prod.splits if_splits)
  have tok: "getTokenAfter cs l c = Some t \<Longrightarrow> t = l" for cs c t l
    by (simp add: getTokenAfter_eq split: if_splits)
  have lor: "\<forall>d \<in> set (fst (checkLogicalOr env ancestors n l op r)). span_ok len d"
    if "l \<in> set (forEachChild n)" for l op r
  proof -
    from assms(1) that have "wf_within b l" by (rule wf_within_child_mono)
    then have "span_ok len (report m (nstart l) (nend l))" for m
      using assms(2) by (rule span_ok_report_node)
    then show ?thesis
      by (auto simp: checkLogicalOr_def Let_def nullThrows_def dest!: tok
          split: option.splits sum.splits if_splits)
  qed
  show ?thesis
  proof (cases "shape n")
    case (BinaryExpressionN l op r)
    then have "l \<in> set (forEachChild n)" by (simp add: forEachChild_def)
    with BinaryExpressionN lor show ?thesis by (simp add: nullish_cb_def)
  next
    case (ConditionalExpressionN c q t co f)
    with ternary show ?thesis by (simp add: nullish_cb_def)
  qed (simp_all add: nullish_cb_def)
qed

lemma always_descend_spans:
  "(\<And>b n. wf_within b n \<Longrightarrow> b \<le> len \<Longrightarrow> \<forall>d \<in> set (cb n). span_ok len d) \<Longrightarrow>
   cb_spans_ok len (always_descend cb)"
  by (simp add: cb_spans_ok_def always_descend_def)

lemma with_config_spans:
  assumes "\<forall>d \<in> set (fst r). span_ok len d" and "\<forall>d \<in> set cfg. span_ok len d"
  shows "\<forall>d \<in> set (fst (case r of (ds, c) \<Rightarrow> (cfg @ ds, c))). span_ok len d"
  using assms by (cases r) auto


lemma duplicateCase_rule_spans:
  assumes "wf_within len root"
  shows "\<forall>d \<in> set (fst (duplicateCase_rule sf root)). span_ok len d"
  unfolding duplicateCase_rule_def
proof (rule forEachChild_traverse_spans [OF _ assms])
  show "cb_spans_ok len (always_descend (duplicateCase_cb sf))"
    by (rule always_descend_spans) (rule duplicateCase_cb_spans)
qed

lemma expectError_rule_spans:
  assumes "wf_within (int (length (sf_text sf))) root" and "comments_ok sf"
  shows "\<forall>d \<in> set (fst (expectError_rule sf root)). span_ok (int (length (sf_text sf))) d"
  unfolding expectError_rule_def
proof (rule forEachChild_traverse_spans [OF _ assms(1)])
  show "cb_spans_ok (int (length (sf_text sf))) (always_descend (expectError_cb sf))"
    by (rule always_descend_spans) (rule expectError_cb_spans [OF assms(2)])
qed

lemma assertion_rule_spans:
  assumes "wf_within len root"
  shows "\<forall>d \<in> set (fst (assertion_rule typesToIgnore chk copts tu sf root)). span_ok len d"
  unfolding assertion_rule_def
proof (rule forEachChild_traverse_spans [OF _ assms])
  show "cb_spans_ok len (assertion_cb typesToIgnore chk copts tu sf)"
    unfolding cb_spans_ok_def using assertion_cb_spans by blast
qed

lemma switch_rule_spans:
  assumes "wf_within len root"
  shows "\<forall>d \<in> set (fst (switch_rule opts chk sf root)). span_ok len d"
  unfolding switch_rule_def
proof (rule forEachChild_traverse_spans [OF _ assms])
  show "cb_spans_ok len (always_descend (switch_cb opts chk sf))"
    by (rule always_descend_spans) (rule switch_cb_spans)
qed

lemma wf_within_nonneg: "wf_within len root \<Longrightarrow> 0 \<le> len"
  using wf_within_node [of len root] by simp

lemma nullish_rule_spans:
  assumes "wf_within len root"
  shows "\<forall>d \<in> set (fst (nullish_rule env root)). span_ok len d"
  unfolding nullish_rule_def
proof (rule with_config_spans)
  have "cb_spans_ok len (nullish_cb env)"
    unfolding cb_spans_ok_def using nullish_cb_spans by blast
  then show "\<forall>d \<in> set (fst (forEachChild_traverse (nullish_cb env) root)). span_ok len d"
    using assms by (rule forEachChild_traverse_spans)
  show "\<forall>d \<in> set (nullish_config_report env). span_ok len d"
    using wf_within_nonneg [OF assms] by (simp add: nullish_config_report_def)
qed

lemma condition_rule_spans:
  assumes "wf_within len root"
  shows "\<forall>d \<in> set (fst (condition_rule env root)). span_ok len d"
  unfolding condition_rule_def
proof (rule with_config_spans)
  have "cb_spans_ok len (always_descend (condition_cb env))"
    by (rule always_descend_spans) (rule condition_cb_spans)
  then show "\<forall>d \<in> set (fst (forEachChild_traverse (always_descend (condition_cb env)) root)).
               span_ok len d"
    using assms by (rule forEachChild_traverse_spans)
  show "\<forall>d \<in> set (condition_config_report env). span_ok len d"
    using wf_within_nonneg [OF assms] by (simp add: condition_config_report_def)
qed

text \<open>
  Claim C5.  On a source file whose nodes have their positions within the text (each node
  starts at or after 0, ends at or after its start and within its parent, the root within
  the text) and whose leading comment ranges are within the text, every diagnostic that a
  rule reports has \<open>0 \<le> start \<le> end \<le> length of the text\<close>.  This holds for each of the
  six rules, whatever their options and whatever the type checker answers, also when the
  walk ends early, and includes the diagnostic at \<open>(0, 0)\<close> of a disabled
  \<^verbatim>\<open>strictNullChecks\<close>.
\<close>

theorem reported_spans_within_source_file:
  assumes "wf_within (int (length (sf_text sf))) sourceFile" and "comments_ok sf"
  shows "\<forall>d \<in> set (fst (run_rule rule sf sourceFile)). span_ok (int (length (sf_text sf))) d"
proof (cases rule)
  case NoDuplicateCase
  show ?thesis unfolding NoDuplicateCase run_rule.simps
    using assms(1) by (rule duplicateCase_rule_spans)
next
  case PreferTsExpectError
  show ?thesis unfolding PreferTsExpectError run_rule.simps
    using assms by (rule expectError_rule_spans)
next
  case (NoUnnecessaryTypeAssertion typesToIgnore chk copts tu)
  show ?thesis unfolding NoUnnecessaryTypeAssertion run_rule.simps
    using assms(1) by (rule assertion_rule_spans)
next
  case (PreferNullishCoalescing env)
  show ?thesis unfolding PreferNullishCoalescing run_rule.simps
    using assms(1) by (rule nullish_rule_spans)
next
  case (SwitchExhaustivenessCheck opts chk)
  show ?thesis unfolding SwitchExhaustivenessCheck run_rule.simps
    using assms(1) by (rule switch_rule_spans)
next
  case (NoUnnecessaryCondition env)
  show ?thesis unfolding NoUnnecessaryCondition run_rule.simps
    using assms(1) by (rule condition_rule_spans)
qed

lemma ex_ifFile_wf: "wf_within 15 ex_ifFile"
  by (simp add: ex_ifFile_def ex_comparison_def wf_within.simps forEachChild_def)

lemma ex_ifText_comments: "comments_ok ex_ifText"
  by (simp add: comments_ok_def ex_ifText_def ex_sourceFile_def)

lemma ex_ifText_length: "int (length (sf_text ex_ifText)) = 15"
  by (simp add: ex_ifText_def js_str_def)




lemma ex_loose_run:
  "map (\<lambda>d. (dstart d, dend d))
     (fst (run_rule (NoUnnecessaryCondition ex_looseEnv) ex_ifText ex_ifFile)) =
     [(0, 0), (10, 11), (4, 11)]"
proof -
  let ?env = "ex_looseEnv\<lparr>c_sourceFile := ex_ifText\<rparr>"
  let ?one = "Node 63 9 10 11 (OtherN 9 [])"
  let ?if = "Node 101 0 0 15 (IfStatementN ex_comparison (Node 102 12 13 15 (BlockN [])) None)"
  have ty: "typeAt ?env m = ex_typeOne" for m
    by (simp add: typeAt_def ex_looseEnv_def ex_env_def ex_conditionChecker_def
        getConstrainedTypeAtLocation_def ex_checker_def)
  have q: "c_queries ?env = ex_queries"
    by (simp add: ex_looseEnv_def ex_env_def)
  have cfg: "condition_config_report ?env = [report msg_strictNullChecks 0 0]"
    by (simp add: condition_config_report_def ex_looseEnv_def ex_env_def)
  have cmp: "condition_cb ?env ex_comparison = [report msg_literalBooleanExpression 4 11]"
    by (simp add: condition_cb_def dispatch_def run_branch_def ex_comparison_def kind_def
        operatorKind_def checkIfBinaryExpressionIsNecessaryConditional_def BOOL_OPERATORS_def
        ty isLiteral_def ex_typeOne_def isBooleanLiteralType_def tsutils_isTypeFlagSet_def
        isLiteral_method_def Let_def)
  have judge: "checkNode_judge ?env ?one False = [report msg_alwaysTruthy 10 11]"
    by (simp add: checkNode_judge_def ty q Let_def ex_queries_def ex_typeOne_def
        unionTypeParts_def intersectionTypeParts_def tsutils_isTypeFlagSet_def
        isPossiblyTruthy_def isPossiblyFalsy_def isTruthyLiteral_def isLiteral_method_def
        js_truthy_def isTrueLiteralType_def isBooleanLiteralType_def)
  have "checkNode ?env ex_comparison False = checkNode ?env ?one False"
    by (simp add: ex_comparison_def isArrayIndexExpression_def kind_def)
  also have "\<dots> = [report msg_alwaysTruthy 10 11]"
    by (simp add: isArrayIndexExpression_def judge)
  finally have ifs: "condition_cb ?env ?if = [report msg_alwaysTruthy 10 11]"
    by (simp add: condition_cb_def dispatch_def run_branch_def kind_def)
  have leaf: "condition_cb ?env (Node i p s e (OtherN 9 [])) = []"
    "condition_cb ?env (Node i p s e (Leaf k)) = []"
    "condition_cb ?env (Node i p s e (BlockN [])) = []" for i p s e k
    by (auto simp add: condition_cb_def dispatch_def run_branch_def kind_def questionDotToken_def)
  have kids: "forEachChild ex_comparison = [Node 61 4 4 5 (OtherN 9 []),
        Node 62 5 6 9 (Leaf EqualsEqualsEqualsToken), ?one]"
    "forEachChild ?if = [ex_comparison, Node 102 12 13 15 (BlockN [])]"
    "forEachChild (Node i p s e (OtherN 9 [])) = []"
    "forEachChild (Node i p s e (Leaf k)) = []"
    "forEachChild (Node i p s e (BlockN [])) = []"
    "forEachChild ex_ifFile = [?if]" for i p s e k
    by (simp_all add: forEachChild_def ex_comparison_def ex_ifFile_def)
  have "fst (run_rule (NoUnnecessaryCondition ex_looseEnv) ex_ifText ex_ifFile) =
      [report msg_strictNullChecks 0 0, report msg_alwaysTruthy 10 11,
       report msg_literalBooleanExpression 4 11]"
    by (simp add: condition_rule_def forEachChild_traverse_def traverse.simps always_descend_def
        kids cfg cmp ifs leaf)
  then show ?thesis by (simp add: report_def)
qed

theorem reported_spans_within_source_file_witness:
  "wf_within (int (length (sf_text ex_ifText))) ex_ifFile
   \<and> comments_ok ex_ifText
   \<and> map (\<lambda>d. (dstart d, dend d))
        (fst (run_rule (NoUnnecessaryCondition ex_looseEnv) ex_ifText ex_ifFile)) =
      [(0, 0), (10, 11), (4, 11)]
   \<and> list_all (span_ok (int (length (sf_text ex_ifText))))
        (fst (run_rule (NoUnnecessaryCondition ex_looseEnv) ex_ifText ex_ifFile))"
  using reported_spans_within_source_file
          [of ex_ifText ex_ifFile "NoUnnecessaryCondition ex_looseEnv"]
        ex_ifFile_wf ex_ifText_comments ex_loose_run
  by (simp add: ex_ifText_length list_all_iff)

end
